theory Spec2Isabelle
  imports Main
begin

section \<open>NanoBanana PRO: the poster-generation orchestrator\<close>

text \<open>
  A shallow embedding of \<^verbatim>\<open>src/main.ts\<close> (class \<^verbatim>\<open>NanoBananaPlugin\<close>) and of the
  input handling of \<^verbatim>\<open>src/quickOptionsModal.ts\<close>. The plugin object is a record that
  is passed through every method and returned updated; the host (vault, workspace,
  provider services, modals answered by the user) is a record of functions over an
  arbitrary world type. Everything the plugin does that is visible from outside
  (notices, provider calls, delays, progress-modal calls) is appended to a trace.
\<close>

subsection \<open>Numbers and strings of the host language\<close>

text \<open>
  A \<^verbatim>\<open>number\<close> is an integer or \<^verbatim>\<open>NaN\<close>: the only numbers the modelled code computes
  come from \<^verbatim>\<open>parseInt\<close>, which yields an integer or \<^verbatim>\<open>NaN\<close>, and from the stored panel
  count. Fractions and infinities are not modelled, and integers are exact: the rounding
  of an integer beyond \<open>2 ^ 53\<close> to a double is not modelled.
\<close>

datatype number = NaN | Num int

fun Math_min :: "number \<Rightarrow> number \<Rightarrow> number" where
  "Math_min (Num a) (Num b) = Num (min a b)"
| "Math_min _ _ = NaN"

fun Math_max :: "number \<Rightarrow> number \<Rightarrow> number" where
  "Math_max (Num a) (Num b) = Num (max a b)"
| "Math_max _ _ = NaN"

text \<open>\<^verbatim>\<open>a || b\<close> on numbers: \<^verbatim>\<open>NaN\<close> and \<^verbatim>\<open>0\<close> are the falsy numbers.\<close>

fun or_else :: "number \<Rightarrow> number \<Rightarrow> number" where
  "or_else NaN b = b"
| "or_else (Num a) b = (if a = 0 then b else Num a)"

text \<open>
  A string is a list of 8-bit characters, read as the code units \<^verbatim>\<open>U+0000\<close> to \<^verbatim>\<open>U+00FF\<close>;
  strings with other code units are outside the model. White space is what \<^verbatim>\<open>trim\<close> and
  \<^verbatim>\<open>parseInt\<close> skip, the white space and the line terminators of the language: of the
  code units of the model these are tab, line feed, vertical tab, form feed, carriage
  return, space and the no-break space \<^verbatim>\<open>U+00A0\<close>.
\<close>

definition isWhiteSpace :: "char \<Rightarrow> bool" where
  "isWhiteSpace c \<longleftrightarrow>
     c = CHR '' '' \<or> c = CHR 0x09 \<or> c = CHR 0x0A \<or> c = CHR 0x0B \<or> c = CHR 0x0C \<or> c = CHR 0x0D
     \<or> c = CHR 0xA0"

definition trim :: "string \<Rightarrow> string" where
  "trim s = rev (dropWhile isWhiteSpace (rev (dropWhile isWhiteSpace s)))"

definition digitValue :: "char \<Rightarrow> nat option" where
  "digitValue c =
     (let k = (of_char c :: nat) in
      if 48 \<le> k \<and> k \<le> 57 then Some (k - 48)
      else if 97 \<le> k \<and> k \<le> 122 then Some (k - 87)
      else if 65 \<le> k \<and> k \<le> 90 then Some (k - 55)
      else None)"

definition isRadixDigit :: "nat \<Rightarrow> char \<Rightarrow> bool" where
  "isRadixDigit R c = (case digitValue c of Some d \<Rightarrow> d < R | None \<Rightarrow> False)"

definition digitsValue :: "nat \<Rightarrow> string \<Rightarrow> int" where
  "digitsValue R Z = foldl (\<lambda>acc c. acc * int R + int (the (digitValue c))) 0 Z"

text \<open>
  \<^verbatim>\<open>parseInt(string)\<close> with no radix argument: leading white space is skipped, one sign
  is read, a \<^verbatim>\<open>0x\<close> or \<^verbatim>\<open>0X\<close> prefix selects radix 16, the longest run of digits of the
  radix is read, and no digit at all gives \<^verbatim>\<open>NaN\<close>.
\<close>

definition parseInt :: "string \<Rightarrow> number" where
  "parseInt inputString =
     (let S = dropWhile isWhiteSpace inputString;
          sign = (if S \<noteq> [] \<and> hd S = CHR ''-'' then - 1 else (1::int));
          S1 = (if S \<noteq> [] \<and> (hd S = CHR ''+'' \<or> hd S = CHR ''-'') then tl S else S);
          stripPrefix = (length S1 \<ge> 2 \<and> (take 2 S1 = ''0x'' \<or> take 2 S1 = ''0X''));
          R = (if stripPrefix then 16 else 10);
          S2 = (if stripPrefix then drop 2 S1 else S1);
          Z = takeWhile (isRadixDigit R) S2
      in if Z = [] then NaN else Num (sign * digitsValue R Z))"

subsection \<open>The types shared by the plugin and its modals\<close>

datatype ErrorType =
  INVALID_API_KEY | RATE_LIMIT | NETWORK_ERROR | GENERATION_FAILED | CONTENT_FILTERED | NO_CONTENT

record GenerationError =
  type :: ErrorType
  message :: string
  retryable :: bool
  details :: "string option"

text \<open>
  What a \<^verbatim>\<open>catch\<close> clause can receive. Modelled from the spec: the declaration of
  \<^verbatim>\<open>GenerationErrorClass\<close> (\<^verbatim>\<open>types.ts\<close>) is not among the sources; the spec has a typed
  error pass through the orchestrator unchanged, so the class is taken to extend
  \<^verbatim>\<open>Error\<close>, carrying the four fields that \<^verbatim>\<open>toGenerationError\<close> reads. \<open>PlainError m\<close> is any
  other \<^verbatim>\<open>Error\<close> with message \<open>m\<close>; \<open>NonError t\<close> is a thrown value that is no \<^verbatim>\<open>Error\<close>,
  with \<open>t\<close> its \<^verbatim>\<open>String(...)\<close> rendering.
\<close>

datatype thrown =
  GenerationErrorClass GenerationError
| PlainError string
| NonError string

datatype AIProvider = openai | google | anthropic | xai | other_provider string

datatype ImageStyle = infographic | poster | diagram | mindmap | timeline | cartoon

datatype ImageSize = size_1K | size_2K | size_4K

datatype CartoonCuts = cuts_4 | cuts_6 | cuts_8 | custom

text \<open>The string behind each selector value, as the dropdown of the options modal lists them.\<close>

fun CartoonCuts_string :: "CartoonCuts \<Rightarrow> string" where
  "CartoonCuts_string cuts_4 = ''4''"
| "CartoonCuts_string cuts_6 = ''6''"
| "CartoonCuts_string cuts_8 = ''8''"
| "CartoonCuts_string custom = ''custom''"

datatype ProgressStep =
  analyzing | generating_prompt | generating_image | saving | embedding | complete

datatype TFile = TFile (path: string)

datatype TAbstractFile = IsFile TFile | IsFolder string

record PromptResult =
  prompt :: string

record ImageResult =
  imageData :: string
  mimeType :: string

record NanoBananaSettings =
  selectedProvider :: AIProvider
  openaiApiKey :: string
  googleApiKey :: string
  anthropicApiKey :: string
  xaiApiKey :: string
  promptModel :: string
  imageModel :: string
  imageStyle :: ImageStyle
  imageSize :: ImageSize
  cartoonCuts :: CartoonCuts
  customCartoonCuts :: number
  preferredLanguage :: string
  attachmentFolder :: string
  autoRetryCount :: int
  showProgressModal :: bool
  showPreviewBeforeGeneration :: bool
  customPromptPrefix :: string

subsection \<open>\<^verbatim>\<open>getCartoonCutsNumber\<close> and \<^verbatim>\<open>toGenerationError\<close>\<close>

definition getCartoonCutsNumber :: "CartoonCuts \<Rightarrow> number \<Rightarrow> number" where
  "getCartoonCutsNumber cuts customCuts =
     (if cuts = custom then customCuts else parseInt (CartoonCuts_string cuts))"

fun toGenerationError :: "thrown \<Rightarrow> GenerationError" where
  "toGenerationError (GenerationErrorClass e) =
     \<lparr>type = type e, message = message e, retryable = retryable e, details = details e\<rparr>"
| "toGenerationError (PlainError m) =
     \<lparr>type = GENERATION_FAILED, message = m, retryable = False, details = None\<rparr>"
| "toGenerationError (NonError t) =
     \<lparr>type = GENERATION_FAILED, message = t, retryable = False, details = None\<rparr>"

subsection \<open>What the plugin does that can be seen from outside\<close>

text \<open>The texts shown by \<^verbatim>\<open>new Notice(...)\<close>, one constructor for each.\<close>

datatype notice =
  AlreadyInProgress
| OpenNoteFirst
| NoteIsEmpty
| ProviderKeyNotConfigured AIProvider
| GoogleKeyRequired
| NoteIsEmptyShort
| ProviderKeyNotConfiguredShort AIProvider
| PosterGenerated
| GenerationFailedNotice string
| GeneratingPrompt
| PromptCopied
| PromptFailedNotice string
| NoPreviousGeneration
| OriginalNoteNotFound
| NoteMovedOrDeleted
| PosterRegenerated
| RegenerationFailedNotice string

text \<open>
  An event of the trace. A call of a provider client is recorded with its arguments and
  with what it returned or threw: \<open>PromptCall noteContent provider model apiKey outcome\<close>,
  \<open>ImageCall prompt apiKey model style language size cartoonCuts outcome\<close>.
  \<open>UpdateProgress\<close> is a call of \<^verbatim>\<open>ProgressModal.updateProgress\<close>, with the step and the
  percentage of the state passed (the localised message is left out).
\<close>

datatype event =
  Notice notice
| PromptCall string AIProvider string string "thrown + PromptResult"
| ImageCall string string string ImageStyle string ImageSize number "thrown + ImageResult"
| Sleep nat
| ModalOpen
| ModalClose
| UpdateProgress ProgressStep nat
| ShowSuccess string
| ShowError GenerationError
| UnhandledRejection thrown

subsection \<open>The options modal (\<^verbatim>\<open>quickOptionsModal.ts\<close>)\<close>

record QuickOptionsResult =
  confirmed :: bool
  imageStyle_r :: ImageStyle
  imageSize_r :: ImageSize
  cartoonCuts_r :: CartoonCuts
  customCartoonCuts_r :: number

record QuickOptionsModal =
  selectedStyle :: ImageStyle
  selectedSize :: ImageSize
  selectedCartoonCuts :: CartoonCuts
  selectedCustomCuts :: number

text \<open>
  What the user can do in the modal before pressing a button: change one of the
  dropdowns, or type into the custom panel count field.
\<close>

datatype ui_input =
  StyleDropdown ImageStyle
| CutsDropdown CartoonCuts
| CustomCutsText string
| SizeDropdown ImageSize

text \<open>
  The \<^verbatim>\<open>onChange\<close> handlers. \<^verbatim>\<open>updateCartoonSettings\<close> rebuilds the cartoon controls
  after every change of style or selector: the selector dropdown exists only while the
  style is cartoon, the text field only while moreover the selector is \<^verbatim>\<open>custom\<close>. An
  input to a control that does not exist cannot happen and leaves the modal as it is.
\<close>

definition clampCustomCuts :: "string \<Rightarrow> number" where
  "clampCustomCuts v =
     (let numValue = or_else (parseInt v) (Num 4)
      in Math_max (Num 2) (Math_min (Num 12) numValue))"

fun onChange :: "ui_input \<Rightarrow> QuickOptionsModal \<Rightarrow> QuickOptionsModal" where
  "onChange (StyleDropdown v) m = m\<lparr>selectedStyle := v\<rparr>"
| "onChange (SizeDropdown v) m = m\<lparr>selectedSize := v\<rparr>"
| "onChange (CutsDropdown v) m =
     (if selectedStyle m = cartoon then m\<lparr>selectedCartoonCuts := v\<rparr> else m)"
| "onChange (CustomCutsText v) m =
     (if selectedStyle m = cartoon \<and> selectedCartoonCuts m = custom
      then m\<lparr>selectedCustomCuts := clampCustomCuts v\<rparr> else m)"

definition newQuickOptionsModal ::
  "ImageStyle \<Rightarrow> ImageSize \<Rightarrow> CartoonCuts \<Rightarrow> number \<Rightarrow> QuickOptionsModal" where
  "newQuickOptionsModal currentStyle currentSize currentCartoonCuts currentCustomCuts =
     \<lparr>selectedStyle = currentStyle, selectedSize = currentSize,
      selectedCartoonCuts = currentCartoonCuts, selectedCustomCuts = currentCustomCuts\<rparr>"

text \<open>The two buttons: \<open>generate = True\<close> is the Generate button, \<open>False\<close> is Cancel.\<close>

definition onSubmit :: "bool \<Rightarrow> QuickOptionsModal \<Rightarrow> QuickOptionsResult" where
  "onSubmit generate m =
     \<lparr>confirmed = generate, imageStyle_r = selectedStyle m, imageSize_r = selectedSize m,
      cartoonCuts_r = selectedCartoonCuts m, customCartoonCuts_r = selectedCustomCuts m\<rparr>"

subsection \<open>The host and the plugin object\<close>

record PreviewModalResult =
  confirmed_p :: bool
  regenerate :: bool
  prompt_p :: string

text \<open>
  The host: the workspace and the vault of the application, the three services and the
  preview modal (sources of this repository that are not at hand, taken as parameters),
  the clipboard, and the user who answers the modals. Each is a function of the world,
  which it may change. \<open>optionsUser\<close> gives the inputs the user makes in the options modal
  and the button pressed at the end. A modal closed without a button never resolves its
  promise, so the method that waits for it never goes on; that case is not modelled.
\<close>

record 'w host =
  activeFile :: "'w \<Rightarrow> TFile option"
  vault_read :: "TFile \<Rightarrow> 'w \<Rightarrow> (thrown + string) \<times> 'w"
  getAbstractFileByPath :: "string \<Rightarrow> 'w \<Rightarrow> TAbstractFile option"
  generatePrompt ::
    "string \<Rightarrow> AIProvider \<Rightarrow> string \<Rightarrow> string \<Rightarrow> 'w \<Rightarrow> (thrown + PromptResult) \<times> 'w"
  generateImage ::
    "string \<Rightarrow> string \<Rightarrow> string \<Rightarrow> ImageStyle \<Rightarrow> string \<Rightarrow> ImageSize \<Rightarrow> number \<Rightarrow> 'w
      \<Rightarrow> (thrown + ImageResult) \<times> 'w"
  saveImage :: "string \<Rightarrow> string \<Rightarrow> TFile \<Rightarrow> string \<Rightarrow> 'w \<Rightarrow> (thrown + string) \<times> 'w"
  embedImageInNote :: "TFile \<Rightarrow> string \<Rightarrow> 'w \<Rightarrow> (thrown + unit) \<times> 'w"
  previewUser :: "string \<Rightarrow> 'w \<Rightarrow> PreviewModalResult \<times> 'w"
  optionsUser :: "'w \<Rightarrow> (ui_input list \<times> bool) \<times> 'w"
  clipboard_writeText :: "string \<Rightarrow> 'w \<Rightarrow> (thrown + unit) \<times> 'w"

text \<open>
  The plugin object. Each event of the trace is stored with the value that
  \<open>isGenerating\<close> had when the event happened.
\<close>

record 'w plugin =
  settings :: NanoBananaSettings
  lastPrompt :: string
  lastNoteFile :: "TFile option"
  isGenerating :: bool
  world :: 'w
  trace :: "(bool \<times> event) list"

definition emit :: "event \<Rightarrow> 'w plugin \<Rightarrow> 'w plugin" where
  "emit e p = p\<lparr>trace := trace p @ [(isGenerating p, e)]\<rparr>"

definition sleep :: "nat \<Rightarrow> 'w plugin \<Rightarrow> 'w plugin" where
  "sleep ms p = emit (Sleep ms) p"

text \<open>\<^verbatim>\<open>updateProgress(modal, state)\<close>: \<open>modal\<close> is \<open>True\<close> when the modal is not null.\<close>

definition updateProgress :: "bool \<Rightarrow> ProgressStep \<Rightarrow> nat \<Rightarrow> 'w plugin \<Rightarrow> 'w plugin" where
  "updateProgress modal step progress p =
     (if modal then emit (UpdateProgress step progress) p else p)"

definition getProviderApiKey :: "'w plugin \<Rightarrow> string" where
  "getProviderApiKey p =
     (case selectedProvider (settings p) of
        openai \<Rightarrow> openaiApiKey (settings p)
      | google \<Rightarrow> googleApiKey (settings p)
      | anthropic \<Rightarrow> anthropicApiKey (settings p)
      | xai \<Rightarrow> xaiApiKey (settings p)
      | other_provider _ \<Rightarrow> [])"

subsection \<open>\<^verbatim>\<open>executeWithRetry\<close>\<close>

text \<open>
  The operation handed to \<^verbatim>\<open>executeWithRetry\<close> is a call of a service: \<open>run\<close> is the call
  as a function of the world, \<open>describe\<close> makes the trace event from its outcome.
\<close>

record ('w, 'a) operation =
  run :: "'w \<Rightarrow> (thrown + 'a) \<times> 'w"
  describe :: "thrown + 'a \<Rightarrow> event"

definition invoke :: "('w, 'a) operation \<Rightarrow> 'w plugin \<Rightarrow> (thrown + 'a) \<times> 'w plugin" where
  "invoke operation p =
     (let (r, w) = run operation (world p)
      in (r, emit (describe operation r) (p\<lparr>world := w\<rparr>)))"

text \<open>\<^verbatim>\<open>error instanceof Error ? error : new Error(String(error))\<close>\<close>

fun asError :: "thrown \<Rightarrow> thrown" where
  "asError (NonError t) = PlainError t"
| "asError e = e"

text \<open>\<^verbatim>\<open>error instanceof GenerationErrorClass && error.retryable\<close>\<close>

fun isRetryable :: "thrown \<Rightarrow> bool" where
  "isRetryable (GenerationErrorClass e) = retryable e"
| "isRetryable _ = False"

text \<open>
  The \<^verbatim>\<open>for\<close> loop, from the attempt it is at: \<open>lastError\<close> is \<open>None\<close> for \<^verbatim>\<open>null\<close>. The
  delay is in milliseconds.
\<close>

function executeWithRetry_loop ::
  "nat \<Rightarrow> thrown option \<Rightarrow> ('w, 'a) operation \<Rightarrow> 'w plugin \<Rightarrow> (thrown + 'a) \<times> 'w plugin" where
  "executeWithRetry_loop attempt lastError operation p =
     (if int attempt \<le> autoRetryCount (settings p) then
        (case invoke operation p of
           (Inr v, p1) \<Rightarrow> (Inr v, p1)
         | (Inl error, p1) \<Rightarrow>
             (if \<not> isRetryable error \<or> int attempt = autoRetryCount (settings p1)
              then (Inl (asError error), p1)
              else executeWithRetry_loop (attempt + 1) (Some (asError error)) operation
                     (sleep (2 ^ attempt * 1000) p1)))
      else (Inl (case lastError of
                   Some e \<Rightarrow> e
                 | None \<Rightarrow> PlainError ''Operation failed with no error details''), p))"
  by pat_completeness auto
termination
  by (relation "measure (\<lambda>(attempt, lastError, operation, p).
                   nat (autoRetryCount (settings p) + 1 - int attempt))")
     (auto simp: invoke_def emit_def sleep_def split: prod.splits)

declare executeWithRetry_loop.simps [simp del]

definition executeWithRetry ::
  "('w, 'a) operation \<Rightarrow> 'w plugin \<Rightarrow> (thrown + 'a) \<times> 'w plugin" where
  "executeWithRetry operation p = executeWithRetry_loop 0 None operation p"

subsection \<open>The modals and the service calls, as seen from the plugin\<close>

definition showQuickOptionsModal :: "'w host \<Rightarrow> 'w plugin \<Rightarrow> QuickOptionsResult \<times> 'w plugin" where
  "showQuickOptionsModal h p =
     (let modal = newQuickOptionsModal (imageStyle (settings p)) (imageSize (settings p))
                    (cartoonCuts (settings p)) (customCartoonCuts (settings p));
          ((inputs, button), w) = optionsUser h (world p)
      in (onSubmit button (foldl (\<lambda>m i. onChange i m) modal inputs), p\<lparr>world := w\<rparr>))"

definition showPreviewModal :: "'w host \<Rightarrow> string \<Rightarrow> 'w plugin \<Rightarrow> PreviewModalResult \<times> 'w plugin" where
  "showPreviewModal h shown p =
     (let (r, w) = previewUser h shown (world p) in (r, p\<lparr>world := w\<rparr>))"

text \<open>An awaited call of the host that is not retried and leaves no event.\<close>

definition await :: "('w \<Rightarrow> 'a \<times> 'w) \<Rightarrow> 'w plugin \<Rightarrow> 'a \<times> 'w plugin" where
  "await f p = (let (r, w) = f (world p) in (r, p\<lparr>world := w\<rparr>))"

definition promptOperation ::
  "'w host \<Rightarrow> string \<Rightarrow> AIProvider \<Rightarrow> string \<Rightarrow> string \<Rightarrow> ('w, PromptResult) operation" where
  "promptOperation h noteContent provider model apiKey =
     \<lparr>run = generatePrompt h noteContent provider model apiKey,
      describe = PromptCall noteContent provider model apiKey\<rparr>"

definition imageOperation ::
  "'w host \<Rightarrow> string \<Rightarrow> string \<Rightarrow> string \<Rightarrow> ImageStyle \<Rightarrow> string \<Rightarrow> ImageSize \<Rightarrow> number
    \<Rightarrow> ('w, ImageResult) operation" where
  "imageOperation h finalPrompt apiKey model style language resolution cuts =
     \<lparr>run = generateImage h finalPrompt apiKey model style language resolution cuts,
      describe = ImageCall finalPrompt apiKey model style language resolution cuts\<rparr>"

subsection \<open>\<^verbatim>\<open>generatePoster\<close>\<close>

text \<open>
  How control leaves the body of a \<^verbatim>\<open>try\<close> block, or one round of the loop in it, with
  the local variable \<^verbatim>\<open>progressModal\<close> (\<open>True\<close> when it is not null) and the plugin:
  \<open>Continue\<close> is the \<^verbatim>\<open>continue\<close> of the loop, \<open>Completed\<close> the end of the body,
  \<open>Returned\<close> a \<^verbatim>\<open>return\<close> inside it, \<open>Threw\<close> an exception that reaches the \<^verbatim>\<open>catch\<close>.
\<close>

datatype 'w flow =
  Continue bool "'w plugin"
| Completed bool "'w plugin"
| Returned bool "'w plugin"
| Threw thrown bool "'w plugin"

text \<open>Steps 3 to 5 of a round: generate the image, save it, embed it, report success.\<close>

definition imageSteps ::
  "'w host \<Rightarrow> TFile \<Rightarrow> string \<Rightarrow> ImageStyle \<Rightarrow> ImageSize \<Rightarrow> number \<Rightarrow> bool \<Rightarrow> 'w plugin
    \<Rightarrow> 'w flow" where
  "imageSteps h noteFile finalPrompt style resolution cuts progressModal p =
     (let p1 = updateProgress progressModal generating_image 50 p
      in case executeWithRetry
                (imageOperation h finalPrompt (googleApiKey (settings p1))
                   (imageModel (settings p1)) style (preferredLanguage (settings p1)) resolution cuts) p1 of
           (Inl e, p2) \<Rightarrow> Threw e progressModal p2
         | (Inr imageResult, p2) \<Rightarrow>
             (let p3 = updateProgress progressModal saving 80 p2
              in case await (saveImage h (imageData imageResult) (mimeType imageResult) noteFile
                               (attachmentFolder (settings p3))) p3 of
                   (Inl e, p4) \<Rightarrow> Threw e progressModal p4
                 | (Inr imagePath, p4) \<Rightarrow>
                     (let p5 = updateProgress progressModal embedding 95 p4
                      in case await (embedImageInNote h noteFile imagePath) p5 of
                           (Inl e, p6) \<Rightarrow> Threw e progressModal p6
                         | (Inr _, p6) \<Rightarrow>
                             (let p7 = updateProgress progressModal complete 100 p6
                              in Completed progressModal
                                   (if progressModal then emit (ShowSuccess imagePath) p7
                                    else emit (Notice PosterGenerated) p7)))))"

text \<open>One round of the \<^verbatim>\<open>while (shouldRegenerate)\<close> loop.\<close>

definition posterRound ::
  "'w host \<Rightarrow> TFile \<Rightarrow> string \<Rightarrow> string \<Rightarrow> ImageStyle \<Rightarrow> ImageSize \<Rightarrow> number \<Rightarrow> bool
    \<Rightarrow> 'w plugin \<Rightarrow> 'w flow" where
  "posterRound h noteFile noteContent providerKey style resolution cuts progressModal p =
     (let (progressModal1, p1) =
            (if showProgressModal (settings p) then (True, emit ModalOpen p) else (progressModal, p));
          p2 = updateProgress progressModal1 generating_prompt 20 p1
      in case executeWithRetry
                (promptOperation h noteContent (selectedProvider (settings p2))
                   (promptModel (settings p2)) providerKey) p2 of
           (Inl e, p3) \<Rightarrow> Threw e progressModal1 p3
         | (Inr promptResult, p3) \<Rightarrow>
             (let p4 = p3\<lparr>lastPrompt := prompt promptResult\<rparr>;
                  finalPrompt =
                    (if customPromptPrefix (settings p4) \<noteq> []
                     then customPromptPrefix (settings p4) @ [CHR 0x0A, CHR 0x0A] @ prompt promptResult
                     else prompt promptResult)
              in if showPreviewBeforeGeneration (settings p4) then
                   (let (progressModal2, p5) =
                          (if progressModal1 then (False, emit ModalClose p4) else (progressModal1, p4));
                        (previewResult, p6) = showPreviewModal h finalPrompt p5
                    in if \<not> confirmed_p previewResult
                       then Returned progressModal2 (p6\<lparr>isGenerating := False\<rparr>)
                       else if regenerate previewResult then Continue progressModal2 p6
                       else (let (progressModal3, p7) =
                                   (if showProgressModal (settings p6) then (True, emit ModalOpen p6)
                                    else (progressModal2, p6))
                             in imageSteps h noteFile (prompt_p previewResult) style resolution cuts
                                  progressModal3 p7))
                 else imageSteps h noteFile finalPrompt style resolution cuts progressModal1 p4))"

text \<open>
  The loop. The user may ask for another prompt at every preview, so nothing bounds the
  number of rounds: the loop is given fuel, one unit for each round, and \<open>None\<close> says that
  the fuel did not suffice.
\<close>

fun posterLoop ::
  "nat \<Rightarrow> 'w host \<Rightarrow> TFile \<Rightarrow> string \<Rightarrow> string \<Rightarrow> ImageStyle \<Rightarrow> ImageSize \<Rightarrow> number \<Rightarrow> bool
    \<Rightarrow> 'w plugin \<Rightarrow> 'w flow option" where
  "posterLoop 0 h noteFile noteContent providerKey style resolution cuts progressModal p = None"
| "posterLoop (Suc fuel) h noteFile noteContent providerKey style resolution cuts progressModal p =
     (case posterRound h noteFile noteContent providerKey style resolution cuts progressModal p of
        Continue progressModal' p' \<Rightarrow>
          posterLoop fuel h noteFile noteContent providerKey style resolution cuts progressModal' p'
      | r \<Rightarrow> Some r)"

text \<open>
  The \<^verbatim>\<open>catch\<close> and the \<^verbatim>\<open>finally\<close> of a generation, with the notice that the method shows
  when no progress modal is open. The logging to the console is left out.
\<close>

definition catchError :: "(string \<Rightarrow> notice) \<Rightarrow> thrown \<Rightarrow> bool \<Rightarrow> 'w plugin \<Rightarrow> 'w plugin" where
  "catchError failed error progressModal p =
     (let genError = toGenerationError error
      in if progressModal then emit (ShowError genError) p
         else emit (Notice (failed (message genError))) p)"

fun catchFinally :: "(string \<Rightarrow> notice) \<Rightarrow> 'w flow \<Rightarrow> 'w plugin" where
  "catchFinally failed (Threw error progressModal p) =
     (catchError failed error progressModal p)\<lparr>isGenerating := False\<rparr>"
| "catchFinally failed (Completed progressModal p) = p\<lparr>isGenerating := False\<rparr>"
| "catchFinally failed (Returned progressModal p) = p\<lparr>isGenerating := False\<rparr>"
| "catchFinally failed (Continue progressModal p) = p\<lparr>isGenerating := False\<rparr>"

text \<open>
  The method as a whole, run alone: nothing else touches the plugin while the method
  waits at an \<^verbatim>\<open>await\<close>. The pieces of the method between its awaits, for commands that
  overlap, follow in the next subsection.
\<close>

definition generatePoster :: "nat \<Rightarrow> 'w host \<Rightarrow> 'w plugin \<Rightarrow> 'w plugin option" where
  "generatePoster fuel h p =
     (if isGenerating p then Some (emit (Notice AlreadyInProgress) p)
      else case activeFile h (world p) of
        None \<Rightarrow> Some (emit (Notice OpenNoteFirst) p)
      | Some noteFile \<Rightarrow>
          (case await (vault_read h noteFile) p of
             (Inl e, p1) \<Rightarrow> Some (emit (UnhandledRejection e) p1)
           | (Inr noteContent, p1) \<Rightarrow>
               if trim noteContent = [] then Some (emit (Notice NoteIsEmpty) p1)
               else (let providerKey = getProviderApiKey p1
                 in if providerKey = []
                    then Some (emit (Notice (ProviderKeyNotConfigured (selectedProvider (settings p1)))) p1)
                    else if googleApiKey (settings p1) = []
                    then Some (emit (Notice GoogleKeyRequired) p1)
                    else (let (quickOptions, p2) = showQuickOptionsModal h p1
                      in if \<not> confirmed quickOptions then Some p2
                         else (let style = imageStyle_r quickOptions;
                                   resolution = imageSize_r quickOptions;
                                   cuts = getCartoonCutsNumber (cartoonCuts_r quickOptions)
                                            (customCartoonCuts_r quickOptions);
                                   p3 = p2\<lparr>isGenerating := True, lastNoteFile := Some noteFile\<rparr>
                               in map_option (catchFinally GenerationFailedNotice)
                                    (posterLoop fuel h noteFile noteContent providerKey style resolution cuts
                                       False p3))))))"

subsection \<open>\<^verbatim>\<open>generatePromptOnly\<close>\<close>

definition generatePromptOnly :: "'w host \<Rightarrow> 'w plugin \<Rightarrow> 'w plugin" where
  "generatePromptOnly h p =
     (case activeFile h (world p) of
        None \<Rightarrow> emit (Notice OpenNoteFirst) p
      | Some noteFile \<Rightarrow>
          (case await (vault_read h noteFile) p of
             (Inl e, p1) \<Rightarrow> emit (UnhandledRejection e) p1
           | (Inr noteContent, p1) \<Rightarrow>
               if trim noteContent = [] then emit (Notice NoteIsEmptyShort) p1
               else (let providerKey = getProviderApiKey p1
                 in if providerKey = []
                    then emit (Notice (ProviderKeyNotConfiguredShort (selectedProvider (settings p1)))) p1
                    else (let p2 = emit (Notice GeneratingPrompt) p1
                      in case invoke (promptOperation h noteContent (selectedProvider (settings p2))
                                        (promptModel (settings p2)) providerKey) p2 of
                           (Inl e, p3) \<Rightarrow>
                             emit (Notice (PromptFailedNotice (message (toGenerationError e)))) p3
                         | (Inr result, p3) \<Rightarrow>
                             (case await (clipboard_writeText h (prompt result)) p3 of
                                (Inl e, p4) \<Rightarrow>
                                  emit (Notice (PromptFailedNotice (message (toGenerationError e)))) p4
                              | (Inr _, p4) \<Rightarrow>
                                  emit (Notice PromptCopied) (p4\<lparr>lastPrompt := prompt result\<rparr>))))))"

subsection \<open>\<^verbatim>\<open>regenerateLastPoster\<close>\<close>

text \<open>
  The body of the \<^verbatim>\<open>try\<close> block. \<open>noteFile\<close> is \<^verbatim>\<open>this.lastNoteFile\<close>, which the guards
  have found not to be null and which nothing in the method assigns.
\<close>

definition regenerateSteps :: "'w host \<Rightarrow> TFile \<Rightarrow> 'w plugin \<Rightarrow> 'w flow" where
  "regenerateSteps h noteFile p =
     (let (progressModal, p1) =
            (if showProgressModal (settings p) then (True, emit ModalOpen p) else (False, p));
          p2 = updateProgress progressModal generating_image 40 p1
      in case executeWithRetry
                (imageOperation h (lastPrompt p2) (googleApiKey (settings p2))
                   (imageModel (settings p2)) (imageStyle (settings p2))
                   (preferredLanguage (settings p2)) (imageSize (settings p2))
                   (getCartoonCutsNumber (cartoonCuts (settings p2))
                      (customCartoonCuts (settings p2)))) p2 of
           (Inl e, p3) \<Rightarrow> Threw e progressModal p3
         | (Inr imageResult, p3) \<Rightarrow>
             (let p4 = updateProgress progressModal saving 80 p3
              in case await (saveImage h (imageData imageResult) (mimeType imageResult) noteFile
                               (attachmentFolder (settings p4))) p4 of
                   (Inl e, p5) \<Rightarrow> Threw e progressModal p5
                 | (Inr imagePath, p5) \<Rightarrow>
                     (let p6 = updateProgress progressModal embedding 95 p5
                      in case await (embedImageInNote h noteFile imagePath) p6 of
                           (Inl e, p7) \<Rightarrow> Threw e progressModal p7
                         | (Inr _, p7) \<Rightarrow>
                             Completed progressModal
                               (if progressModal then emit (ShowSuccess imagePath) p7
                                else emit (Notice PosterRegenerated) p7))))"

definition regenerateLastPoster :: "'w host \<Rightarrow> 'w plugin \<Rightarrow> 'w plugin" where
  "regenerateLastPoster h p =
     (if lastPrompt p = [] then emit (Notice NoPreviousGeneration) p
      else case lastNoteFile p of
        None \<Rightarrow> emit (Notice OriginalNoteNotFound) p
      | Some noteFile \<Rightarrow>
          (case getAbstractFileByPath h (path noteFile) (world p) of
             None \<Rightarrow> emit (Notice NoteMovedOrDeleted) p
           | Some (IsFolder _) \<Rightarrow> emit (Notice NoteMovedOrDeleted) p
           | Some (IsFile file) \<Rightarrow>
               if isGenerating p then emit (Notice AlreadyInProgress) p
               else catchFinally RegenerationFailedNotice
                      (regenerateSteps h noteFile (p\<lparr>isGenerating := True\<rparr>))))"

subsection \<open>\<^verbatim>\<open>generatePoster\<close> between its awaits\<close>

text \<open>
  \<open>generatePoster\<close> above is the method run alone, with no other command between its
  awaits. The method gives control back at every \<^verbatim>\<open>await\<close>, and a command that starts
  meanwhile finds the plugin as it is then. The functions below are the pieces of the
  method up to its third await: from the call to the await of \<^verbatim>\<open>vault.read\<close>, from the
  result of the read to the await of the options modal, from the result of the modal to
  the await of the first call of the prompt client, and from there to the end. Each piece
  runs on the plugin as it is when the piece starts; what the method holds in its local
  variables at the await is the \<open>request\<close>. A call of the host is made, and recorded in the
  trace, when the piece that takes its result runs.
\<close>

datatype request =
  Finished
| Reading TFile
| Choosing TFile string string QuickOptionsModal
| Prompting TFile string string ImageStyle ImageSize number bool

definition generatePoster_start :: "'w host \<Rightarrow> 'w plugin \<Rightarrow> request \<times> 'w plugin" where
  "generatePoster_start h p =
     (if isGenerating p then (Finished, emit (Notice AlreadyInProgress) p)
      else case activeFile h (world p) of
        None \<Rightarrow> (Finished, emit (Notice OpenNoteFirst) p)
      | Some noteFile \<Rightarrow> (Reading noteFile, p))"

definition generatePoster_afterRead :: "'w host \<Rightarrow> TFile \<Rightarrow> 'w plugin \<Rightarrow> request \<times> 'w plugin" where
  "generatePoster_afterRead h noteFile p =
     (case await (vault_read h noteFile) p of
        (Inl e, p1) \<Rightarrow> (Finished, emit (UnhandledRejection e) p1)
      | (Inr noteContent, p1) \<Rightarrow>
          if trim noteContent = [] then (Finished, emit (Notice NoteIsEmpty) p1)
          else (let providerKey = getProviderApiKey p1
            in if providerKey = []
               then (Finished,
                     emit (Notice (ProviderKeyNotConfigured (selectedProvider (settings p1)))) p1)
               else if googleApiKey (settings p1) = []
               then (Finished, emit (Notice GoogleKeyRequired) p1)
               else (Choosing noteFile noteContent providerKey
                       (newQuickOptionsModal (imageStyle (settings p1)) (imageSize (settings p1))
                          (cartoonCuts (settings p1)) (customCartoonCuts (settings p1))),
                     p1)))"

text \<open>The user makes the inputs in an options modal that is open, and presses a button.\<close>

definition answerQuickOptionsModal ::
  "'w host \<Rightarrow> QuickOptionsModal \<Rightarrow> 'w plugin \<Rightarrow> QuickOptionsResult \<times> 'w plugin" where
  "answerQuickOptionsModal h modal p =
     (let ((inputs, button), w) = optionsUser h (world p)
      in (onSubmit button (foldl (\<lambda>m i. onChange i m) modal inputs), p\<lparr>world := w\<rparr>))"

text \<open>The start of a round of the loop, up to the call of the prompt client.\<close>

definition roundBegin :: "bool \<Rightarrow> 'w plugin \<Rightarrow> bool \<times> 'w plugin" where
  "roundBegin progressModal p =
     (let (progressModal1, p1) =
            (if showProgressModal (settings p) then (True, emit ModalOpen p) else (progressModal, p))
      in (progressModal1, updateProgress progressModal1 generating_prompt 20 p1))"

definition generatePoster_afterOptions ::
  "'w host \<Rightarrow> TFile \<Rightarrow> string \<Rightarrow> string \<Rightarrow> QuickOptionsModal \<Rightarrow> 'w plugin \<Rightarrow> request \<times> 'w plugin" where
  "generatePoster_afterOptions h noteFile noteContent providerKey modal p =
     (let (quickOptions, p2) = answerQuickOptionsModal h modal p
      in if \<not> confirmed quickOptions then (Finished, p2)
         else (let style = imageStyle_r quickOptions;
                   resolution = imageSize_r quickOptions;
                   cuts = getCartoonCutsNumber (cartoonCuts_r quickOptions)
                            (customCartoonCuts_r quickOptions);
                   p3 = p2\<lparr>isGenerating := True, lastNoteFile := Some noteFile\<rparr>;
                   (progressModal1, p4) = roundBegin False p3
               in (Prompting noteFile noteContent providerKey style resolution cuts progressModal1,
                   p4)))"

text \<open>The rest of a round, from the call of the prompt client on.\<close>

definition roundRest ::
  "'w host \<Rightarrow> TFile \<Rightarrow> string \<Rightarrow> string \<Rightarrow> ImageStyle \<Rightarrow> ImageSize \<Rightarrow> number \<Rightarrow> bool
    \<Rightarrow> 'w plugin \<Rightarrow> 'w flow" where
  "roundRest h noteFile noteContent providerKey style resolution cuts progressModal1 p2 =
     (case executeWithRetry
             (promptOperation h noteContent (selectedProvider (settings p2))
                (promptModel (settings p2)) providerKey) p2 of
        (Inl e, p3) \<Rightarrow> Threw e progressModal1 p3
      | (Inr promptResult, p3) \<Rightarrow>
          (let p4 = p3\<lparr>lastPrompt := prompt promptResult\<rparr>;
               finalPrompt =
                 (if customPromptPrefix (settings p4) \<noteq> []
                  then customPromptPrefix (settings p4) @ [CHR 0x0A, CHR 0x0A] @ prompt promptResult
                  else prompt promptResult)
           in if showPreviewBeforeGeneration (settings p4) then
                (let (progressModal2, p5) =
                       (if progressModal1 then (False, emit ModalClose p4) else (progressModal1, p4));
                     (previewResult, p6) = showPreviewModal h finalPrompt p5
                 in if \<not> confirmed_p previewResult
                    then Returned progressModal2 (p6\<lparr>isGenerating := False\<rparr>)
                    else if regenerate previewResult then Continue progressModal2 p6
                    else (let (progressModal3, p7) =
                                (if showProgressModal (settings p6) then (True, emit ModalOpen p6)
                                 else (progressModal2, p6))
                          in imageSteps h noteFile (prompt_p previewResult) style resolution cuts
                               progressModal3 p7))
              else imageSteps h noteFile finalPrompt style resolution cuts progressModal1 p4))"

definition generatePoster_afterPrompt ::
  "nat \<Rightarrow> 'w host \<Rightarrow> TFile \<Rightarrow> string \<Rightarrow> string \<Rightarrow> ImageStyle \<Rightarrow> ImageSize \<Rightarrow> number \<Rightarrow> bool
    \<Rightarrow> 'w plugin \<Rightarrow> 'w plugin option" where
  "generatePoster_afterPrompt fuel h noteFile noteContent providerKey style resolution cuts
       progressModal1 p =
     map_option (catchFinally GenerationFailedNotice)
       (case roundRest h noteFile noteContent providerKey style resolution cuts progressModal1 p of
          Continue progressModal' p' \<Rightarrow>
            posterLoop fuel h noteFile noteContent providerKey style resolution cuts progressModal' p'
        | r \<Rightarrow> Some r)"

text \<open>
  A request goes on from the await it is at; \<open>fuel\<close> is for the rounds of the loop after
  the first. Several requests can be under way: \<open>issue\<close> is the user starting the command
  once more, \<open>proceed i\<close> lets request \<open>i\<close> go on to its next await.
\<close>

fun generatePoster_step ::
  "nat \<Rightarrow> 'w host \<Rightarrow> request \<Rightarrow> 'w plugin \<Rightarrow> (request \<times> 'w plugin) option" where
  "generatePoster_step fuel h Finished p = Some (Finished, p)"
| "generatePoster_step fuel h (Reading noteFile) p = Some (generatePoster_afterRead h noteFile p)"
| "generatePoster_step fuel h (Choosing noteFile noteContent providerKey modal) p =
     Some (generatePoster_afterOptions h noteFile noteContent providerKey modal p)"
| "generatePoster_step fuel h
     (Prompting noteFile noteContent providerKey style resolution cuts progressModal1) p =
     map_option (Pair Finished)
       (generatePoster_afterPrompt fuel h noteFile noteContent providerKey style resolution cuts
          progressModal1 p)"

definition issue ::
  "'w host \<Rightarrow> (request list \<times> 'w plugin) option \<Rightarrow> (request list \<times> 'w plugin) option" where
  "issue h st =
     (case st of
        None \<Rightarrow> None
      | Some (requests, p) \<Rightarrow>
          (let (r, p') = generatePoster_start h p in Some (requests @ [r], p')))"

definition proceed ::
  "nat \<Rightarrow> 'w host \<Rightarrow> nat \<Rightarrow> (request list \<times> 'w plugin) option
    \<Rightarrow> (request list \<times> 'w plugin) option" where
  "proceed fuel h i st =
     (case st of
        None \<Rightarrow> None
      | Some (requests, p) \<Rightarrow>
          if i < length requests
          then map_option (\<lambda>(r, p'). (requests[i := r], p'))
                 (generatePoster_step fuel h (requests ! i) p)
          else None)"

subsection \<open>Reading the trace\<close>

text \<open>The events that a method has added to the trace, between the plugin before and after.\<close>

definition newEvents :: "'w plugin \<Rightarrow> 'w plugin \<Rightarrow> (bool \<times> event) list" where
  "newEvents p p' = drop (length (trace p)) (trace p')"

text \<open>
  The attempts of an operation that fails every time: the world before attempt \<open>k\<close>
  (counted from 0) when the first attempt starts in \<open>w\<close>, what attempt \<open>k\<close> returns or
  throws, and the events of attempt \<open>k\<close> when \<open>n\<close> retries are allowed: the call, and the
  delay after it unless it was the last attempt.
\<close>

definition worldAfter :: "('w, 'a) operation \<Rightarrow> nat \<Rightarrow> 'w \<Rightarrow> 'w" where
  "worldAfter operation k w = ((\<lambda>w. snd (run operation w)) ^^ k) w"

definition outcomeOf :: "('w, 'a) operation \<Rightarrow> nat \<Rightarrow> 'w \<Rightarrow> thrown + 'a" where
  "outcomeOf operation k w = fst (run operation (worldAfter operation k w))"

definition raisesRetryable :: "thrown + 'a \<Rightarrow> bool" where
  "raisesRetryable r = (case r of Inl e \<Rightarrow> isRetryable e | Inr _ \<Rightarrow> False)"

definition attemptEvents ::
  "bool \<Rightarrow> ('w, 'a) operation \<Rightarrow> int \<Rightarrow> 'w \<Rightarrow> nat \<Rightarrow> (bool \<times> event) list" where
  "attemptEvents flag operation n w k =
     (flag, describe operation (outcomeOf operation k w))
       # (if int k < n then [(flag, Sleep (2 ^ k * 1000))] else [])"

text \<open>\<^verbatim>\<open>error instanceof Error\<close>\<close>

fun isErrorInstance :: "thrown \<Rightarrow> bool" where
  "isErrorInstance (NonError t) = False"
| "isErrorInstance e = True"

subsection \<open>Concrete hosts and plugins\<close>

text \<open>
  A world that only counts the calls made so far, settings with two retries, and two
  operations on it: one that is rate limited at every attempt, with a message that tells
  the attempts apart, and one that is refused for its key.
\<close>

definition demoSettings :: NanoBananaSettings where
  "demoSettings =
     \<lparr>selectedProvider = openai, openaiApiKey = ''sk-openai'', googleApiKey = ''g-key'',
      anthropicApiKey = [], xaiApiKey = [], promptModel = ''prompt-model'',
      imageModel = ''image-model'', imageStyle = diagram, imageSize = size_2K,
      cartoonCuts = cuts_4, customCartoonCuts = Num 4, preferredLanguage = ''en'',
      attachmentFolder = ''attachments'', autoRetryCount = 2, showProgressModal = True,
      showPreviewBeforeGeneration = False, customPromptPrefix = []\<rparr>"

definition demoPlugin :: "nat plugin" where
  "demoPlugin =
     \<lparr>settings = demoSettings, lastPrompt = [], lastNoteFile = None, isGenerating = False,
      world = 0, trace = []\<rparr>"

definition rateLimited :: "nat \<Rightarrow> GenerationError" where
  "rateLimited k =
     \<lparr>type = RATE_LIMIT, message = ''busy '' @ replicate k (CHR ''I''), retryable = True,
      details = None\<rparr>"

definition invalidKey :: GenerationError where
  "invalidKey =
     \<lparr>type = INVALID_API_KEY, message = ''key rejected'', retryable = False, details = None\<rparr>"

definition alwaysRateLimited :: "(nat, PromptResult) operation" where
  "alwaysRateLimited =
     \<lparr>run = (\<lambda>w. (Inl (GenerationErrorClass (rateLimited w)), Suc w)),
      describe = PromptCall ''note'' openai ''prompt-model'' ''sk-openai''\<rparr>"

definition keyRejected :: "(nat, PromptResult) operation" where
  "keyRejected =
     \<lparr>run = (\<lambda>w. (Inl (GenerationErrorClass invalidKey), Suc w)),
      describe = PromptCall ''note'' openai ''prompt-model'' ''sk-openai''\<rparr>"

text \<open>An operation that is rate limited at its first attempt and refused for its key after.\<close>

definition limitedThenRejected :: "(nat, PromptResult) operation" where
  "limitedThenRejected =
     \<lparr>run = (\<lambda>w. (if w = 0 then Inl (GenerationErrorClass (rateLimited 0))
                     else Inl (GenerationErrorClass invalidKey), Suc w)),
      describe = PromptCall ''note'' openai ''prompt-model'' ''sk-openai''\<rparr>"

text \<open>
  A host in which everything succeeds: a note is open, the prompt client returns a raw
  prompt, the user confirms the options as they stand and replaces the prompt in the
  preview, the image client returns an image unless it is called with an empty key, and
  the image is saved and embedded. The world counts the calls of the provider clients.
\<close>

definition demoHost :: "nat host" where
  "demoHost =
     \<lparr>activeFile = (\<lambda>w. Some (TFile ''note.md'')),
      vault_read = (\<lambda>f w. (Inr ''Explain TCP handshake'', w)),
      getAbstractFileByPath =
        (\<lambda>name w. if name = ''note.md'' then Some (IsFile (TFile ''note.md'')) else None),
      generatePrompt = (\<lambda>c v m k w. (Inr \<lparr>prompt = ''raw prompt''\<rparr>, Suc w)),
      generateImage =
        (\<lambda>f k m s l z c w.
           if k = [] then (Inl (GenerationErrorClass invalidKey), Suc w)
           else (Inr \<lparr>imageData = ''bytes'', mimeType = ''image/png''\<rparr>, Suc w)),
      saveImage = (\<lambda>d m f a w. (Inr (a @ ''/poster.png''), w)),
      embedImageInNote = (\<lambda>f i w. (Inr (), w)),
      previewUser =
        (\<lambda>shown w. (\<lparr>confirmed_p = True, regenerate = False, prompt_p = ''edited prompt''\<rparr>, w)),
      optionsUser = (\<lambda>w. (([], True), w)),
      clipboard_writeText = (\<lambda>t w. (Inr (), w))\<rparr>"

text \<open>The same host, but the first call of the prompt client is refused for its key.\<close>

definition rejectingHost :: "nat host" where
  "rejectingHost =
     demoHost\<lparr>generatePrompt :=
       (\<lambda>c v m k w. if w = 0 then (Inl (GenerationErrorClass invalidKey), Suc w)
                    else (Inr \<lparr>prompt = ''raw prompt''\<rparr>, Suc w))\<rparr>"

text \<open>
  Plugins: one that has generated a poster before; that one with a generation in
  progress; that one with its note gone; that one with the style cartoon and a stored
  custom panel count of 15; that one with the Google key removed from the settings; one
  whose settings add a prefix to the prompt and show the preview; and one whose settings
  switch the progress modal off.
\<close>

definition cachedPlugin :: "nat plugin" where
  "cachedPlugin = demoPlugin\<lparr>lastPrompt := ''raw prompt'', lastNoteFile := Some (TFile ''note.md'')\<rparr>"

definition busyPlugin :: "nat plugin" where
  "busyPlugin = cachedPlugin\<lparr>isGenerating := True\<rparr>"

definition stalePlugin :: "nat plugin" where
  "stalePlugin = cachedPlugin\<lparr>lastNoteFile := Some (TFile ''gone.md'')\<rparr>"

definition cartoonPlugin :: "nat plugin" where
  "cartoonPlugin =
     cachedPlugin\<lparr>settings := demoSettings\<lparr>imageStyle := cartoon, cartoonCuts := custom,
                                             customCartoonCuts := Num 15\<rparr>\<rparr>"

definition noKeyPlugin :: "nat plugin" where
  "noKeyPlugin = cachedPlugin\<lparr>settings := demoSettings\<lparr>googleApiKey := []\<rparr>\<rparr>"

definition prefixPlugin :: "nat plugin" where
  "prefixPlugin =
     demoPlugin\<lparr>settings := demoSettings\<lparr>customPromptPrefix := ''Use flat colours'',
                                           showPreviewBeforeGeneration := True\<rparr>\<rparr>"

definition quietPlugin :: "nat plugin" where
  "quietPlugin = demoPlugin\<lparr>settings := demoSettings\<lparr>showProgressModal := False\<rparr>\<rparr>"

text \<open>The plugin that has generated a poster before, with the progress modal switched off.\<close>

definition quietCachedPlugin :: "nat plugin" where
  "quietCachedPlugin = cachedPlugin\<lparr>settings := demoSettings\<lparr>showProgressModal := False\<rparr>\<rparr>"

text \<open>
  Two more users: one who asks for another prompt at the first preview and accepts the
  second, and one who selects the cartoon style with a custom panel count and types 15.
\<close>

definition indecisiveHost :: "nat host" where
  "indecisiveHost =
     demoHost\<lparr>previewUser :=
       (\<lambda>shown w. (\<lparr>confirmed_p = True, regenerate = (w = 1), prompt_p = shown\<rparr>, w))\<rparr>"

definition scenarioBHost :: "nat host" where
  "scenarioBHost =
     demoHost\<lparr>optionsUser :=
       (\<lambda>w. (([StyleDropdown cartoon, CutsDropdown custom, CustomCutsText ''15''], True), w))\<rparr>"

text \<open>
  Two requests on the plugin that has not generated anything yet, in the host in which
  everything succeeds. The first request is started and goes on to its options modal;
  the second is started while that modal is open and goes on to its own. The user
  confirms the first modal and then the second; the second request is served first by
  the prompt client and runs to its end; then the first runs to its end.
\<close>

definition firstAccepted :: "(request list \<times> nat plugin) option" where
  "firstAccepted = proceed 0 demoHost 0 (issue demoHost (Some ([], demoPlugin)))"

definition bothAccepted :: "(request list \<times> nat plugin) option" where
  "bothAccepted = proceed 0 demoHost 1 (issue demoHost firstAccepted)"

definition bothRunning :: "(request list \<times> nat plugin) option" where
  "bothRunning = proceed 0 demoHost 1 (proceed 0 demoHost 0 bothAccepted)"

definition secondEnded :: "(request list \<times> nat plugin) option" where
  "secondEnded = proceed 0 demoHost 1 bothRunning"

definition bothEnded :: "(request list \<times> nat plugin) option" where
  "bothEnded = proceed 0 demoHost 0 secondEnded"

subsection \<open>Projections of the trace\<close>

text \<open>The percentages passed to the progress modal.\<close>

fun progressShown :: "bool \<times> event \<Rightarrow> nat list" where
  "progressShown (b, UpdateProgress s n) = [n]"
| "progressShown _ = []"

definition progressOf :: "(bool \<times> event) list \<Rightarrow> nat list" where
  "progressOf tr = concat (map progressShown tr)"

text \<open>The raw prompts that the prompt client has returned.\<close>

fun promptReturned :: "bool \<times> event \<Rightarrow> string list" where
  "promptReturned (b, PromptCall c v m k (Inr r)) = [prompt r]"
| "promptReturned _ = []"

definition promptsReturned :: "(bool \<times> event) list \<Rightarrow> string list" where
  "promptsReturned tr = concat (map promptReturned tr)"

text \<open>The reports of success: in the progress modal, or as a notice.\<close>

fun successShown :: "bool \<times> event \<Rightarrow> event list" where
  "successShown (b, ShowSuccess imagePath) = [ShowSuccess imagePath]"
| "successShown (b, Notice PosterGenerated) = [Notice PosterGenerated]"
| "successShown (b, Notice PosterRegenerated) = [Notice PosterRegenerated]"
| "successShown _ = []"

definition successes :: "(bool \<times> event) list \<Rightarrow> event list" where
  "successes tr = concat (map successShown tr)"

text \<open>The calls of the two provider clients, whatever their outcome.\<close>

fun providerCall :: "bool \<times> event \<Rightarrow> event list" where
  "providerCall (b, PromptCall c v m k r) = [PromptCall c v m k r]"
| "providerCall (b, ImageCall f k m s l z c r) = [ImageCall f k m s l z c r]"
| "providerCall _ = []"

definition providerCalls :: "(bool \<times> event) list \<Rightarrow> event list" where
  "providerCalls tr = concat (map providerCall tr)"

text \<open>The prompt and the panel count that a call of the image client carries.\<close>

fun imagePrompt :: "bool \<times> event \<Rightarrow> string list" where
  "imagePrompt (b, ImageCall f k m s l z c r) = [f]"
| "imagePrompt _ = []"

definition imagePrompts :: "(bool \<times> event) list \<Rightarrow> string list" where
  "imagePrompts tr = concat (map imagePrompt tr)"

fun cartoonPanelCount :: "bool \<times> event \<Rightarrow> number list" where
  "cartoonPanelCount (b, ImageCall f k m s l z c r) = (if s = cartoon then [c] else [])"
| "cartoonPanelCount _ = []"

definition cartoonPanelCounts :: "(bool \<times> event) list \<Rightarrow> number list" where
  "cartoonPanelCounts tr = concat (map cartoonPanelCount tr)"

fun inPanelRange :: "number \<Rightarrow> bool" where
  "inPanelRange (Num k) = (2 \<le> k \<and> k \<le> 12)"
| "inPanelRange NaN = False"

text \<open>
  The events of a generation session, as opposed to the notices of the entry guards and
  of \<^verbatim>\<open>generatePromptOnly\<close>; \<open>unflagged\<close> keeps the session events that happened while
  \<open>isGenerating\<close> was not set.
\<close>

fun sessionNotice :: "notice \<Rightarrow> bool" where
  "sessionNotice PosterGenerated = True"
| "sessionNotice (GenerationFailedNotice m) = True"
| "sessionNotice PosterRegenerated = True"
| "sessionNotice (RegenerationFailedNotice m) = True"
| "sessionNotice _ = False"

fun sessionEvent :: "event \<Rightarrow> bool" where
  "sessionEvent (Notice n) = sessionNotice n"
| "sessionEvent (UnhandledRejection e) = False"
| "sessionEvent _ = True"

definition unflagged :: "(bool \<times> event) list \<Rightarrow> event list" where
  "unflagged tr = map snd (filter (\<lambda>x. \<not> fst x \<and> sessionEvent (snd x)) tr)"

text \<open>
  The shape of what \<^verbatim>\<open>executeWithRetry\<close> adds to the trace: failed calls and delays,
  and at the end the successful call when there is one.
\<close>

definition failedOrSleep :: "bool \<Rightarrow> ('w, 'a) operation \<Rightarrow> bool \<times> event \<Rightarrow> bool" where
  "failedOrSleep flag operation x \<longleftrightarrow>
     fst x = flag \<and> ((\<exists>d. snd x = Sleep d) \<or> (\<exists>e. snd x = describe operation (Inl e)))"

definition finalCall :: "bool \<Rightarrow> ('w, 'a) operation \<Rightarrow> thrown + 'a \<Rightarrow> (bool \<times> event) list" where
  "finalCall flag operation r =
     (case r of Inr v \<Rightarrow> [(flag, describe operation (Inr v))] | Inl e \<Rightarrow> [])"

text \<open>The plugin that a flow carries.\<close>

fun flowPlugin :: "'w flow \<Rightarrow> 'w plugin" where
  "flowPlugin (Continue progressModal p) = p"
| "flowPlugin (Completed progressModal p) = p"
| "flowPlugin (Returned progressModal p) = p"
| "flowPlugin (Threw e progressModal p) = p"

text \<open>
  What the lemmas about a session ask of a property \<open>Q\<close> of stamped events, to conclude
  that every event of the session has it: that the events a session can produce, with
  the settings, the note and the options of the session, have it. The progress modal is
  updated only when the settings show it.
\<close>

definition allowsSession ::
  "(bool \<times> event \<Rightarrow> bool) \<Rightarrow> bool \<Rightarrow> NanoBananaSettings \<Rightarrow> string \<Rightarrow> string \<Rightarrow> ImageStyle
    \<Rightarrow> ImageSize \<Rightarrow> number \<Rightarrow> bool" where
  "allowsSession Q flag st noteContent providerKey style resolution cuts \<longleftrightarrow>
     (showProgressModal st \<longrightarrow> (\<forall>s n. Q (flag, UpdateProgress s n)))
     \<and> (\<forall>d. Q (flag, Sleep d))
     \<and> Q (flag, ModalOpen) \<and> Q (flag, ModalClose)
     \<and> (\<forall>r. Q (flag, PromptCall noteContent (selectedProvider st) (promptModel st) providerKey r))
     \<and> (\<forall>f r. Q (flag, ImageCall f (googleApiKey st) (imageModel st) style
                        (preferredLanguage st) resolution cuts r))
     \<and> (\<forall>x. Q (flag, ShowSuccess x)) \<and> Q (flag, Notice PosterGenerated)"

text \<open>
  What one round of the loop, and the loop as a whole, do to the plugin \<open>p\<close> they start
  from, read off the flow \<open>F\<close> they end in.
\<close>

definition sessionSummary :: "(bool \<times> event \<Rightarrow> bool) \<Rightarrow> 'w plugin \<Rightarrow> 'w flow \<Rightarrow> bool" where
  "sessionSummary Q p F \<longleftrightarrow>
     settings (flowPlugin F) = settings p
     \<and> lastNoteFile (flowPlugin F) = lastNoteFile p
     \<and> trace (flowPlugin F) = trace p @ newEvents p (flowPlugin F)
     \<and> list_all Q (newEvents p (flowPlugin F))
     \<and> lastPrompt (flowPlugin F) = last (lastPrompt p # promptsReturned (newEvents p (flowPlugin F)))
     \<and> (showPreviewBeforeGeneration (settings p)
          \<or> length (promptsReturned (newEvents p (flowPlugin F))) \<le> 1)
     \<and> (case F of
          Continue pm p' \<Rightarrow>
            \<not> pm \<and> isGenerating p' = isGenerating p
            \<and> showPreviewBeforeGeneration (settings p)
            \<and> progressOf (newEvents p p') =
                (if showProgressModal (settings p)
                 then replicate (length (promptsReturned (newEvents p p'))) 20 else [])
            \<and> promptsReturned (newEvents p p') \<noteq> []
            \<and> successes (newEvents p p') = []
        | Completed pm p' \<Rightarrow>
            isGenerating p' = isGenerating p
            \<and> progressOf (newEvents p p') =
                (if showProgressModal (settings p)
                 then replicate (length (promptsReturned (newEvents p p'))) 20 @ [50, 80, 95, 100]
                 else [])
            \<and> promptsReturned (newEvents p p') \<noteq> []
            \<and> successes (newEvents p p') \<noteq> []
        | Returned pm p' \<Rightarrow> \<not> isGenerating p' \<and> successes (newEvents p p') = []
        | Threw e pm p' \<Rightarrow> isGenerating p' = isGenerating p \<and> successes (newEvents p p') = [])"

text \<open>
  What the options modal hands back for given settings, inputs and button, and the
  events that the entry guards of \<^verbatim>\<open>generatePoster\<close> can leave.
\<close>

definition optionsOutcome :: "NanoBananaSettings \<Rightarrow> ui_input list \<Rightarrow> bool \<Rightarrow> QuickOptionsResult" where
  "optionsOutcome st inputs button =
     onSubmit button
       (foldl (\<lambda>m i. onChange i m)
          (newQuickOptionsModal (imageStyle st) (imageSize st) (cartoonCuts st)
             (customCartoonCuts st)) inputs)"

fun guardEvent :: "event \<Rightarrow> bool" where
  "guardEvent (Notice AlreadyInProgress) = True"
| "guardEvent (Notice OpenNoteFirst) = True"
| "guardEvent (Notice NoteIsEmpty) = True"
| "guardEvent (Notice (ProviderKeyNotConfigured v)) = True"
| "guardEvent (Notice GoogleKeyRequired) = True"
| "guardEvent (UnhandledRejection e) = True"
| "guardEvent _ = False"

text \<open>What the \<^verbatim>\<open>catch\<close> of a generation adds to the trace.\<close>

fun catchEvents :: "(string \<Rightarrow> notice) \<Rightarrow> 'w flow \<Rightarrow> (bool \<times> event) list" where
  "catchEvents failed (Threw e progressModal p) =
     [(isGenerating p,
       if progressModal then ShowError (toGenerationError e)
       else Notice (failed (message (toGenerationError e))))]"
| "catchEvents failed _ = []"

text \<open>
  The cache holds a raw prompt: \<open>lastPrompt\<close> is empty, as it is when the plugin is loaded,
  or one of the prompts that the prompt client has returned so far.
\<close>

definition rawCache :: "'w plugin \<Rightarrow> bool" where
  "rawCache p \<longleftrightarrow> lastPrompt p \<in> set ([] # promptsReturned (trace p))"

text \<open>What the panel count of a cartoon can be: within 2 to 12, or the stored setting.\<close>

definition clampedOrStored :: "NanoBananaSettings \<Rightarrow> number \<Rightarrow> bool" where
  "clampedOrStored st c \<longleftrightarrow> inPanelRange c \<or> c = customCartoonCuts st"

section \<open>Properties\<close>

subsection \<open>The retry controller\<close>

lemma worldAfter_Suc: "worldAfter operation (Suc k) w = snd (run operation (worldAfter operation k w))"
  by (simp add: worldAfter_def)

lemma worldAfter_0: "worldAfter operation 0 w = w"
  by (simp add: worldAfter_def)

lemma isRetryable_asError: "isRetryable e \<Longrightarrow> asError e = e"
  by (cases e) simp_all

lemma retry_all_from:
  fixes operation :: "('w, 'a) operation"
  assumes "autoRetryCount (settings p) = n"
      and "world p = worldAfter operation a w0"
      and "int a \<le> n"
      and "\<forall>k. a \<le> k \<and> int k \<le> n \<longrightarrow> raisesRetryable (outcomeOf operation k w0)"
  shows "executeWithRetry_loop a le operation p =
           (outcomeOf operation (nat n) w0,
            p\<lparr>world := worldAfter operation (nat n + 1) w0,
              trace := trace p @ concat (map (attemptEvents (isGenerating p) operation n w0) [a..<nat n + 1])\<rparr>)"
  using assms
proof (induction "nat n - a" arbitrary: a p le)
  case 0
  then have an: "int a = n" by linarith
  have "raisesRetryable (outcomeOf operation a w0)" using 0 by simp
  then obtain e where e: "outcomeOf operation a w0 = Inl e" "isRetryable e"
    by (auto simp: raisesRetryable_def split: sum.splits)
  obtain w where rw: "run operation (world p) = (Inl e, w)"
    using e(1) "0.prems"(2) by (cases "run operation (world p)") (simp add: outcomeOf_def)
  have w: "w = worldAfter operation (Suc a) w0"
    using rw "0.prems"(2) by (simp add: worldAfter_Suc)
  have na: "nat n = a" using an by simp
  show ?case
    using an e rw "0.prems"(1)
    apply (subst executeWithRetry_loop.simps)
    apply (simp add: invoke_def emit_def isRetryable_asError attemptEvents_def w na)
    done
next
  case (Suc d)
  then have an: "int a < n" by linarith
  have "raisesRetryable (outcomeOf operation a w0)" using Suc.prems by simp
  then obtain e where e: "outcomeOf operation a w0 = Inl e" "isRetryable e"
    by (auto simp: raisesRetryable_def split: sum.splits)
  obtain w where rw: "run operation (world p) = (Inl e, w)"
    using e(1) Suc.prems(2) by (cases "run operation (world p)") (simp add: outcomeOf_def)
  have w: "w = worldAfter operation (Suc a) w0"
    using rw Suc.prems(2) by (simp add: worldAfter_Suc)
  let ?p1 = "sleep (2 ^ a * 1000) (emit (describe operation (Inl e)) (p\<lparr>world := w\<rparr>))"
  have step: "executeWithRetry_loop a le operation p =
          executeWithRetry_loop (a + 1) (Some (asError e)) operation ?p1"
    using an e rw Suc.prems(1)
    apply (subst executeWithRetry_loop.simps)
    apply (simp add: invoke_def emit_def)
    done
  have IH: "executeWithRetry_loop (Suc a) (Some (asError e)) operation ?p1 =
           (outcomeOf operation (nat n) w0,
            ?p1\<lparr>world := worldAfter operation (nat n + 1) w0,
              trace := trace ?p1 @ concat (map (attemptEvents (isGenerating ?p1) operation n w0) [Suc a..<nat n + 1])\<rparr>)"
    apply (rule Suc.hyps(1))
    using Suc.hyps(2) Suc.prems an by (auto simp: sleep_def emit_def w)
  have upt: "[a..<Suc (nat n)] = a # [Suc a..<Suc (nat n)]"
  proof -
    have "a < Suc (nat n)" using an by linarith
    then show ?thesis by (rule upt_conv_Cons)
  qed
  have "executeWithRetry_loop a le operation p =
          executeWithRetry_loop (Suc a) (Some (asError e)) operation ?p1"
    using step by simp
  also note IH
  finally show ?case
    using an e by (simp add: upt attemptEvents_def sleep_def emit_def del: upt_Suc)
qed

lemma retry_not_retryable:
  fixes operation :: "('w, 'a) operation"
  assumes "0 \<le> autoRetryCount (settings p)"
      and "fst (run operation (world p)) = Inl e"
      and "\<not> isRetryable e"
  shows "executeWithRetry_loop 0 None operation p =
           (Inl (asError e),
            p\<lparr>world := worldAfter operation 1 (world p),
              trace := trace p @ [(isGenerating p, describe operation (Inl e))]\<rparr>)"
proof -
  obtain w where rw: "run operation (world p) = (Inl e, w)"
    using assms(2) by (cases "run operation (world p)") simp
  show ?thesis
    using assms(1,3) rw
    apply (subst executeWithRetry_loop.simps)
    apply (simp add: invoke_def emit_def worldAfter_def)
    done
qed

lemma retry_stops_at:
  fixes operation :: "('w, 'a) operation"
  assumes "autoRetryCount (settings p) = n"
      and "world p = worldAfter operation a w0"
      and "a \<le> k" and "int k \<le> n"
      and "\<forall>j. a \<le> j \<and> j < k \<longrightarrow> raisesRetryable (outcomeOf operation j w0)"
      and "outcomeOf operation k w0 = Inl e" and "\<not> isRetryable e"
  shows "executeWithRetry_loop a le operation p =
           (Inl (asError e),
            p\<lparr>world := worldAfter operation (k + 1) w0,
              trace := trace p @ concat (map (attemptEvents (isGenerating p) operation (int k) w0) [a..<k + 1])\<rparr>)"
  using assms(1-5)
proof (induction "k - a" arbitrary: a p le)
  case 0
  then have ak: "a = k" by simp
  obtain w where rw: "run operation (world p) = (Inl e, w)"
    using assms(6) "0.prems"(2) ak
    by (cases "run operation (world p)") (simp add: outcomeOf_def)
  have w: "w = worldAfter operation (Suc k) w0"
    using rw "0.prems"(2) ak by (simp add: worldAfter_Suc)
  show ?case
    using assms(6,7) rw "0.prems"(1,4)
    apply (subst executeWithRetry_loop.simps)
    apply (simp add: invoke_def emit_def attemptEvents_def w ak)
    done
next
  case (Suc d)
  then have ak: "a < k" by linarith
  then have an: "int a < n" using Suc.prems(4) by linarith
  have "raisesRetryable (outcomeOf operation a w0)" using Suc.prems(5) ak by simp
  then obtain e' where e': "outcomeOf operation a w0 = Inl e'" "isRetryable e'"
    by (auto simp: raisesRetryable_def split: sum.splits)
  obtain w where rw: "run operation (world p) = (Inl e', w)"
    using e'(1) Suc.prems(2) by (cases "run operation (world p)") (simp add: outcomeOf_def)
  have w: "w = worldAfter operation (Suc a) w0"
    using rw Suc.prems(2) by (simp add: worldAfter_Suc)
  let ?p1 = "sleep (2 ^ a * 1000) (emit (describe operation (Inl e')) (p\<lparr>world := w\<rparr>))"
  have step: "executeWithRetry_loop a le operation p =
          executeWithRetry_loop (Suc a) (Some (asError e')) operation ?p1"
    using an e' rw Suc.prems(1)
    apply (subst executeWithRetry_loop.simps)
    apply (simp add: invoke_def emit_def)
    done
  have IH: "executeWithRetry_loop (Suc a) (Some (asError e')) operation ?p1 =
           (Inl (asError e),
            ?p1\<lparr>world := worldAfter operation (k + 1) w0,
              trace := trace ?p1 @ concat (map (attemptEvents (isGenerating ?p1) operation (int k) w0) [Suc a..<k + 1])\<rparr>)"
    apply (rule Suc.hyps(1))
    using Suc.hyps(2) Suc.prems ak by (auto simp: sleep_def emit_def w)
  have upt: "[a..<Suc k] = a # [Suc a..<Suc k]"
  proof -
    have "a < Suc k" using ak by linarith
    then show ?thesis by (rule upt_conv_Cons)
  qed
  note step
  also note IH
  finally show ?case
    using ak e' by (simp add: upt attemptEvents_def sleep_def emit_def del: upt_Suc)
qed

lemma isErrorInstance_asError: "isErrorInstance e \<Longrightarrow> asError e = e"
  by (cases e) simp_all

text \<open>
  C1. With \<open>autoRetryCount = n\<close>, \<open>n \<ge> 0\<close>: when every attempt of the operation raises a
  retryable typed error, \<^verbatim>\<open>executeWithRetry\<close> calls the operation \<open>n + 1\<close> times (the trace
  holds the calls of attempts \<open>0, \<dots>, n\<close>, and the world is the one after \<open>n + 1\<close> calls),
  waits \<open>2 ^ k\<close> seconds (\<open>2 ^ k * 1000\<close> milliseconds) after attempt \<open>k\<close> for every \<open>k < n\<close> and
  not after the last one, and throws what the last attempt threw. When the first attempt
  raises an error that is not retryable, that error is thrown after this one call, with no
  delay; it is the very value raised when that value is an \<^verbatim>\<open>Error\<close>. The same holds at
  every attempt: when the attempts before attempt \<open>k \<le> n\<close> raise retryable errors and
  attempt \<open>k\<close> raises an error that is not retryable, the operation is called \<open>k + 1\<close>
  times, with the delays after the attempts before \<open>k\<close> and none after attempt \<open>k\<close>, and
  the error of attempt \<open>k\<close> is thrown.
\<close>

theorem executeWithRetry_policy:
  fixes operation :: "('w, 'a) operation"
  assumes "0 \<le> autoRetryCount (settings p)"
  shows "((\<forall>k \<le> nat (autoRetryCount (settings p)).
             raisesRetryable (outcomeOf operation k (world p))) \<longrightarrow>
          executeWithRetry operation p =
            (outcomeOf operation (nat (autoRetryCount (settings p))) (world p),
             p\<lparr>world := worldAfter operation (nat (autoRetryCount (settings p)) + 1) (world p),
               trace := trace p @
                 concat (map (attemptEvents (isGenerating p) operation
                                (autoRetryCount (settings p)) (world p))
                           [0..<nat (autoRetryCount (settings p)) + 1])\<rparr>))
       \<and> (\<forall>e. fst (run operation (world p)) = Inl e \<and> \<not> isRetryable e \<longrightarrow>
            executeWithRetry operation p =
              (Inl (asError e),
               p\<lparr>world := worldAfter operation 1 (world p),
                 trace := trace p @ [(isGenerating p, describe operation (Inl e))]\<rparr>)
            \<and> (isErrorInstance e \<longrightarrow> asError e = e))
       \<and> (\<forall>k e. int k \<le> autoRetryCount (settings p)
                 \<and> (\<forall>j < k. raisesRetryable (outcomeOf operation j (world p)))
                 \<and> outcomeOf operation k (world p) = Inl e \<and> \<not> isRetryable e \<longrightarrow>
            executeWithRetry operation p =
              (Inl (asError e),
               p\<lparr>world := worldAfter operation (k + 1) (world p),
                 trace := trace p @
                   concat (map (attemptEvents (isGenerating p) operation (int k) (world p))
                             [0..<k + 1])\<rparr>))"
proof (intro conjI impI allI)
  assume all: "\<forall>k \<le> nat (autoRetryCount (settings p)).
             raisesRetryable (outcomeOf operation k (world p))"
  show "executeWithRetry operation p =
            (outcomeOf operation (nat (autoRetryCount (settings p))) (world p),
             p\<lparr>world := worldAfter operation (nat (autoRetryCount (settings p)) + 1) (world p),
               trace := trace p @
                 concat (map (attemptEvents (isGenerating p) operation
                                (autoRetryCount (settings p)) (world p))
                           [0..<nat (autoRetryCount (settings p)) + 1])\<rparr>)"
    unfolding executeWithRetry_def
  proof (rule retry_all_from)
    show "\<forall>k. 0 \<le> k \<and> int k \<le> autoRetryCount (settings p) \<longrightarrow>
           raisesRetryable (outcomeOf operation k (world p))"
      using all by (simp add: le_nat_iff)
  qed (use assms in \<open>simp_all add: worldAfter_0\<close>)
next
  fix e
  assume "fst (run operation (world p)) = Inl e \<and> \<not> isRetryable e"
  then show "executeWithRetry operation p =
              (Inl (asError e),
               p\<lparr>world := worldAfter operation 1 (world p),
                 trace := trace p @ [(isGenerating p, describe operation (Inl e))]\<rparr>)"
    unfolding executeWithRetry_def using assms by (intro retry_not_retryable) simp_all
next
  fix e
  assume "isErrorInstance e"
  then show "asError e = e" by (rule isErrorInstance_asError)
next
  fix k e
  assume A: "int k \<le> autoRetryCount (settings p)
             \<and> (\<forall>j < k. raisesRetryable (outcomeOf operation j (world p)))
             \<and> outcomeOf operation k (world p) = Inl e \<and> \<not> isRetryable e"
  show "executeWithRetry operation p =
              (Inl (asError e),
               p\<lparr>world := worldAfter operation (k + 1) (world p),
                 trace := trace p @
                   concat (map (attemptEvents (isGenerating p) operation (int k) (world p))
                             [0..<k + 1])\<rparr>)"
    unfolding executeWithRetry_def
    by (rule retry_stops_at [where n = "autoRetryCount (settings p)"])
       (use A in \<open>simp_all add: worldAfter_0\<close>)
qed

text \<open>
  Two retries, an operation that is rate limited every time: three calls, delays of one
  and two seconds between them, the third error thrown. A rejected key: one call, no delay.
  A rate limit and then a rejected key: two calls with one second between them, the
  second error thrown though a retry is left.
\<close>

theorem executeWithRetry_policy_witness:
  "0 \<le> autoRetryCount (settings demoPlugin)
   \<and> raisesRetryable (outcomeOf alwaysRateLimited 0 (world demoPlugin))
   \<and> raisesRetryable (outcomeOf alwaysRateLimited 1 (world demoPlugin))
   \<and> raisesRetryable (outcomeOf alwaysRateLimited 2 (world demoPlugin))
   \<and> executeWithRetry alwaysRateLimited demoPlugin =
       (Inl (GenerationErrorClass (rateLimited 2)),
        demoPlugin\<lparr>world := 3,
          trace := [(False, PromptCall ''note'' openai ''prompt-model'' ''sk-openai''
                              (Inl (GenerationErrorClass (rateLimited 0)))),
                    (False, Sleep 1000),
                    (False, PromptCall ''note'' openai ''prompt-model'' ''sk-openai''
                              (Inl (GenerationErrorClass (rateLimited 1)))),
                    (False, Sleep 2000),
                    (False, PromptCall ''note'' openai ''prompt-model'' ''sk-openai''
                              (Inl (GenerationErrorClass (rateLimited 2))))]\<rparr>)
   \<and> fst (run keyRejected (world demoPlugin)) = Inl (GenerationErrorClass invalidKey)
   \<and> \<not> isRetryable (GenerationErrorClass invalidKey)
   \<and> isErrorInstance (GenerationErrorClass invalidKey)
   \<and> executeWithRetry keyRejected demoPlugin =
       (Inl (GenerationErrorClass invalidKey),
        demoPlugin\<lparr>world := 1,
          trace := [(False, PromptCall ''note'' openai ''prompt-model'' ''sk-openai''
                              (Inl (GenerationErrorClass invalidKey)))]\<rparr>)
   \<and> raisesRetryable (outcomeOf limitedThenRejected 0 (world demoPlugin))
   \<and> outcomeOf limitedThenRejected 1 (world demoPlugin) = Inl (GenerationErrorClass invalidKey)
   \<and> executeWithRetry limitedThenRejected demoPlugin =
       (Inl (GenerationErrorClass invalidKey),
        demoPlugin\<lparr>world := 2,
          trace := [(False, PromptCall ''note'' openai ''prompt-model'' ''sk-openai''
                              (Inl (GenerationErrorClass (rateLimited 0)))),
                    (False, Sleep 1000),
                    (False, PromptCall ''note'' openai ''prompt-model'' ''sk-openai''
                              (Inl (GenerationErrorClass invalidKey)))]\<rparr>)"
proof -
  have n: "autoRetryCount (settings demoPlugin) = 2"
    by (simp add: demoPlugin_def demoSettings_def)
  have wa: "worldAfter alwaysRateLimited k w = w + k" for k w
    by (induction k) (simp_all add: worldAfter_0 worldAfter_Suc alwaysRateLimited_def)
  have out: "outcomeOf alwaysRateLimited k w = Inl (GenerationErrorClass (rateLimited (w + k)))" for k w
    by (simp add: outcomeOf_def wa) (simp add: alwaysRateLimited_def)
  have all: "\<forall>k \<le> nat (autoRetryCount (settings demoPlugin)).
         raisesRetryable (outcomeOf alwaysRateLimited k (world demoPlugin))"
    by (simp add: out raisesRetryable_def rateLimited_def)
  have upt: "[0..<3] = [0, 1, 2::nat]"
    by (simp add: upt_rec)
  have w0: "world demoPlugin = 0" "isGenerating demoPlugin = False" "trace demoPlugin = []"
    by (simp_all add: demoPlugin_def)
  have first: "executeWithRetry alwaysRateLimited demoPlugin =
       (Inl (GenerationErrorClass (rateLimited 2)),
        demoPlugin\<lparr>world := 3,
          trace := [(False, PromptCall ''note'' openai ''prompt-model'' ''sk-openai''
                              (Inl (GenerationErrorClass (rateLimited 0)))),
                    (False, Sleep 1000),
                    (False, PromptCall ''note'' openai ''prompt-model'' ''sk-openai''
                              (Inl (GenerationErrorClass (rateLimited 1)))),
                    (False, Sleep 2000),
                    (False, PromptCall ''note'' openai ''prompt-model'' ''sk-openai''
                              (Inl (GenerationErrorClass (rateLimited 2))))]\<rparr>)"
    using executeWithRetry_policy [of demoPlugin alwaysRateLimited] all
    by (simp add: n w0 out wa upt attemptEvents_def) (simp add: alwaysRateLimited_def eval_nat_numeral)
  have kr: "fst (run keyRejected (world demoPlugin)) = Inl (GenerationErrorClass invalidKey)"
    by (simp add: keyRejected_def)
  have nr: "\<not> isRetryable (GenerationErrorClass invalidKey)"
    by (simp add: invalidKey_def)
  have second: "executeWithRetry keyRejected demoPlugin =
       (Inl (GenerationErrorClass invalidKey),
        demoPlugin\<lparr>world := 1,
          trace := [(False, PromptCall ''note'' openai ''prompt-model'' ''sk-openai''
                              (Inl (GenerationErrorClass invalidKey)))]\<rparr>)"
    using executeWithRetry_policy [of demoPlugin keyRejected] kr nr
    by (simp add: n w0 worldAfter_def) (simp add: keyRejected_def)
  have each: "raisesRetryable (outcomeOf alwaysRateLimited k (world demoPlugin))" for k
    by (simp add: out raisesRetryable_def rateLimited_def)
  have wl: "worldAfter limitedThenRejected k w = w + k" for k w
    by (induction k) (simp_all add: worldAfter_0 worldAfter_Suc limitedThenRejected_def)
  have l0: "outcomeOf limitedThenRejected 0 (world demoPlugin) = Inl (GenerationErrorClass (rateLimited 0))"
    by (simp add: outcomeOf_def wl w0) (simp add: limitedThenRejected_def)
  have l1: "outcomeOf limitedThenRejected 1 (world demoPlugin) = Inl (GenerationErrorClass invalidKey)"
    by (simp add: outcomeOf_def wl w0) (simp add: limitedThenRejected_def)
  have r0: "raisesRetryable (outcomeOf limitedThenRejected 0 (world demoPlugin))"
    by (simp add: l0 raisesRetryable_def rateLimited_def)
  have third: "executeWithRetry limitedThenRejected demoPlugin =
       (Inl (GenerationErrorClass invalidKey),
        demoPlugin\<lparr>world := 2,
          trace := [(False, PromptCall ''note'' openai ''prompt-model'' ''sk-openai''
                              (Inl (GenerationErrorClass (rateLimited 0)))),
                    (False, Sleep 1000),
                    (False, PromptCall ''note'' openai ''prompt-model'' ''sk-openai''
                              (Inl (GenerationErrorClass invalidKey)))]\<rparr>)"
  proof -
    have nn: "0 \<le> autoRetryCount (settings demoPlugin)"
      by (simp add: n)
    have H: "int 1 \<le> autoRetryCount (settings demoPlugin)
          \<and> (\<forall>j < 1. raisesRetryable (outcomeOf limitedThenRejected j (world demoPlugin)))
          \<and> outcomeOf limitedThenRejected 1 (world demoPlugin) = Inl (GenerationErrorClass invalidKey)
          \<and> \<not> isRetryable (GenerationErrorClass invalidKey)"
      using r0 l1 nr by (simp add: n)
    have "executeWithRetry limitedThenRejected demoPlugin =
              (Inl (asError (GenerationErrorClass invalidKey)),
               demoPlugin\<lparr>world := worldAfter limitedThenRejected (1 + 1) (world demoPlugin),
                 trace := trace demoPlugin @
                   concat (map (attemptEvents (isGenerating demoPlugin) limitedThenRejected (int 1)
                                  (world demoPlugin))
                             [0..<1 + 1])\<rparr>)"
      using executeWithRetry_policy [of demoPlugin limitedThenRejected, OF nn, THEN conjunct2,
              THEN conjunct2, rule_format, where k = 1 and e = "GenerationErrorClass invalidKey",
              OF H] .
    then show ?thesis
      using l0 l1 by (simp add: w0 wl attemptEvents_def)
         (simp add: limitedThenRejected_def)
  qed
  show ?thesis
    using each first kr nr second r0 l1 third by (simp add: n)
qed

subsection \<open>Panel counts and error conversion\<close>

text \<open>
  C8. \<^verbatim>\<open>getCartoonCutsNumber\<close> returns 4, 6 and 8 for the selectors \<^verbatim>\<open>'4'\<close>, \<^verbatim>\<open>'6'\<close> and \<^verbatim>\<open>'8'\<close>,
  whatever the custom value is, and for the selector \<^verbatim>\<open>'custom'\<close> it returns the custom
  value as it is given: nothing clamps it here.
\<close>

theorem getCartoonCutsNumber_reads:
  "getCartoonCutsNumber cuts_4 customCuts = Num 4
   \<and> getCartoonCutsNumber cuts_6 customCuts = Num 6
   \<and> getCartoonCutsNumber cuts_8 customCuts = Num 8
   \<and> getCartoonCutsNumber custom customCuts = customCuts"
proof -
  have "parseInt ''4'' = Num 4" "parseInt ''6'' = Num 6" "parseInt ''8'' = Num 8"
    by code_simp+
  then show ?thesis
    by (simp add: getCartoonCutsNumber_def)
qed

lemma newEvents_append [simp]: "newEvents p (p'\<lparr>trace := trace p @ evs\<rparr>) = evs"
  by (simp add: newEvents_def)

text \<open>
  C6. \<^verbatim>\<open>toGenerationError\<close> returns the type, message, retryable flag and details of a
  typed error as they are, and turns every other thrown value into \<^verbatim>\<open>GENERATION_FAILED\<close>
  with \<open>retryable = False\<close> and no details; the wrapping done by \<^verbatim>\<open>executeWithRetry\<close> does
  not change the result. The \<^verbatim>\<open>catch\<close> of a generation shows exactly this converted
  error: the whole of it in the progress modal, its message in the notice otherwise.
\<close>

theorem toGenerationError_closed_taxonomy:
  "toGenerationError (GenerationErrorClass e) = e
   \<and> toGenerationError (PlainError m) =
       \<lparr>type = GENERATION_FAILED, message = m, retryable = False, details = None\<rparr>
   \<and> toGenerationError (NonError m) =
       \<lparr>type = GENERATION_FAILED, message = m, retryable = False, details = None\<rparr>
   \<and> toGenerationError (asError x) = toGenerationError x
   \<and> newEvents p (catchFinally failed (Threw x True p)) =
       [(isGenerating p, ShowError (toGenerationError x))]
   \<and> newEvents p (catchFinally failed (Threw x False p)) =
       [(isGenerating p, Notice (failed (message (toGenerationError x))))]"
proof -
  have "toGenerationError (asError x) = toGenerationError x"
    by (cases x) simp_all
  then show ?thesis
    by (simp add: catchError_def emit_def newEvents_def)
qed

subsection \<open>What a generation adds to the trace\<close>

lemma executeWithRetry_loop_shape:
  "\<exists>r w fs. executeWithRetry_loop a le operation p =
              (r, p\<lparr>world := w, trace := trace p @ fs @ finalCall (isGenerating p) operation r\<rparr>)
           \<and> list_all (failedOrSleep (isGenerating p) operation) fs"
proof (induction a le operation p rule: executeWithRetry_loop.induct)
  case (1 attempt lastError operation p)
  show ?case
  proof (cases "int attempt \<le> autoRetryCount (settings p)")
    case False
    then have "executeWithRetry_loop attempt lastError operation p =
        (Inl (case lastError of Some e \<Rightarrow> e
              | None \<Rightarrow> PlainError ''Operation failed with no error details''),
         p\<lparr>world := world p, trace := trace p @ [] @ []\<rparr>)"
      by (subst executeWithRetry_loop.simps) simp
    then show ?thesis
      by (intro exI[where x="Inl (case lastError of Some e \<Rightarrow> e
              | None \<Rightarrow> PlainError ''Operation failed with no error details'')"]
            exI[where x="world p"] exI[where x="[]"]) (simp add: finalCall_def)
  next
    case True
    obtain r0 w0 where rw: "run operation (world p) = (r0, w0)" by force
    let ?p1 = "emit (describe operation r0) (p\<lparr>world := w0\<rparr>)"
    have inv: "invoke operation p = (r0, ?p1)"
      by (simp add: invoke_def rw)
    show ?thesis
    proof (cases r0)
      case (Inr v)
      then have "executeWithRetry_loop attempt lastError operation p =
         (Inr v, p\<lparr>world := w0, trace := trace p @ [] @ finalCall (isGenerating p) operation (Inr v)\<rparr>)"
        using True inv by (subst executeWithRetry_loop.simps) (simp add: emit_def finalCall_def)
      then show ?thesis
        by (intro exI[where x="Inr v"] exI[where x=w0] exI[where x="[]"]) simp
    next
      case (Inl e)
      show ?thesis
      proof (cases "\<not> isRetryable e \<or> int attempt = autoRetryCount (settings p)")
        case stop: True
        then have "executeWithRetry_loop attempt lastError operation p =
           (Inl (asError e), p\<lparr>world := w0,
              trace := trace p @ [(isGenerating p, describe operation (Inl e))]
                         @ finalCall (isGenerating p) operation (Inl (asError e))\<rparr>)"
          using True inv Inl
          by (subst executeWithRetry_loop.simps) (auto simp: emit_def finalCall_def)
        then show ?thesis
          by (intro exI[where x="Inl (asError e)"] exI[where x=w0]
                exI[where x="[(isGenerating p, describe operation (Inl e))]"])
             (auto simp: failedOrSleep_def)
      next
        case go: False
        let ?p2 = "sleep (2 ^ attempt * 1000) ?p1"
        have step: "executeWithRetry_loop attempt lastError operation p =
            executeWithRetry_loop (attempt + 1) (Some (asError e)) operation ?p2"
          using True inv Inl go
          by (subst executeWithRetry_loop.simps) (auto simp: emit_def)
        have "\<exists>r w fs. executeWithRetry_loop (attempt + 1) (Some (asError e)) operation ?p2 =
              (r, ?p2\<lparr>world := w, trace := trace ?p2 @ fs @ finalCall (isGenerating ?p2) operation r\<rparr>)
           \<and> list_all (failedOrSleep (isGenerating ?p2) operation) fs"
          using "1.IH"[OF True inv[symmetric] Inl] go by (simp add: emit_def)
        then obtain r w fs where
          rec: "executeWithRetry_loop (attempt + 1) (Some (asError e)) operation ?p2 =
              (r, ?p2\<lparr>world := w, trace := trace ?p2 @ fs @ finalCall (isGenerating ?p2) operation r\<rparr>)"
          and fs: "list_all (failedOrSleep (isGenerating ?p2) operation) fs"
          by blast
        have flag: "isGenerating ?p2 = isGenerating p"
          by (simp add: sleep_def emit_def)
        have "executeWithRetry_loop attempt lastError operation p =
              (r, p\<lparr>world := w,
                   trace := trace p @ ((isGenerating p, describe operation (Inl e))
                              # (isGenerating p, Sleep (2 ^ attempt * 1000)) # fs)
                            @ finalCall (isGenerating p) operation r\<rparr>)"
          unfolding step rec by (simp add: sleep_def emit_def Inl)
        moreover have "list_all (failedOrSleep (isGenerating p) operation)
                 ((isGenerating p, describe operation (Inl e))
                              # (isGenerating p, Sleep (2 ^ attempt * 1000)) # fs)"
          using fs unfolding flag by (auto simp: failedOrSleep_def)
        ultimately show ?thesis by blast
      qed
    qed
  qed
qed

lemma executeWithRetry_shape:
  obtains r w fs where
    "executeWithRetry operation p =
       (r, p\<lparr>world := w, trace := trace p @ fs @ finalCall (isGenerating p) operation r\<rparr>)"
    "list_all (failedOrSleep (isGenerating p) operation) fs"
  using executeWithRetry_loop_shape [of 0 None operation p]
  unfolding executeWithRetry_def by blast

lemma progressOf_simps [simp]:
  "progressOf [] = []"
  "progressOf (x # xs) = progressShown x @ progressOf xs"
  "progressOf (xs @ ys) = progressOf xs @ progressOf ys"
  by (simp_all add: progressOf_def)

lemma promptsReturned_simps [simp]:
  "promptsReturned [] = []"
  "promptsReturned (x # xs) = promptReturned x @ promptsReturned xs"
  "promptsReturned (xs @ ys) = promptsReturned xs @ promptsReturned ys"
  by (simp_all add: promptsReturned_def)

lemma successes_simps [simp]:
  "successes [] = []"
  "successes (x # xs) = successShown x @ successes xs"
  "successes (xs @ ys) = successes xs @ successes ys"
  by (simp_all add: successes_def)

lemma providerCalls_simps [simp]:
  "providerCalls [] = []"
  "providerCalls (x # xs) = providerCall x @ providerCalls xs"
  "providerCalls (xs @ ys) = providerCalls xs @ providerCalls ys"
  by (simp_all add: providerCalls_def)

lemma imagePrompts_simps [simp]:
  "imagePrompts [] = []"
  "imagePrompts (x # xs) = imagePrompt x @ imagePrompts xs"
  "imagePrompts (xs @ ys) = imagePrompts xs @ imagePrompts ys"
  by (simp_all add: imagePrompts_def)

lemma cartoonPanelCounts_simps [simp]:
  "cartoonPanelCounts [] = []"
  "cartoonPanelCounts (x # xs) = cartoonPanelCount x @ cartoonPanelCounts xs"
  "cartoonPanelCounts (xs @ ys) = cartoonPanelCounts xs @ cartoonPanelCounts ys"
  by (simp_all add: cartoonPanelCounts_def)

lemma unflagged_simps [simp]:
  "unflagged [] = []"
  "unflagged (x # xs) = (if \<not> fst x \<and> sessionEvent (snd x) then [snd x] else []) @ unflagged xs"
  "unflagged (xs @ ys) = unflagged xs @ unflagged ys"
  by (simp_all add: unflagged_def)

lemma failedOrSleep_prompt:
  assumes "list_all (failedOrSleep flag (promptOperation h c v m k)) fs"
  shows "progressOf fs = []" "promptsReturned fs = []" "successes fs = []"
  using assms
  by (induction fs; auto simp: failedOrSleep_def promptOperation_def)+

lemma failedOrSleep_image:
  assumes "list_all (failedOrSleep flag (imageOperation h f k m s l z c)) fs"
  shows "progressOf fs = []" "promptsReturned fs = []" "successes fs = []"
  using assms
  by (induction fs; auto simp: failedOrSleep_def imageOperation_def)+

lemma failedOrSleep_all:
  assumes "list_all (failedOrSleep flag operation) fs"
      and "\<And>d. Q (flag, Sleep d)"
      and "\<And>e. Q (flag, describe operation (Inl e))"
  shows "list_all Q fs"
  using assms(1)
proof (induction fs)
  case Nil
  then show ?case by simp
next
  case (Cons x fs)
  then have "failedOrSleep flag operation x" "list_all Q fs" by simp_all
  moreover from this(1) have "Q x"
    using assms(2,3) by (cases x) (auto simp: failedOrSleep_def)
  ultimately show ?case by simp
qed

lemma imageSteps_summary:
  fixes p :: "'w plugin"
  assumes Q: "\<And>s n. progressModal \<Longrightarrow> Q (isGenerating p, UpdateProgress s n)"
             "\<And>d. Q (isGenerating p, Sleep d)"
             "\<And>r. Q (isGenerating p, ImageCall f (googleApiKey (settings p)) (imageModel (settings p))
                        style (preferredLanguage (settings p)) resolution cuts r)"
             "\<And>x. Q (isGenerating p, ShowSuccess x)"
             "Q (isGenerating p, Notice PosterGenerated)"
      and F_def: "F = imageSteps h noteFile f style resolution cuts progressModal p"
  shows "settings (flowPlugin F) = settings p
       \<and> lastPrompt (flowPlugin F) = lastPrompt p
       \<and> lastNoteFile (flowPlugin F) = lastNoteFile p
       \<and> isGenerating (flowPlugin F) = isGenerating p
       \<and> trace (flowPlugin F) = trace p @ newEvents p (flowPlugin F)
       \<and> list_all Q (newEvents p (flowPlugin F))
       \<and> promptsReturned (newEvents p (flowPlugin F)) = []
       \<and> (case F of
            Completed pm p' \<Rightarrow>
              progressOf (newEvents p p') = (if progressModal then [50, 80, 95, 100] else [])
              \<and> successes (newEvents p p') \<noteq> []
          | Threw e pm p' \<Rightarrow> successes (newEvents p p') = []
          | _ \<Rightarrow> False)"
proof -
  define p1 where "p1 = updateProgress progressModal generating_image 50 p"
  define operation where
    "operation = imageOperation h f (googleApiKey (settings p1)) (imageModel (settings p1)) style
                   (preferredLanguage (settings p1)) resolution cuts"
  obtain r w fs where
    R: "executeWithRetry operation p1 =
       (r, p1\<lparr>world := w, trace := trace p1 @ fs @ finalCall (isGenerating p1) operation r\<rparr>)"
    and fs: "list_all (failedOrSleep (isGenerating p1) operation) fs"
    by (rule executeWithRetry_shape)
  have p1: "settings p1 = settings p" "isGenerating p1 = isGenerating p"
    by (simp_all add: p1_def updateProgress_def emit_def)
  have fs0: "progressOf fs = []" "promptsReturned fs = []" "successes fs = []"
    using fs unfolding operation_def by (rule failedOrSleep_image)+
  have fsQ: "list_all Q fs"
    using fs
  proof (rule failedOrSleep_all)
    show "Q (isGenerating p1, Sleep d)" for d using Q(2) by (simp add: p1)
    show "Q (isGenerating p1, describe operation (Inl e))" for e
      using Q(3) by (simp add: p1 operation_def imageOperation_def)
  qed
  have QR: "Q (isGenerating p, describe operation r')" for r'
    using Q(3) by (simp add: p1 operation_def imageOperation_def)
  have F: "F = (case (r, p1\<lparr>world := w, trace := trace p1 @ fs @ finalCall (isGenerating p1) operation r\<rparr>) of
           (Inl e, p2) \<Rightarrow> Threw e progressModal p2
         | (Inr imageResult, p2) \<Rightarrow>
             (let p3 = updateProgress progressModal saving 80 p2
              in case await (saveImage h (imageData imageResult) (mimeType imageResult) noteFile
                               (attachmentFolder (settings p3))) p3 of
                   (Inl e, p4) \<Rightarrow> Threw e progressModal p4
                 | (Inr imagePath, p4) \<Rightarrow>
                     (let p5 = updateProgress progressModal embedding 95 p4
                      in case await (embedImageInNote h noteFile imagePath) p5 of
                           (Inl e, p6) \<Rightarrow> Threw e progressModal p6
                         | (Inr _, p6) \<Rightarrow>
                             (let p7 = updateProgress progressModal complete 100 p6
                              in Completed progressModal
                                   (if progressModal then emit (ShowSuccess imagePath) p7
                                    else emit (Notice PosterGenerated) p7)))))"
    unfolding F_def imageSteps_def Let_def p1_def [symmetric] operation_def [symmetric] R ..
  show ?thesis
    unfolding F
    using fs0 fsQ Q(1,4,5) QR
    by (auto simp: p1_def updateProgress_def emit_def await_def finalCall_def Let_def
                   operation_def imageOperation_def newEvents_def
             split: sum.splits prod.splits)
qed

lemma newEvents_eq: "trace r = trace p @ E \<Longrightarrow> newEvents p r = E"
  by (simp add: newEvents_def)

lemma imageSteps_from:
  fixes p q :: "'w plugin"
  assumes A: "allowsSession Q (isGenerating p) (settings p) noteContent providerKey style resolution cuts"
      and q: "settings q = settings p" "isGenerating q = isGenerating p"
             "lastNoteFile q = lastNoteFile p" "trace q = trace p @ X"
      and X: "list_all Q X" "successes X = []"
      and F: "F = imageSteps h noteFile f style resolution cuts progressModal q"
      and pm: "progressModal \<longrightarrow> showProgressModal (settings p)"
  shows "settings (flowPlugin F) = settings p
       \<and> lastPrompt (flowPlugin F) = lastPrompt q
       \<and> lastNoteFile (flowPlugin F) = lastNoteFile p
       \<and> isGenerating (flowPlugin F) = isGenerating p
       \<and> trace (flowPlugin F) = trace p @ newEvents p (flowPlugin F)
       \<and> list_all Q (newEvents p (flowPlugin F))
       \<and> promptsReturned (newEvents p (flowPlugin F)) = promptsReturned X
       \<and> (case F of
            Completed pm p' \<Rightarrow>
              progressOf (newEvents p p') =
                progressOf X @ (if progressModal then [50, 80, 95, 100] else [])
              \<and> successes (newEvents p p') \<noteq> []
          | Threw e pm p' \<Rightarrow> successes (newEvents p p') = []
          | _ \<Rightarrow> False)"
proof -
  have S: "settings (flowPlugin F) = settings q
       \<and> lastPrompt (flowPlugin F) = lastPrompt q
       \<and> lastNoteFile (flowPlugin F) = lastNoteFile q
       \<and> isGenerating (flowPlugin F) = isGenerating q
       \<and> trace (flowPlugin F) = trace q @ newEvents q (flowPlugin F)
       \<and> list_all Q (newEvents q (flowPlugin F))
       \<and> promptsReturned (newEvents q (flowPlugin F)) = []
       \<and> (case F of
            Completed pm p' \<Rightarrow>
              progressOf (newEvents q p') = (if progressModal then [50, 80, 95, 100] else [])
              \<and> successes (newEvents q p') \<noteq> []
          | Threw e pm p' \<Rightarrow> successes (newEvents q p') = []
          | _ \<Rightarrow> False)"
    using A pm unfolding allowsSession_def
    by (intro imageSteps_summary [where f = f, OF _ _ _ _ _ F]) (simp_all add: q)
  have "trace (flowPlugin F) = trace p @ (X @ newEvents q (flowPlugin F))"
    using S q(4) by simp
  then have N: "newEvents p (flowPlugin F) = X @ newEvents q (flowPlugin F)"
    by (rule newEvents_eq)
  show ?thesis
    using S X q N by (cases F) auto
qed

lemma imageSteps_session:
  fixes p q :: "'w plugin"
  assumes A: "allowsSession Q (isGenerating p) (settings p) noteContent providerKey style resolution cuts"
      and q: "settings q = settings p" "isGenerating q = isGenerating p"
             "lastNoteFile q = lastNoteFile p" "trace q = trace p @ X"
      and X: "list_all Q X" "successes X = []" "promptsReturned X = [lastPrompt q]"
             "progressOf X = (if showProgressModal (settings p) then [20] else [])"
  shows "sessionSummary Q p
           (imageSteps h noteFile f style resolution cuts (showProgressModal (settings p)) q)"
proof -
  define F where "F = imageSteps h noteFile f style resolution cuts (showProgressModal (settings p)) q"
  have "showProgressModal (settings p) \<longrightarrow> showProgressModal (settings p)" by simp
  note S = imageSteps_from [OF A q X(1,2) F_def this]
  show ?thesis
    unfolding F_def [symmetric] sessionSummary_def
    using S X(3,4) by (cases F) auto
qed

lemma posterRound_summary:
  fixes p :: "'w plugin"
  assumes A: "allowsSession Q (isGenerating p) (settings p) noteContent providerKey style resolution cuts"
  shows "sessionSummary Q p
           (posterRound h noteFile noteContent providerKey style resolution cuts False p)"
proof -
  define F where "F = posterRound h noteFile noteContent providerKey style resolution cuts False p"
  define pm1 where "pm1 = showProgressModal (settings p)"
  define p1 where "p1 = (if pm1 then emit ModalOpen p else p)"
  define p2 where "p2 = updateProgress pm1 generating_prompt 20 p1"
  define operation where
    "operation = promptOperation h noteContent (selectedProvider (settings p2))
                   (promptModel (settings p2)) providerKey"
  define X2 where
    "X2 = (if pm1 then [(isGenerating p, ModalOpen),
                        (isGenerating p, UpdateProgress generating_prompt 20)] else [])"
  obtain r w fs where
    R: "executeWithRetry operation p2 =
       (r, p2\<lparr>world := w, trace := trace p2 @ fs @ finalCall (isGenerating p2) operation r\<rparr>)"
    and fs: "list_all (failedOrSleep (isGenerating p2) operation) fs"
    by (rule executeWithRetry_shape)
  have p2: "settings p2 = settings p" "isGenerating p2 = isGenerating p"
           "lastNoteFile p2 = lastNoteFile p" "lastPrompt p2 = lastPrompt p"
           "trace p2 = trace p @ X2"
    by (simp_all add: p2_def p1_def X2_def updateProgress_def emit_def)
  have Q: "\<And>s n. pm1 \<Longrightarrow> Q (isGenerating p, UpdateProgress s n)"
          "\<And>d. Q (isGenerating p, Sleep d)"
          "Q (isGenerating p, ModalOpen)" "Q (isGenerating p, ModalClose)"
          "\<And>r. Q (isGenerating p, PromptCall noteContent (selectedProvider (settings p))
                      (promptModel (settings p)) providerKey r)"
    using A by (simp_all add: allowsSession_def pm1_def)
  have X2Q: "list_all Q X2" "successes X2 = []" "promptsReturned X2 = []"
            "progressOf X2 = (if pm1 then [20] else [])"
    using Q by (simp_all add: X2_def)
  have fs0: "progressOf fs = []" "promptsReturned fs = []" "successes fs = []"
    using fs unfolding operation_def by (rule failedOrSleep_prompt)+
  have fsQ: "list_all Q fs"
    using fs
  proof (rule failedOrSleep_all)
    show "Q (isGenerating p2, Sleep d)" for d using Q(2) by (simp add: p2)
    show "Q (isGenerating p2, describe operation (Inl e))" for e
      using Q(5) by (simp add: p2 operation_def promptOperation_def)
  qed
  have head: "(if showProgressModal (settings p) then (True, emit ModalOpen p) else (False, p))
                = (pm1, p1)"
    by (simp add: pm1_def p1_def)
  define P3 where
    "P3 = p2\<lparr>world := w, trace := trace p2 @ fs @ finalCall (isGenerating p2) operation r\<rparr>"
  have F1: "F = (case (r, P3) of
           (Inl e, p3) \<Rightarrow> Threw e pm1 p3
         | (Inr promptResult, p3) \<Rightarrow>
             (let p4 = p3\<lparr>lastPrompt := prompt promptResult\<rparr>;
                  finalPrompt =
                    (if customPromptPrefix (settings p4) \<noteq> []
                     then customPromptPrefix (settings p4) @ [CHR 0x0A, CHR 0x0A] @ prompt promptResult
                     else prompt promptResult)
              in if showPreviewBeforeGeneration (settings p4) then
                   (let (progressModal2, p5) =
                          (if pm1 then (False, emit ModalClose p4) else (pm1, p4));
                        (previewResult, p6) = showPreviewModal h finalPrompt p5
                    in if \<not> confirmed_p previewResult
                       then Returned progressModal2 (p6\<lparr>isGenerating := False\<rparr>)
                       else if regenerate previewResult then Continue progressModal2 p6
                       else (let (progressModal3, p7) =
                                   (if showProgressModal (settings p6) then (True, emit ModalOpen p6)
                                    else (progressModal2, p6))
                             in imageSteps h noteFile (prompt_p previewResult) style resolution cuts
                                  progressModal3 p7))
                 else imageSteps h noteFile finalPrompt style resolution cuts pm1 p4))"
    unfolding F_def posterRound_def Let_def head prod.case p2_def [symmetric]
      operation_def [symmetric] R P3_def [symmetric] ..
  show ?thesis
    unfolding F_def [symmetric]
  proof (cases r)
    case (Inl e)
    have "F = Threw e pm1 P3" by (simp add: F1 Inl)
    moreover have "trace P3 = trace p @ (X2 @ fs)"
      by (simp add: P3_def p2 Inl finalCall_def)
    ultimately show "sessionSummary Q p F"
      using X2Q fs0 fsQ
      by (simp add: sessionSummary_def newEvents_eq) (simp add: P3_def p2)
  next
    case (Inr pr)
    define p4 where "p4 = P3\<lparr>lastPrompt := prompt pr\<rparr>"
    define finalPrompt where
      "finalPrompt = (if customPromptPrefix (settings p) \<noteq> []
                     then customPromptPrefix (settings p) @ [CHR 0x0A, CHR 0x0A] @ prompt pr
                     else prompt pr)"
    define X4 where
      "X4 = X2 @ fs @ [(isGenerating p, PromptCall noteContent (selectedProvider (settings p))
                      (promptModel (settings p)) providerKey (Inr pr))]"
    have p4: "settings p4 = settings p" "isGenerating p4 = isGenerating p"
             "lastNoteFile p4 = lastNoteFile p" "lastPrompt p4 = prompt pr"
             "trace p4 = trace p @ X4"
      by (simp_all add: p4_def P3_def p2 X4_def Inr finalCall_def operation_def
            promptOperation_def)
    have X4Q: "list_all Q X4" "successes X4 = []" "promptsReturned X4 = [prompt pr]"
              "progressOf X4 = (if pm1 then [20] else [])"
      using X2Q fs0 fsQ Q(5) by (simp_all add: X4_def)
    have F2: "F = (if showPreviewBeforeGeneration (settings p) then
                   (let (progressModal2, p5) =
                          (if pm1 then (False, emit ModalClose p4) else (pm1, p4));
                        (previewResult, p6) = showPreviewModal h finalPrompt p5
                    in if \<not> confirmed_p previewResult
                       then Returned progressModal2 (p6\<lparr>isGenerating := False\<rparr>)
                       else if regenerate previewResult then Continue progressModal2 p6
                       else (let (progressModal3, p7) =
                                   (if showProgressModal (settings p6) then (True, emit ModalOpen p6)
                                    else (progressModal2, p6))
                             in imageSteps h noteFile (prompt_p previewResult) style resolution cuts
                                  progressModal3 p7))
                 else imageSteps h noteFile finalPrompt style resolution cuts pm1 p4)"
      unfolding F1 Inr sum.case prod.case Let_def p4_def [symmetric] finalPrompt_def [symmetric]
        p4(1) ..
    show "sessionSummary Q p F"
    proof (cases "showPreviewBeforeGeneration (settings p)")
      case False
      then have "F = imageSteps h noteFile finalPrompt style resolution cuts
                       (showProgressModal (settings p)) p4"
        by (simp add: F2 pm1_def)
      moreover have "sessionSummary Q p
           (imageSteps h noteFile finalPrompt style resolution cuts (showProgressModal (settings p)) p4)"
        using A p4(1,2,3,5) X4Q(1,2)
      proof (rule imageSteps_session)
        show "promptsReturned X4 = [lastPrompt p4]" by (simp add: X4Q p4)
        show "progressOf X4 = (if showProgressModal (settings p) then [20] else [])"
          by (simp add: X4Q pm1_def)
      qed
      ultimately show ?thesis by simp
    next
      case True
      define p5 where "p5 = (if pm1 then emit ModalClose p4 else p4)"
      define X5 where "X5 = X4 @ (if pm1 then [(isGenerating p, ModalClose)] else [])"
      obtain pv w6 where pv: "previewUser h finalPrompt (world p5) = (pv, w6)" by force
      define p6 where "p6 = p5\<lparr>world := w6\<rparr>"
      have p6: "settings p6 = settings p" "isGenerating p6 = isGenerating p"
             "lastNoteFile p6 = lastNoteFile p" "lastPrompt p6 = prompt pr"
             "trace p6 = trace p @ X5"
        by (simp_all add: p6_def p5_def p4 X5_def emit_def)
      have X5Q: "list_all Q X5" "successes X5 = []" "promptsReturned X5 = [prompt pr]"
              "progressOf X5 = (if pm1 then [20] else [])"
        using X4Q Q(4) by (simp_all add: X5_def)
      have head5: "(if pm1 then (False, emit ModalClose p4) else (pm1, p4)) = (False, p5)"
        by (simp add: p5_def)
      have show5: "showPreviewModal h finalPrompt p5 = (pv, p6)"
        by (simp add: showPreviewModal_def pv p6_def)
      define p7 where "p7 = (if pm1 then emit ModalOpen p6 else p6)"
      define X7 where "X7 = X5 @ (if pm1 then [(isGenerating p, ModalOpen)] else [])"
      have head7: "(if showProgressModal (settings p6) then (True, emit ModalOpen p6)
                                    else (False, p6)) = (pm1, p7)"
        by (simp add: p7_def p6 pm1_def)
      have F3: "F = (if \<not> confirmed_p pv then Returned False (p6\<lparr>isGenerating := False\<rparr>)
                     else if regenerate pv then Continue False p6
                     else imageSteps h noteFile (prompt_p pv) style resolution cuts pm1 p7)"
        unfolding F2 using True
        by (simp add: head5 show5 head7 Let_def)
      have p7: "settings p7 = settings p" "isGenerating p7 = isGenerating p"
             "lastNoteFile p7 = lastNoteFile p" "lastPrompt p7 = prompt pr"
             "trace p7 = trace p @ X7"
        by (simp_all add: p7_def p6 X7_def emit_def)
      have X7Q: "list_all Q X7" "successes X7 = []" "promptsReturned X7 = [prompt pr]"
              "progressOf X7 = (if pm1 then [20] else [])"
        using X5Q Q(3) by (simp_all add: X7_def)
      consider (cancel) "\<not> confirmed_p pv"
        | (again) "confirmed_p pv" "regenerate pv"
        | (go) "confirmed_p pv" "\<not> regenerate pv"
        by blast
      then show ?thesis
      proof cases
        case cancel
        then have "F = Returned False (p6\<lparr>isGenerating := False\<rparr>)" by (simp add: F3)
        moreover have "trace (p6\<lparr>isGenerating := False\<rparr>) = trace p @ X5"
          by (simp add: p6)
        ultimately show ?thesis
          using X5Q p6 by (simp add: sessionSummary_def newEvents_eq)
      next
        case again
        then have "F = Continue False p6" by (simp add: F3)
        then show ?thesis
          using X5Q p6 True by (simp add: sessionSummary_def newEvents_eq pm1_def)
      next
        case go
        then have "F = imageSteps h noteFile (prompt_p pv) style resolution cuts
                       (showProgressModal (settings p)) p7"
          by (simp add: F3 pm1_def)
        moreover have "sessionSummary Q p
           (imageSteps h noteFile (prompt_p pv) style resolution cuts
              (showProgressModal (settings p)) p7)"
          using A p7(1,2,3,5) X7Q(1,2)
        proof (rule imageSteps_session)
          show "promptsReturned X7 = [lastPrompt p7]" by (simp add: X7Q p7)
          show "progressOf X7 = (if showProgressModal (settings p) then [20] else [])"
            by (simp add: X7Q pm1_def)
        qed
        ultimately show ?thesis by simp
      qed
    qed
  qed
qed

lemma last_last_append: "last (last (a # xs) # ys) = last (a # xs @ ys)"
  by (cases ys) simp_all

lemma sessionSummary_trans:
  assumes 1: "sessionSummary Q p (Continue False p1)"
      and 2: "sessionSummary Q p1 F"
  shows "sessionSummary Q p F"
proof -
  have t1: "trace p1 = trace p @ newEvents p p1"
    using 1 by (simp add: sessionSummary_def)
  have t2: "trace (flowPlugin F) = trace p1 @ newEvents p1 (flowPlugin F)"
    using 2 by (simp add: sessionSummary_def)
  have "trace (flowPlugin F) = trace p @ (newEvents p p1 @ newEvents p1 (flowPlugin F))"
    using t1 t2 by simp
  then have N: "newEvents p (flowPlugin F) = newEvents p p1 @ newEvents p1 (flowPlugin F)"
    by (rule newEvents_eq)
  have s: "settings p1 = settings p" "lastNoteFile p1 = lastNoteFile p"
          "isGenerating p1 = isGenerating p" "showPreviewBeforeGeneration (settings p)"
          "lastPrompt p1 = last (lastPrompt p # promptsReturned (newEvents p p1))"
    using 1 by (simp_all add: sessionSummary_def)
  show ?thesis
    using 1 2 s N unfolding sessionSummary_def
    by (cases F) (simp_all add: last_last_append replicate_add)
qed

lemma posterLoop_summary:
  fixes p :: "'w plugin"
  assumes "posterLoop fuel h noteFile noteContent providerKey style resolution cuts False p = Some F"
      and "allowsSession Q (isGenerating p) (settings p) noteContent providerKey style resolution cuts"
  shows "sessionSummary Q p F \<and> (\<forall>pm p'. F \<noteq> Continue pm p')"
  using assms
proof (induction fuel arbitrary: p)
  case 0
  then show ?case by simp
next
  case (Suc fuel)
  define R where "R = posterRound h noteFile noteContent providerKey style resolution cuts False p"
  have R: "sessionSummary Q p R"
    unfolding R_def using Suc.prems(2) by (rule posterRound_summary)
  show ?case
  proof (cases R)
    case (Continue pm p1)
    then have pm: "pm = False" and s: "settings p1 = settings p" "isGenerating p1 = isGenerating p"
      using R by (simp_all add: sessionSummary_def)
    have "posterLoop fuel h noteFile noteContent providerKey style resolution cuts False p1 = Some F"
      using Suc.prems(1) Continue pm by (simp add: R_def [symmetric])
    then have "sessionSummary Q p1 F \<and> (\<forall>pm p'. F \<noteq> Continue pm p')"
      using Suc.prems(2) by (intro Suc.IH) (simp_all add: s)
    moreover have "sessionSummary Q p (Continue False p1)"
      using R Continue pm by simp
    ultimately show ?thesis
      by (blast intro: sessionSummary_trans)
  next
    case (Completed pm p1)
    then have "F = R" using Suc.prems(1) by (simp add: R_def [symmetric])
    then show ?thesis using R Completed by simp
  next
    case (Returned pm p1)
    then have "F = R" using Suc.prems(1) by (simp add: R_def [symmetric])
    then show ?thesis using R Returned by simp
  next
    case (Threw e pm p1)
    then have "F = R" using Suc.prems(1) by (simp add: R_def [symmetric])
    then show ?thesis using R Threw by simp
  qed
qed

lemma showQuickOptionsModal_outcome:
  assumes "optionsUser h (world p) = ((inputs, button), w)"
  shows "showQuickOptionsModal h p = (optionsOutcome (settings p) inputs button, p\<lparr>world := w\<rparr>)"
  using assms by (simp add: showQuickOptionsModal_def optionsOutcome_def)

text \<open>How a run of \<^verbatim>\<open>generatePoster\<close> that returns has gone: stopped before the session by a
  guard or by the user, or through a session.\<close>

lemma generatePoster_cases:
  fixes p :: "'w plugin"
  assumes "generatePoster fuel h p = Some p'"
  obtains
    (guard) w e where "p' = emit e (p\<lparr>world := w\<rparr>)" "guardEvent e"
      "isGenerating p \<or> e \<noteq> Notice AlreadyInProgress"
  | (cancelled) w where "p' = p\<lparr>world := w\<rparr>" "\<not> isGenerating p"
  | (session) noteFile noteContent w inputs F where
      "\<not> isGenerating p"
      "getProviderApiKey p \<noteq> []" "googleApiKey (settings p) \<noteq> []"
      "posterLoop fuel h noteFile noteContent (getProviderApiKey p)
         (imageStyle_r (optionsOutcome (settings p) inputs True))
         (imageSize_r (optionsOutcome (settings p) inputs True))
         (getCartoonCutsNumber (cartoonCuts_r (optionsOutcome (settings p) inputs True))
            (customCartoonCuts_r (optionsOutcome (settings p) inputs True)))
         False (p\<lparr>world := w, isGenerating := True, lastNoteFile := Some noteFile\<rparr>) = Some F"
      "p' = catchFinally GenerationFailedNotice F"
proof (cases "isGenerating p")
  case True
  then have "p' = emit (Notice AlreadyInProgress) (p\<lparr>world := world p\<rparr>)"
    using assms by (simp add: generatePoster_def)
  then show ?thesis by (rule guard) (simp_all add: True)
next
  case idle: False
  show ?thesis
  proof (cases "activeFile h (world p)")
    case None
    then have "p' = emit (Notice OpenNoteFirst) (p\<lparr>world := world p\<rparr>)"
      using assms idle by (simp add: generatePoster_def)
    then show ?thesis by (rule guard) simp_all
  next
    case (Some noteFile)
    obtain r w1 where rd: "vault_read h noteFile (world p) = (r, w1)" by force
    define p1 where "p1 = p\<lparr>world := w1\<rparr>"
    have aw: "await (vault_read h noteFile) p = (r, p1)"
      by (simp add: await_def rd p1_def)
    have key: "getProviderApiKey p1 = getProviderApiKey p"
      by (simp add: getProviderApiKey_def p1_def split: AIProvider.splits)
    show ?thesis
    proof (cases r)
      case (Inl e)
      then have "p' = emit (UnhandledRejection e) (p\<lparr>world := w1\<rparr>)"
        using assms idle Some aw by (simp add: generatePoster_def p1_def)
      then show ?thesis by (rule guard) simp_all
    next
      case (Inr noteContent)
      note gp = assms idle Some aw Inr
      consider (empty) "trim noteContent = []"
        | (nokey) "trim noteContent \<noteq> []" "getProviderApiKey p = []"
        | (nogoogle) "trim noteContent \<noteq> []" "getProviderApiKey p \<noteq> []"
                     "googleApiKey (settings p) = []"
        | (ok) "trim noteContent \<noteq> []" "getProviderApiKey p \<noteq> []"
                     "googleApiKey (settings p) \<noteq> []"
        by blast
      then show ?thesis
      proof cases
        case empty
        then have "p' = emit (Notice NoteIsEmpty) (p\<lparr>world := w1\<rparr>)"
          using gp by (simp add: generatePoster_def p1_def)
        then show ?thesis by (rule guard) simp_all
      next
        case nokey
        then have "p' = emit (Notice (ProviderKeyNotConfigured (selectedProvider (settings p))))
                          (p\<lparr>world := w1\<rparr>)"
          using gp by (simp add: generatePoster_def key Let_def) (simp add: p1_def)
        then show ?thesis by (rule guard) simp_all
      next
        case nogoogle
        then have "p' = emit (Notice GoogleKeyRequired) (p\<lparr>world := w1\<rparr>)"
          using gp by (simp add: generatePoster_def key Let_def) (simp add: p1_def)
        then show ?thesis by (rule guard) simp_all
      next
        case ok
        obtain inputs button w2 where ou: "optionsUser h (world p1) = ((inputs, button), w2)"
          by (metis surj_pair)
        have sq: "showQuickOptionsModal h p1 =
                    (optionsOutcome (settings p) inputs button, p\<lparr>world := w2\<rparr>)"
          using showQuickOptionsModal_outcome [OF ou] by (simp add: p1_def)
        have conf: "confirmed (optionsOutcome (settings p) inputs b) = b" for b
          by (simp add: optionsOutcome_def onSubmit_def)
        have st1: "settings p1 = settings p" by (simp add: p1_def)
        show ?thesis
        proof (cases button)
          case False
          then have "p' = p\<lparr>world := w2\<rparr>"
            using gp ok by (simp add: generatePoster_def key Let_def st1 sq conf)
          then show ?thesis using idle by (rule cancelled)
        next
          case True
          then obtain F where
            "posterLoop fuel h noteFile noteContent (getProviderApiKey p)
               (imageStyle_r (optionsOutcome (settings p) inputs True))
               (imageSize_r (optionsOutcome (settings p) inputs True))
               (getCartoonCutsNumber (cartoonCuts_r (optionsOutcome (settings p) inputs True))
                  (customCartoonCuts_r (optionsOutcome (settings p) inputs True)))
               False (p\<lparr>world := w2, isGenerating := True, lastNoteFile := Some noteFile\<rparr>) = Some F"
            "p' = catchFinally GenerationFailedNotice F"
            using gp ok by (auto simp: generatePoster_def key Let_def st1 sq conf)
          with idle ok(2,3) show ?thesis by (rule session)
        qed
      qed
    qed
  qed
qed

lemma catchFinally_fields [simp]:
  "settings (catchFinally failed F) = settings (flowPlugin F)
   \<and> lastPrompt (catchFinally failed F) = lastPrompt (flowPlugin F)
   \<and> lastNoteFile (catchFinally failed F) = lastNoteFile (flowPlugin F)
   \<and> world (catchFinally failed F) = world (flowPlugin F)
   \<and> isGenerating (catchFinally failed F) = False
   \<and> trace (catchFinally failed F) = trace (flowPlugin F) @ catchEvents failed F"
  by (cases F) (simp_all add: catchError_def emit_def Let_def)

lemma regenerateSteps_summary:
  fixes p :: "'w plugin"
  assumes Q: "\<And>s n. showProgressModal (settings p) \<Longrightarrow> Q (isGenerating p, UpdateProgress s n)"
             "\<And>d. Q (isGenerating p, Sleep d)"
             "Q (isGenerating p, ModalOpen)"
             "\<And>r. Q (isGenerating p, ImageCall (lastPrompt p) (googleApiKey (settings p))
                        (imageModel (settings p)) (imageStyle (settings p))
                        (preferredLanguage (settings p)) (imageSize (settings p))
                        (getCartoonCutsNumber (cartoonCuts (settings p))
                           (customCartoonCuts (settings p))) r)"
             "\<And>x. Q (isGenerating p, ShowSuccess x)"
             "Q (isGenerating p, Notice PosterRegenerated)"
      and F_def: "F = regenerateSteps h noteFile p"
  shows "settings (flowPlugin F) = settings p
       \<and> lastPrompt (flowPlugin F) = lastPrompt p
       \<and> lastNoteFile (flowPlugin F) = lastNoteFile p
       \<and> isGenerating (flowPlugin F) = isGenerating p
       \<and> trace (flowPlugin F) = trace p @ newEvents p (flowPlugin F)
       \<and> list_all Q (newEvents p (flowPlugin F))
       \<and> promptsReturned (newEvents p (flowPlugin F)) = []
       \<and> (case F of
            Completed pm p' \<Rightarrow>
              pm = showProgressModal (settings p)
              \<and> progressOf (newEvents p p') =
                  (if showProgressModal (settings p) then [40, 80, 95] else [])
              \<and> successes (newEvents p p') \<noteq> []
          | Threw e pm p' \<Rightarrow>
              pm = showProgressModal (settings p) \<and> isGenerating p' = isGenerating p
              \<and> successes (newEvents p p') = []
          | _ \<Rightarrow> False)"
proof -
  define pm where "pm = showProgressModal (settings p)"
  define p1 where "p1 = (if pm then emit ModalOpen p else p)"
  define p2 where "p2 = updateProgress pm generating_image 40 p1"
  define operation where
    "operation = imageOperation h (lastPrompt p2) (googleApiKey (settings p2))
                   (imageModel (settings p2)) (imageStyle (settings p2))
                   (preferredLanguage (settings p2)) (imageSize (settings p2))
                   (getCartoonCutsNumber (cartoonCuts (settings p2))
                      (customCartoonCuts (settings p2)))"
  obtain r w fs where
    R: "executeWithRetry operation p2 =
       (r, p2\<lparr>world := w, trace := trace p2 @ fs @ finalCall (isGenerating p2) operation r\<rparr>)"
    and fs: "list_all (failedOrSleep (isGenerating p2) operation) fs"
    by (rule executeWithRetry_shape)
  have p2: "settings p2 = settings p" "isGenerating p2 = isGenerating p"
           "lastPrompt p2 = lastPrompt p"
    by (simp_all add: p2_def p1_def updateProgress_def emit_def)
  have fs0: "progressOf fs = []" "promptsReturned fs = []" "successes fs = []"
    using fs unfolding operation_def by (rule failedOrSleep_image)+
  have fsQ: "list_all Q fs"
    using fs
  proof (rule failedOrSleep_all)
    show "Q (isGenerating p2, Sleep d)" for d using Q(2) by (simp add: p2)
    show "Q (isGenerating p2, describe operation (Inl e))" for e
      using Q(4) by (simp add: p2 operation_def imageOperation_def)
  qed
  have QR: "Q (isGenerating p, describe operation r')" for r'
    using Q(4) by (simp add: p2 operation_def imageOperation_def)
  have head: "(if showProgressModal (settings p) then (True, emit ModalOpen p) else (False, p))
                = (pm, p1)"
    by (simp add: pm_def p1_def)
  have F: "F = (case (r, p2\<lparr>world := w, trace := trace p2 @ fs @ finalCall (isGenerating p2) operation r\<rparr>) of
           (Inl e, p3) \<Rightarrow> Threw e pm p3
         | (Inr imageResult, p3) \<Rightarrow>
             (let p4 = updateProgress pm saving 80 p3
              in case await (saveImage h (imageData imageResult) (mimeType imageResult) noteFile
                               (attachmentFolder (settings p4))) p4 of
                   (Inl e, p5) \<Rightarrow> Threw e pm p5
                 | (Inr imagePath, p5) \<Rightarrow>
                     (let p6 = updateProgress pm embedding 95 p5
                      in case await (embedImageInNote h noteFile imagePath) p6 of
                           (Inl e, p7) \<Rightarrow> Threw e pm p7
                         | (Inr _, p7) \<Rightarrow>
                             Completed pm
                               (if pm then emit (ShowSuccess imagePath) p7
                                else emit (Notice PosterRegenerated) p7))))"
    unfolding F_def regenerateSteps_def Let_def head prod.case p2_def [symmetric]
      operation_def [symmetric] R ..
  show ?thesis
    unfolding F
    using fs0 fsQ Q(1,3,5,6) QR
    by (auto simp: p2_def p1_def pm_def updateProgress_def emit_def await_def finalCall_def
                   Let_def operation_def imageOperation_def newEvents_def
             split: sum.splits prod.splits)
qed

lemma regenerateLastPoster_cases:
  fixes p :: "'w plugin"
  obtains
    (rejected) n where "regenerateLastPoster h p = emit (Notice n) p"
      "n = NoPreviousGeneration \<and> lastPrompt p = []
       \<or> n = OriginalNoteNotFound \<and> lastNoteFile p = None
       \<or> n = NoteMovedOrDeleted
           \<and> (\<exists>f. lastNoteFile p = Some f
                 \<and> (\<forall>file. getAbstractFileByPath h (path f) (world p) \<noteq> Some (IsFile file)))
       \<or> n = AlreadyInProgress \<and> isGenerating p"
  | (session) noteFile tfile where
      "lastPrompt p \<noteq> []" "lastNoteFile p = Some noteFile"
      "getAbstractFileByPath h (path noteFile) (world p) = Some (IsFile tfile)"
      "\<not> isGenerating p"
      "regenerateLastPoster h p =
         catchFinally RegenerationFailedNotice
           (regenerateSteps h noteFile (p\<lparr>isGenerating := True\<rparr>))"
proof (cases "lastPrompt p = []")
  case True
  then show ?thesis by (intro rejected [of NoPreviousGeneration]) (simp_all add: regenerateLastPoster_def)
next
  case lp: False
  show ?thesis
  proof (cases "lastNoteFile p")
    case None
    then show ?thesis
      using lp by (intro rejected [of OriginalNoteNotFound]) (simp_all add: regenerateLastPoster_def)
  next
    case (Some noteFile)
    show ?thesis
    proof (cases "getAbstractFileByPath h (path noteFile) (world p)")
      case None
      then show ?thesis
        using lp Some
        by (intro rejected [of NoteMovedOrDeleted]) (simp_all add: regenerateLastPoster_def)
    next
      case found: (Some a)
      show ?thesis
      proof (cases a)
        case (IsFolder d)
        then show ?thesis
          using lp Some found
          by (intro rejected [of NoteMovedOrDeleted]) (simp_all add: regenerateLastPoster_def)
      next
        case (IsFile tfile)
        show ?thesis
        proof (cases "isGenerating p")
          case True
          then show ?thesis
            using lp Some found IsFile
            by (intro rejected [of AlreadyInProgress]) (simp_all add: regenerateLastPoster_def)
        next
          case False
          show ?thesis
            using lp Some found IsFile False
            by (intro session [of noteFile tfile]) (simp_all add: regenerateLastPoster_def)
        qed
      qed
    qed
  qed
qed

lemma catchEvents_projections [simp]:
  "progressOf (catchEvents failed F) = []"
  "promptsReturned (catchEvents failed F) = []"
  "providerCalls (catchEvents failed F) = []"
  "imagePrompts (catchEvents failed F) = []"
  "cartoonPanelCounts (catchEvents failed F) = []"
  by (cases F; simp)+

lemma catchEvents_successes [simp]:
  "successes (catchEvents GenerationFailedNotice F) = []"
  "successes (catchEvents RegenerationFailedNotice F) = []"
  by (cases F; simp)+

lemma guardEvent_projections:
  assumes "guardEvent e"
  shows "progressShown (b, e) = []" "promptReturned (b, e) = []" "successShown (b, e) = []"
        "providerCall (b, e) = []" "imagePrompt (b, e) = []" "cartoonPanelCount (b, e) = []"
        "\<not> sessionEvent e"
  using assms by (induction e rule: guardEvent.induct; simp)+

lemma generatePoster_summary:
  fixes p :: "'w plugin"
  assumes run: "generatePoster fuel h p = Some p'"
      and Qg: "\<And>e. guardEvent e \<Longrightarrow> isGenerating p \<or> e \<noteq> Notice AlreadyInProgress \<Longrightarrow>
                 Q (isGenerating p, e)"
      and Qs: "\<And>noteContent inputs.
                 getProviderApiKey p \<noteq> [] \<Longrightarrow> googleApiKey (settings p) \<noteq> [] \<Longrightarrow>
                 allowsSession Q True (settings p) noteContent (getProviderApiKey p)
                   (imageStyle_r (optionsOutcome (settings p) inputs True))
                   (imageSize_r (optionsOutcome (settings p) inputs True))
                   (getCartoonCutsNumber (cartoonCuts_r (optionsOutcome (settings p) inputs True))
                      (customCartoonCuts_r (optionsOutcome (settings p) inputs True)))"
      and Qc: "\<And>g. Q (True, ShowError g)" "\<And>m. Q (True, Notice (GenerationFailedNotice m))"
  shows "settings p' = settings p
       \<and> trace p' = trace p @ newEvents p p'
       \<and> list_all Q (newEvents p p')
       \<and> lastPrompt p' = last (lastPrompt p # promptsReturned (newEvents p p'))
       \<and> (\<not> isGenerating p \<longrightarrow> \<not> isGenerating p')
       \<and> (successes (newEvents p p') \<noteq> [] \<longrightarrow>
            promptsReturned (newEvents p p') \<noteq> []
            \<and> progressOf (newEvents p p') =
                (if showProgressModal (settings p)
                 then replicate (length (promptsReturned (newEvents p p'))) 20 @ [50, 80, 95, 100]
                 else [])
            \<and> (showPreviewBeforeGeneration (settings p)
                \<or> length (promptsReturned (newEvents p p')) \<le> 1))"
  using run
proof (cases rule: generatePoster_cases)
  case (guard w e)
  have "trace p' = trace p @ [(isGenerating p, e)]"
    by (simp add: guard emit_def)
  then have N: "newEvents p p' = [(isGenerating p, e)]" by (rule newEvents_eq)
  show ?thesis
    unfolding N using guard Qg [OF guard(2,3)] guardEvent_projections [OF guard(2)]
    by (simp add: emit_def)
next
  case (cancelled w)
  have "trace p' = trace p @ []" by (simp add: cancelled)
  then have N: "newEvents p p' = []" by (rule newEvents_eq)
  show ?thesis
    unfolding N using cancelled by simp
next
  case (session noteFile noteContent w inputs F)
  define p3 where "p3 = p\<lparr>world := w, isGenerating := True, lastNoteFile := Some noteFile\<rparr>"
  have p3: "settings p3 = settings p" "isGenerating p3 = True" "trace p3 = trace p"
           "lastPrompt p3 = lastPrompt p"
    by (simp_all add: p3_def)
  have "allowsSession Q (isGenerating p3) (settings p3) noteContent (getProviderApiKey p)
          (imageStyle_r (optionsOutcome (settings p) inputs True))
          (imageSize_r (optionsOutcome (settings p) inputs True))
          (getCartoonCutsNumber (cartoonCuts_r (optionsOutcome (settings p) inputs True))
             (customCartoonCuts_r (optionsOutcome (settings p) inputs True)))"
    using Qs [OF session(2,3)] by (simp add: p3)
  with session(4) have S: "sessionSummary Q p3 F" and nc: "\<forall>pm q. F \<noteq> Continue pm q"
    unfolding p3_def [symmetric] by (auto dest: posterLoop_summary)
  define N3 where "N3 = newEvents p3 (flowPlugin F)"
  have CQ: "list_all Q (catchEvents GenerationFailedNotice F)"
    using S Qc by (cases F) (simp_all add: sessionSummary_def p3)
  have S1: "settings (flowPlugin F) = settings p" "trace (flowPlugin F) = trace p @ N3"
           "list_all Q N3" "lastPrompt (flowPlugin F) = last (lastPrompt p # promptsReturned N3)"
    using S by (simp_all add: sessionSummary_def N3_def p3)
  have S2: "promptsReturned N3 \<noteq> []
            \<and> progressOf N3 =
                (if showProgressModal (settings p)
                 then replicate (length (promptsReturned N3)) 20 @ [50, 80, 95, 100]
                 else [])
            \<and> (showPreviewBeforeGeneration (settings p) \<or> length (promptsReturned N3) \<le> 1)"
    if "successes N3 \<noteq> []"
    using S nc that by (cases F) (simp_all add: sessionSummary_def N3_def p3)
  have "trace p' = trace p @ (N3 @ catchEvents GenerationFailedNotice F)"
    using S1 by (simp add: session(5))
  then have N: "newEvents p p' = N3 @ catchEvents GenerationFailedNotice F"
    by (rule newEvents_eq)
  show ?thesis
    unfolding N using S1 S2 CQ by (simp add: session(5))
qed

lemma regenerateLastPoster_summary:
  fixes p :: "'w plugin"
  assumes Qr: "Q (isGenerating p, Notice NoPreviousGeneration)"
              "Q (isGenerating p, Notice OriginalNoteNotFound)"
              "Q (isGenerating p, Notice NoteMovedOrDeleted)"
              "isGenerating p \<Longrightarrow> Q (isGenerating p, Notice AlreadyInProgress)"
      and Qs: "\<And>s n. showProgressModal (settings p) \<Longrightarrow> Q (True, UpdateProgress s n)"
              "\<And>d. Q (True, Sleep d)" "Q (True, ModalOpen)"
              "\<And>r. Q (True, ImageCall (lastPrompt p) (googleApiKey (settings p))
                        (imageModel (settings p)) (imageStyle (settings p))
                        (preferredLanguage (settings p)) (imageSize (settings p))
                        (getCartoonCutsNumber (cartoonCuts (settings p))
                           (customCartoonCuts (settings p))) r)"
              "\<And>x. Q (True, ShowSuccess x)" "Q (True, Notice PosterRegenerated)"
      and Qc: "\<And>g. Q (True, ShowError g)" "\<And>m. Q (True, Notice (RegenerationFailedNotice m))"
      and p': "p' = regenerateLastPoster h p"
  shows "settings p' = settings p
       \<and> lastPrompt p' = lastPrompt p
       \<and> trace p' = trace p @ newEvents p p'
       \<and> list_all Q (newEvents p p')
       \<and> promptsReturned (newEvents p p') = []
       \<and> (\<not> isGenerating p \<longrightarrow> \<not> isGenerating p')
       \<and> (successes (newEvents p p') \<noteq> [] \<longrightarrow>
            progressOf (newEvents p p') =
              (if showProgressModal (settings p) then [40, 80, 95] else []))"
proof (cases h p rule: regenerateLastPoster_cases)
  case (rejected n)
  have "trace p' = trace p @ [(isGenerating p, Notice n)]"
    by (simp add: p' rejected emit_def)
  then have N: "newEvents p p' = [(isGenerating p, Notice n)]" by (rule newEvents_eq)
  show ?thesis
    unfolding N using rejected Qr by (auto simp: p' emit_def)
next
  case (session noteFile tfile)
  define p3 where "p3 = p\<lparr>isGenerating := True\<rparr>"
  define F where "F = regenerateSteps h noteFile p3"
  have p3: "settings p3 = settings p" "isGenerating p3 = True" "trace p3 = trace p"
           "lastPrompt p3 = lastPrompt p"
    by (simp_all add: p3_def)
  have S: "settings (flowPlugin F) = settings p3
       \<and> lastPrompt (flowPlugin F) = lastPrompt p3
       \<and> lastNoteFile (flowPlugin F) = lastNoteFile p3
       \<and> isGenerating (flowPlugin F) = isGenerating p3
       \<and> trace (flowPlugin F) = trace p3 @ newEvents p3 (flowPlugin F)
       \<and> list_all Q (newEvents p3 (flowPlugin F))
       \<and> promptsReturned (newEvents p3 (flowPlugin F)) = []
       \<and> (case F of
            Completed pm q \<Rightarrow>
              pm = showProgressModal (settings p3)
              \<and> progressOf (newEvents p3 q) =
                  (if showProgressModal (settings p3) then [40, 80, 95] else [])
              \<and> successes (newEvents p3 q) \<noteq> []
          | Threw e pm q \<Rightarrow>
              pm = showProgressModal (settings p3) \<and> isGenerating q = isGenerating p3
              \<and> successes (newEvents p3 q) = []
          | _ \<Rightarrow> False)"
    using Qs by (intro regenerateSteps_summary [OF _ _ _ _ _ _ F_def]) (simp_all add: p3)
  define N3 where "N3 = newEvents p3 (flowPlugin F)"
  have p'F: "p' = catchFinally RegenerationFailedNotice F"
    by (simp add: p' session(5) F_def p3_def)
  have CQ: "list_all Q (catchEvents RegenerationFailedNotice F)"
    using S Qc by (cases F) (simp_all add: p3)
  have S1: "settings (flowPlugin F) = settings p" "trace (flowPlugin F) = trace p @ N3"
           "list_all Q N3" "lastPrompt (flowPlugin F) = lastPrompt p" "promptsReturned N3 = []"
    using S by (simp_all add: N3_def p3)
  have S2: "progressOf N3 = (if showProgressModal (settings p) then [40, 80, 95] else [])"
    if "successes N3 \<noteq> []"
    using S that by (cases F) (simp_all add: N3_def p3)
  have "trace p' = trace p @ (N3 @ catchEvents RegenerationFailedNotice F)"
    using S1 by (simp add: p'F)
  then have N: "newEvents p p' = N3 @ catchEvents RegenerationFailedNotice F"
    by (rule newEvents_eq)
  show ?thesis
    unfolding N using S1 S2 CQ by (simp add: p'F)
qed

subsection \<open>Concrete runs\<close>

lemma retry_first_success:
  assumes "0 \<le> autoRetryCount (settings p)" "run operation (world p) = (Inr v, w)"
  shows "executeWithRetry operation p = (Inr v, emit (describe operation (Inr v)) (p\<lparr>world := w\<rparr>))"
  unfolding executeWithRetry_def using assms
  by (subst executeWithRetry_loop.simps) (simp add: invoke_def)

lemma retry_first_refused:
  assumes "0 \<le> autoRetryCount (settings p)" "run operation (world p) = (Inl e, w)"
          "\<not> isRetryable e"
  shows "executeWithRetry operation p = (Inl (asError e), emit (describe operation (Inl e)) (p\<lparr>world := w\<rparr>))"
  unfolding executeWithRetry_def using assms
  by (subst executeWithRetry_loop.simps) (simp add: invoke_def)

lemma parseInt_4: "parseInt ''4'' = Num 4"
  by code_simp

lemma parseInt_15: "parseInt ''15'' = Num 15"
  by code_simp

lemma trim_note: "trim ''Explain TCP handshake'' \<noteq> []"
  by (simp add: trim_def isWhiteSpace_def)

lemmas demo_defs =
  demoPlugin_def demoHost_def demoSettings_def cachedPlugin_def busyPlugin_def stalePlugin_def
  cartoonPlugin_def noKeyPlugin_def prefixPlugin_def quietPlugin_def rejectingHost_def
  indecisiveHost_def scenarioBHost_def invalidKey_def quietCachedPlugin_def

lemmas step_defs =
  await_def emit_def updateProgress_def Let_def promptOperation_def imageOperation_def
  getProviderApiKey_def showQuickOptionsModal_def showPreviewModal_def newQuickOptionsModal_def
  onSubmit_def getCartoonCutsNumber_def parseInt_4 trim_note catchError_def

lemma cached_regenerate:
  "regenerateLastPoster demoHost cachedPlugin =
     cachedPlugin\<lparr>world := 1,
       trace := [(True, ModalOpen), (True, UpdateProgress generating_image 40),
                 (True, ImageCall ''raw prompt'' ''g-key'' ''image-model'' diagram ''en'' size_2K (Num 4)
                          (Inr \<lparr>imageData = ''bytes'', mimeType = ''image/png''\<rparr>)),
                 (True, UpdateProgress saving 80), (True, UpdateProgress embedding 95),
                 (True, ShowSuccess ''attachments/poster.png'')]\<rparr>"
  apply (simp add: regenerateLastPoster_def regenerateSteps_def demo_defs step_defs)
  apply (subst retry_first_success)
    apply (simp_all add: step_defs)
  done

lemma cartoon_regenerate:
  "regenerateLastPoster demoHost cartoonPlugin =
     cartoonPlugin\<lparr>world := 1,
       trace := [(True, ModalOpen), (True, UpdateProgress generating_image 40),
                 (True, ImageCall ''raw prompt'' ''g-key'' ''image-model'' cartoon ''en'' size_2K (Num 15)
                          (Inr \<lparr>imageData = ''bytes'', mimeType = ''image/png''\<rparr>)),
                 (True, UpdateProgress saving 80), (True, UpdateProgress embedding 95),
                 (True, ShowSuccess ''attachments/poster.png'')]\<rparr>"
  apply (simp add: regenerateLastPoster_def regenerateSteps_def demo_defs step_defs)
  apply (subst retry_first_success)
    apply (simp_all add: step_defs)
  done

lemma noKey_regenerate:
  "regenerateLastPoster demoHost noKeyPlugin =
     noKeyPlugin\<lparr>world := 1,
       trace := [(True, ModalOpen), (True, UpdateProgress generating_image 40),
                 (True, ImageCall ''raw prompt'' [] ''image-model'' diagram ''en'' size_2K (Num 4)
                          (Inl (GenerationErrorClass invalidKey))),
                 (True, ShowError invalidKey)]\<rparr>"
  apply (simp add: regenerateLastPoster_def regenerateSteps_def demo_defs step_defs)
  apply (subst retry_first_refused)
     apply (simp_all add: step_defs)
   apply (simp_all add: step_defs)
  done



lemma cartoon_generate:
  "generatePoster (Suc 0) demoHost cartoonPlugin =
     Some (cartoonPlugin\<lparr>world := 2,
       trace := [(True, ModalOpen), (True, UpdateProgress generating_prompt 20),
                 (True, PromptCall ''Explain TCP handshake'' openai ''prompt-model'' ''sk-openai''
                          (Inr \<lparr>prompt = ''raw prompt''\<rparr>)),
                 (True, UpdateProgress generating_image 50),
                 (True, ImageCall ''raw prompt'' ''g-key'' ''image-model'' cartoon ''en'' size_2K (Num 15)
                          (Inr \<lparr>imageData = ''bytes'', mimeType = ''image/png''\<rparr>)),
                 (True, UpdateProgress saving 80), (True, UpdateProgress embedding 95),
                 (True, UpdateProgress complete 100),
                 (True, ShowSuccess ''attachments/poster.png'')]\<rparr>)"
  apply (simp add: generatePoster_def posterRound_def demo_defs step_defs)
  apply (subst retry_first_success)
    apply (simp add: step_defs)
   apply (simp add: step_defs)
  apply (simp add: step_defs imageSteps_def)
  apply (subst retry_first_success)
    apply (simp_all add: step_defs numeral_2_eq_2)
  done

lemma clamp_15: "clampCustomCuts ''15'' = Num 12"
  by (simp add: clampCustomCuts_def parseInt_15)

lemma scenarioB_generate:
  "generatePoster (Suc 0) scenarioBHost demoPlugin =
     Some (demoPlugin\<lparr>world := 2, lastPrompt := ''raw prompt'',
       lastNoteFile := Some (TFile ''note.md''),
       trace := [(True, ModalOpen), (True, UpdateProgress generating_prompt 20),
                 (True, PromptCall ''Explain TCP handshake'' openai ''prompt-model'' ''sk-openai''
                          (Inr \<lparr>prompt = ''raw prompt''\<rparr>)),
                 (True, UpdateProgress generating_image 50),
                 (True, ImageCall ''raw prompt'' ''g-key'' ''image-model'' cartoon ''en'' size_2K (Num 12)
                          (Inr \<lparr>imageData = ''bytes'', mimeType = ''image/png''\<rparr>)),
                 (True, UpdateProgress saving 80), (True, UpdateProgress embedding 95),
                 (True, UpdateProgress complete 100),
                 (True, ShowSuccess ''attachments/poster.png'')]\<rparr>)"
  apply (simp add: generatePoster_def posterRound_def demo_defs step_defs clamp_15)
  apply (subst retry_first_success)
    apply (simp add: step_defs)
   apply (simp add: step_defs)
  apply (simp add: step_defs imageSteps_def)
  apply (subst retry_first_success)
    apply (simp_all add: step_defs numeral_2_eq_2)
  done

lemma rejecting_generate:
  "generatePoster (Suc 0) rejectingHost demoPlugin =
     Some (demoPlugin\<lparr>world := Suc 0, lastNoteFile := Some (TFile ''note.md''),
       trace := [(True, ModalOpen), (True, UpdateProgress generating_prompt 20),
                 (True, PromptCall ''Explain TCP handshake'' openai ''prompt-model'' ''sk-openai''
                          (Inl (GenerationErrorClass invalidKey))),
                 (True, ShowError invalidKey)]\<rparr>)"
  apply (simp add: generatePoster_def posterRound_def demo_defs step_defs)
  apply (subst retry_first_refused)
     apply (simp_all add: step_defs invalidKey_def)
   apply (simp_all add: step_defs invalidKey_def)
  done

lemma rejecting_generate_again:
  "generatePoster (Suc 0) rejectingHost
     (demoPlugin\<lparr>world := Suc 0, lastNoteFile := Some (TFile ''note.md''), trace := tr\<rparr>) =
     Some (demoPlugin\<lparr>world := 3, lastPrompt := ''raw prompt'',
       lastNoteFile := Some (TFile ''note.md''),
       trace := tr @ [(True, ModalOpen), (True, UpdateProgress generating_prompt 20),
                 (True, PromptCall ''Explain TCP handshake'' openai ''prompt-model'' ''sk-openai''
                          (Inr \<lparr>prompt = ''raw prompt''\<rparr>)),
                 (True, UpdateProgress generating_image 50),
                 (True, ImageCall ''raw prompt'' ''g-key'' ''image-model'' diagram ''en'' size_2K (Num 4)
                          (Inr \<lparr>imageData = ''bytes'', mimeType = ''image/png''\<rparr>)),
                 (True, UpdateProgress saving 80), (True, UpdateProgress embedding 95),
                 (True, UpdateProgress complete 100),
                 (True, ShowSuccess ''attachments/poster.png'')]\<rparr>)"
  apply (simp add: generatePoster_def posterRound_def demo_defs step_defs)
  apply (subst retry_first_success)
    apply (simp add: step_defs)
   apply (simp add: step_defs)
  apply (simp add: step_defs imageSteps_def)
  apply (subst retry_first_success)
    apply (simp_all add: step_defs eval_nat_numeral)
  done

lemma prefix_generate:
  "generatePoster (Suc 0) demoHost prefixPlugin =
     Some (prefixPlugin\<lparr>world := 2, lastPrompt := ''raw prompt'',
       lastNoteFile := Some (TFile ''note.md''),
       trace := [(True, ModalOpen), (True, UpdateProgress generating_prompt 20),
                 (True, PromptCall ''Explain TCP handshake'' openai ''prompt-model'' ''sk-openai''
                          (Inr \<lparr>prompt = ''raw prompt''\<rparr>)),
                 (True, ModalClose), (True, ModalOpen),
                 (True, UpdateProgress generating_image 50),
                 (True, ImageCall ''edited prompt'' ''g-key'' ''image-model'' diagram ''en'' size_2K
                          (Num 4) (Inr \<lparr>imageData = ''bytes'', mimeType = ''image/png''\<rparr>)),
                 (True, UpdateProgress saving 80), (True, UpdateProgress embedding 95),
                 (True, UpdateProgress complete 100),
                 (True, ShowSuccess ''attachments/poster.png'')]\<rparr>)"
  apply (simp add: generatePoster_def posterRound_def demo_defs step_defs)
  apply (subst retry_first_success)
    apply (simp add: step_defs)
   apply (simp add: step_defs)
  apply (simp add: step_defs imageSteps_def)
  apply (subst retry_first_success)
    apply (simp_all add: step_defs numeral_2_eq_2)
  done

lemma prefix_regenerate:
  "regenerateLastPoster demoHost
     (prefixPlugin\<lparr>world := 2, lastPrompt := ''raw prompt'',
        lastNoteFile := Some (TFile ''note.md''), trace := tr\<rparr>) =
     prefixPlugin\<lparr>world := 3, lastPrompt := ''raw prompt'',
       lastNoteFile := Some (TFile ''note.md''),
       trace := tr @ [(True, ModalOpen), (True, UpdateProgress generating_image 40),
                 (True, ImageCall ''raw prompt'' ''g-key'' ''image-model'' diagram ''en'' size_2K (Num 4)
                          (Inr \<lparr>imageData = ''bytes'', mimeType = ''image/png''\<rparr>)),
                 (True, UpdateProgress saving 80), (True, UpdateProgress embedding 95),
                 (True, ShowSuccess ''attachments/poster.png'')]\<rparr>"
  apply (simp add: regenerateLastPoster_def regenerateSteps_def demo_defs step_defs)
  apply (subst retry_first_success)
    apply (simp_all add: step_defs eval_nat_numeral)
  done

lemma indecisive_generate:
  "generatePoster (Suc (Suc 0)) indecisiveHost prefixPlugin =
     Some (prefixPlugin\<lparr>world := 3, lastPrompt := ''raw prompt'',
       lastNoteFile := Some (TFile ''note.md''),
       trace := [(True, ModalOpen), (True, UpdateProgress generating_prompt 20),
                 (True, PromptCall ''Explain TCP handshake'' openai ''prompt-model'' ''sk-openai''
                          (Inr \<lparr>prompt = ''raw prompt''\<rparr>)),
                 (True, ModalClose),
                 (True, ModalOpen), (True, UpdateProgress generating_prompt 20),
                 (True, PromptCall ''Explain TCP handshake'' openai ''prompt-model'' ''sk-openai''
                          (Inr \<lparr>prompt = ''raw prompt''\<rparr>)),
                 (True, ModalClose), (True, ModalOpen),
                 (True, UpdateProgress generating_image 50),
                 (True, ImageCall (''Use flat colours'' @ [CHR 0x0A, CHR 0x0A] @ ''raw prompt'')
                          ''g-key'' ''image-model'' diagram ''en'' size_2K
                          (Num 4) (Inr \<lparr>imageData = ''bytes'', mimeType = ''image/png''\<rparr>)),
                 (True, UpdateProgress saving 80), (True, UpdateProgress embedding 95),
                 (True, UpdateProgress complete 100),
                 (True, ShowSuccess ''attachments/poster.png'')]\<rparr>)"
  apply (simp add: generatePoster_def posterRound_def demo_defs step_defs)
  apply (subst retry_first_success)
    apply (simp add: step_defs)
   apply (simp add: step_defs)
  apply (simp add: step_defs posterRound_def)
  apply (subst retry_first_success)
    apply (simp add: step_defs)
   apply (simp add: step_defs)
  apply (simp add: step_defs imageSteps_def)
  apply (subst retry_first_success)
    apply (simp_all add: step_defs eval_nat_numeral)
  done

subsection \<open>Single flight, guards and the flag\<close>

lemma list_all_flagged:
  assumes "list_all (\<lambda>x. (fst x \<or> \<not> sessionEvent (snd x)) \<and> snd x \<noteq> Notice AlreadyInProgress) N"
  shows "unflagged N = [] \<and> Notice AlreadyInProgress \<notin> snd ` set N"
  using assms by (induction N) auto

lemma posterLoop_returns:
  fixes p :: "'w plugin"
  assumes "\<not> showPreviewBeforeGeneration (settings p)"
  shows "\<exists>F. posterLoop (Suc fuel) h noteFile noteContent providerKey style resolution cuts False p
               = Some F"
proof -
  have "allowsSession (\<lambda>x. True) (isGenerating p) (settings p) noteContent providerKey style
          resolution cuts"
    by (simp add: allowsSession_def)
  then have "sessionSummary (\<lambda>x. True) p
               (posterRound h noteFile noteContent providerKey style resolution cuts False p)"
    by (rule posterRound_summary)
  then show ?thesis
    using assms
    by (cases "posterRound h noteFile noteContent providerKey style resolution cuts False p")
       (simp_all add: sessionSummary_def)
qed

lemma generatePoster_returns:
  fixes p :: "'w plugin"
  assumes "\<not> showPreviewBeforeGeneration (settings p)"
  shows "\<exists>p'. generatePoster (Suc fuel) h p = Some p'"
proof -
  have "\<exists>F. posterLoop (Suc fuel) h noteFile noteContent providerKey style resolution cuts False
               (p\<lparr>world := w, isGenerating := True, lastNoteFile := Some noteFile\<rparr>) = Some F"
    for noteFile noteContent providerKey style resolution cuts w
    using assms by (intro posterLoop_returns) simp
  then show ?thesis
    by (fastforce simp: generatePoster_def Let_def await_def showQuickOptionsModal_def
          simp del: posterLoop.simps split: option.splits prod.splits sum.splits)
qed

lemma generatePoster_requires_keys:
  fixes p :: "'w plugin"
  assumes "generatePoster fuel h p = Some p'"
      and "getProviderApiKey p = [] \<or> googleApiKey (settings p) = []"
  shows "providerCalls (newEvents p p') = [] \<and> isGenerating p' = isGenerating p"
  using assms(1)
proof (cases rule: generatePoster_cases)
  case (guard w e)
  have "trace p' = trace p @ [(isGenerating p, e)]"
    by (simp add: guard emit_def)
  then have "newEvents p p' = [(isGenerating p, e)]" by (rule newEvents_eq)
  then show ?thesis
    using guardEvent_projections [OF guard(2)] by (simp add: guard emit_def)
next
  case (cancelled w)
  have "trace p' = trace p @ []" by (simp add: cancelled)
  then have "newEvents p p' = []" by (rule newEvents_eq)
  then show ?thesis by (simp add: cancelled)
next
  case (session noteFile noteContent w inputs F)
  then show ?thesis using assms(2) by simp
qed

text \<open>
  C2. While \<open>isGenerating\<close> is set, \<^verbatim>\<open>generatePoster\<close> does nothing but show the notice that a
  generation is in progress, and \<^verbatim>\<open>regenerateLastPoster\<close> does nothing but show one notice
  (that one, or the notice of one of its three earlier guards): neither calls the prompt
  client or the image client, the world is as it was, and the flag stays set for the
  session that is running.
\<close>

theorem single_flight_rejection:
  fixes p :: "'w plugin"
  assumes "isGenerating p"
  shows "generatePoster fuel h p = Some (emit (Notice AlreadyInProgress) p)
       \<and> providerCalls (newEvents p (emit (Notice AlreadyInProgress) p)) = []
       \<and> (\<exists>n. regenerateLastPoster h p = emit (Notice n) p)
       \<and> providerCalls (newEvents p (regenerateLastPoster h p)) = []
       \<and> world (regenerateLastPoster h p) = world p
       \<and> isGenerating (regenerateLastPoster h p)"
proof -
  have N: "newEvents p (emit (Notice n) p) = [(isGenerating p, Notice n)]" for n
    by (rule newEvents_eq) (simp add: emit_def)
  have R: "\<exists>n. regenerateLastPoster h p = emit (Notice n) p"
    using assms
    by (auto simp: regenerateLastPoster_def split: option.splits TAbstractFile.splits)
  then obtain n where n: "regenerateLastPoster h p = emit (Notice n) p" ..
  show ?thesis
    using assms R by (simp add: generatePoster_def n N) (simp add: emit_def)
qed

theorem single_flight_rejection_witness:
  "isGenerating busyPlugin
   \<and> generatePoster (Suc 0) demoHost busyPlugin
       = Some (busyPlugin\<lparr>trace := [(True, Notice AlreadyInProgress)]\<rparr>)
   \<and> regenerateLastPoster demoHost busyPlugin
       = busyPlugin\<lparr>trace := [(True, Notice AlreadyInProgress)]\<rparr>
   \<and> providerCalls (newEvents busyPlugin (regenerateLastPoster demoHost busyPlugin)) = []"
  using single_flight_rejection [of busyPlugin "Suc 0" demoHost]
  by (simp add: regenerateLastPoster_def demo_defs emit_def)

text \<open>
  C4. When no prompt is cached, or no note is cached, or the cached note does not resolve
  to a file of the vault, \<^verbatim>\<open>regenerateLastPoster\<close> shows the notice of the first of these
  guards that applies and does nothing else: no call of the prompt client or of the
  image client, the world and the flag as they were.
\<close>

theorem regenerate_fails_fast:
  fixes p :: "'w plugin"
  assumes "lastPrompt p = [] \<or> lastNoteFile p = None
           \<or> (\<exists>f. lastNoteFile p = Some f
                 \<and> (\<forall>t. getAbstractFileByPath h (path f) (world p) \<noteq> Some (IsFile t)))"
  shows "regenerateLastPoster h p =
           emit (Notice (if lastPrompt p = [] then NoPreviousGeneration
                         else if lastNoteFile p = None then OriginalNoteNotFound
                         else NoteMovedOrDeleted)) p
       \<and> providerCalls (newEvents p (regenerateLastPoster h p)) = []
       \<and> world (regenerateLastPoster h p) = world p
       \<and> isGenerating (regenerateLastPoster h p) = isGenerating p"
proof -
  have N: "newEvents p (emit (Notice n) p) = [(isGenerating p, Notice n)]" for n
    by (rule newEvents_eq) (simp add: emit_def)
  have R: "regenerateLastPoster h p =
             emit (Notice (if lastPrompt p = [] then NoPreviousGeneration
                           else if lastNoteFile p = None then OriginalNoteNotFound
                           else NoteMovedOrDeleted)) p"
    using assms
    by (auto simp: regenerateLastPoster_def split: option.splits TAbstractFile.splits)
  show ?thesis
    unfolding R by (simp add: N) (simp add: emit_def)
qed

theorem regenerate_fails_fast_witness:
  "lastPrompt demoPlugin = []
   \<and> regenerateLastPoster demoHost demoPlugin
       = demoPlugin\<lparr>trace := [(False, Notice NoPreviousGeneration)]\<rparr>
   \<and> providerCalls (newEvents demoPlugin (regenerateLastPoster demoHost demoPlugin)) = []
   \<and> lastNoteFile (cachedPlugin\<lparr>lastNoteFile := None\<rparr>) = None
   \<and> regenerateLastPoster demoHost (cachedPlugin\<lparr>lastNoteFile := None\<rparr>)
       = cachedPlugin\<lparr>lastNoteFile := None, trace := [(False, Notice OriginalNoteNotFound)]\<rparr>
   \<and> lastNoteFile stalePlugin = Some (TFile ''gone.md'')
   \<and> getAbstractFileByPath demoHost ''gone.md'' (world stalePlugin) = None
   \<and> regenerateLastPoster demoHost stalePlugin
       = stalePlugin\<lparr>trace := [(False, Notice NoteMovedOrDeleted)]\<rparr>
   \<and> providerCalls (newEvents stalePlugin (regenerateLastPoster demoHost stalePlugin)) = []"
  using regenerate_fails_fast [of demoPlugin demoHost]
        regenerate_fails_fast [of "cachedPlugin\<lparr>lastNoteFile := None\<rparr>" demoHost]
        regenerate_fails_fast [of stalePlugin demoHost]
  by (simp add: demo_defs emit_def newEvents_def)

text \<open>
  C9. \<^verbatim>\<open>regenerateLastPoster\<close> does not look at the keys. With a prompt and a note cached, no
  generation in progress and an empty Google key, it calls the image client, with the
  empty key, where \<^verbatim>\<open>generatePoster\<close> shows a notice and calls nothing
  (\<open>generatePoster_requires_keys\<close>).
\<close>

theorem regenerate_without_google_key:
  "googleApiKey (settings noKeyPlugin) = []
   \<and> \<not> isGenerating noKeyPlugin
   \<and> providerCalls (newEvents noKeyPlugin (regenerateLastPoster demoHost noKeyPlugin)) =
       [ImageCall ''raw prompt'' [] ''image-model'' diagram ''en'' size_2K (Num 4)
          (Inl (GenerationErrorClass invalidKey))]
   \<and> world (regenerateLastPoster demoHost noKeyPlugin) = 1"
  unfolding noKey_regenerate by (simp add: newEvents_def noKeyPlugin_def cachedPlugin_def demoPlugin_def demoSettings_def)

text \<open>
  What holds of the flag when a method runs alone, with no other command between its
  awaits. From a plugin with no generation in progress, \<^verbatim>\<open>generatePoster\<close> and
  \<^verbatim>\<open>regenerateLastPoster\<close> leave \<open>isGenerating\<close> clear however they end: by a guard, a cancel
  in a modal, success, or an error thrown; every event from the assignment of the flag on
  happens while it is set; and the request is not refused as already in progress. With the
  preview switched off, \<^verbatim>\<open>generatePoster\<close> returns after one round of its loop.
\<close>

lemma flag_clear_when_run_alone:
  fixes p :: "'w plugin"
  assumes idle: "\<not> isGenerating p"
  shows "(\<forall>p'. generatePoster fuel h p = Some p' \<longrightarrow>
            \<not> isGenerating p' \<and> unflagged (newEvents p p') = []
            \<and> Notice AlreadyInProgress \<notin> snd ` set (newEvents p p'))
       \<and> \<not> isGenerating (regenerateLastPoster h p)
       \<and> unflagged (newEvents p (regenerateLastPoster h p)) = []
       \<and> Notice AlreadyInProgress \<notin> snd ` set (newEvents p (regenerateLastPoster h p))
       \<and> (\<not> showPreviewBeforeGeneration (settings p) \<longrightarrow>
            (\<exists>p'. generatePoster (Suc fuel) h p = Some p'))"
proof -
  define Q :: "bool \<times> event \<Rightarrow> bool" where
    "Q = (\<lambda>x. (fst x \<or> \<not> sessionEvent (snd x)) \<and> snd x \<noteq> Notice AlreadyInProgress)"
  have G: "\<not> isGenerating p' \<and> unflagged (newEvents p p') = []
           \<and> Notice AlreadyInProgress \<notin> snd ` set (newEvents p p')"
    if run: "generatePoster fuel h p = Some p'" for p'
  proof -
    have "list_all Q (newEvents p p') \<and> (\<not> isGenerating p \<longrightarrow> \<not> isGenerating p')"
      using generatePoster_summary [OF run, of Q] idle guardEvent_projections(7)
      by (simp add: Q_def allowsSession_def)
    then show ?thesis
      using idle list_all_flagged [of "newEvents p p'"] by (simp add: Q_def)
  qed
  have "list_all Q (newEvents p (regenerateLastPoster h p))
        \<and> (\<not> isGenerating p \<longrightarrow> \<not> isGenerating (regenerateLastPoster h p))"
    using regenerateLastPoster_summary [of Q p "regenerateLastPoster h p" h] idle
    by (simp add: Q_def)
  then have R: "\<not> isGenerating (regenerateLastPoster h p)
       \<and> unflagged (newEvents p (regenerateLastPoster h p)) = []
       \<and> Notice AlreadyInProgress \<notin> snd ` set (newEvents p (regenerateLastPoster h p))"
    using idle list_all_flagged [of "newEvents p (regenerateLastPoster h p)"] by (simp add: Q_def)
  show ?thesis
    using G R generatePoster_returns [of p fuel h] by blast
qed

text \<open>
  A key refused by the prompt client: one call, the error shown, the flag clear, and the
  next request runs and succeeds.
\<close>

lemma refused_key_then_success:
  "\<not> isGenerating demoPlugin
   \<and> map_option (\<lambda>q. (isGenerating q, newEvents demoPlugin q))
       (generatePoster (Suc 0) rejectingHost demoPlugin) =
       Some (False, [(True, ModalOpen), (True, UpdateProgress generating_prompt 20),
                     (True, PromptCall ''Explain TCP handshake'' openai ''prompt-model''
                              ''sk-openai'' (Inl (GenerationErrorClass invalidKey))),
                     (True, ShowError invalidKey)])
   \<and> map_option (\<lambda>q. (isGenerating q, successes (trace q)))
       (Option.bind (generatePoster (Suc 0) rejectingHost demoPlugin)
          (generatePoster (Suc 0) rejectingHost)) =
       Some (False, [ShowSuccess ''attachments/poster.png''])"
  using flag_clear_when_run_alone [of demoPlugin "Suc 0" rejectingHost]
  by (simp add: rejecting_generate rejecting_generate_again newEvents_def)
     (simp add: demo_defs)

subsection \<open>The flag between the awaits of \<^verbatim>\<open>generatePoster\<close>\<close>

text \<open>
  The pieces of \<^verbatim>\<open>generatePoster\<close> make up the method: one request, going on from await to
  await with nothing in between, is the method run alone.
\<close>

lemma posterRound_pieces:
  "posterRound h noteFile noteContent providerKey style resolution cuts progressModal p =
     (let (progressModal1, p2) = roundBegin progressModal p
      in roundRest h noteFile noteContent providerKey style resolution cuts progressModal1 p2)"
  by (simp add: posterRound_def roundBegin_def roundRest_def Let_def)

lemma showQuickOptionsModal_pieces:
  "showQuickOptionsModal h p =
     answerQuickOptionsModal h
       (newQuickOptionsModal (imageStyle (settings p)) (imageSize (settings p))
          (cartoonCuts (settings p)) (customCartoonCuts (settings p))) p"
  by (simp add: showQuickOptionsModal_def answerQuickOptionsModal_def)

lemma generatePoster_pieces:
  "generatePoster (Suc fuel) h p =
     map_option snd
       (proceed fuel h 0 (proceed fuel h 0 (proceed fuel h 0 (issue h (Some ([], p))))))"
proof (cases "isGenerating p")
  case True
  then show ?thesis
    by (simp add: generatePoster_def issue_def generatePoster_start_def proceed_def)
next
  case idle: False
  show ?thesis
  proof (cases "activeFile h (world p)")
    case None
    then show ?thesis
      using idle by (simp add: generatePoster_def issue_def generatePoster_start_def proceed_def)
  next
    case (Some noteFile)
    have st: "issue h (Some ([], p)) = Some ([Reading noteFile], p)"
      using idle Some by (simp add: issue_def generatePoster_start_def)
    obtain r p1 where aw: "await (vault_read h noteFile) p = (r, p1)" by force
    show ?thesis
    proof (cases "\<exists>noteContent. r = Inr noteContent \<and> trim noteContent \<noteq> []
                   \<and> getProviderApiKey p1 \<noteq> [] \<and> googleApiKey (settings p1) \<noteq> []")
      case False
      then show ?thesis
        using idle Some aw
        by (cases r)
           (auto simp: generatePoster_def st proceed_def generatePoster_afterRead_def Let_def)
    next
      case True
      then obtain noteContent where nc: "r = Inr noteContent" "trim noteContent \<noteq> []"
        "getProviderApiKey p1 \<noteq> []" "googleApiKey (settings p1) \<noteq> []" by blast
      obtain quickOptions p2 where sq: "showQuickOptionsModal h p1 = (quickOptions, p2)" by force
      then have an: "answerQuickOptionsModal h
               (newQuickOptionsModal (imageStyle (settings p1)) (imageSize (settings p1))
                  (cartoonCuts (settings p1)) (customCartoonCuts (settings p1))) p1 = (quickOptions, p2)"
        by (simp add: showQuickOptionsModal_pieces)
      have rd: "proceed fuel h 0 (Some ([Reading noteFile], p)) =
                  Some ([Choosing noteFile noteContent (getProviderApiKey p1)
                          (newQuickOptionsModal (imageStyle (settings p1)) (imageSize (settings p1))
                             (cartoonCuts (settings p1)) (customCartoonCuts (settings p1)))], p1)"
        using aw nc by (simp add: proceed_def generatePoster_afterRead_def Let_def)
      show ?thesis
      proof (cases "confirmed quickOptions")
        case False
        then show ?thesis
          using idle Some aw nc sq an
          by (simp add: generatePoster_def st rd Let_def)
             (simp add: proceed_def generatePoster_afterOptions_def)
      next
        case True
        obtain pm1 p4 where rb: "roundBegin False (p2\<lparr>isGenerating := True, lastNoteFile := Some noteFile\<rparr>)
                                   = (pm1, p4)" by force
        show ?thesis
          using idle Some aw nc sq an True rb
          apply (simp add: generatePoster_def st rd Let_def posterRound_pieces)
          apply (simp add: proceed_def generatePoster_afterOptions_def Let_def
                   generatePoster_afterPrompt_def option.map_comp comp_def)
          done
      qed
    qed
  qed
qed


text \<open>The two requests of the schedule, state by state.\<close>

lemma firstAccepted_eq:
  "firstAccepted =
     Some ([Choosing (TFile ''note.md'') ''Explain TCP handshake'' ''sk-openai''
              \<lparr>selectedStyle = diagram, selectedSize = size_2K, selectedCartoonCuts = cuts_4,
               selectedCustomCuts = Num 4\<rparr>], demoPlugin)"
  by (simp add: firstAccepted_def issue_def proceed_def generatePoster_start_def
        generatePoster_afterRead_def demo_defs step_defs)

lemma bothAccepted_eq:
  "bothAccepted =
     Some ([Choosing (TFile ''note.md'') ''Explain TCP handshake'' ''sk-openai''
              \<lparr>selectedStyle = diagram, selectedSize = size_2K, selectedCartoonCuts = cuts_4,
               selectedCustomCuts = Num 4\<rparr>,
            Choosing (TFile ''note.md'') ''Explain TCP handshake'' ''sk-openai''
              \<lparr>selectedStyle = diagram, selectedSize = size_2K, selectedCartoonCuts = cuts_4,
               selectedCustomCuts = Num 4\<rparr>], demoPlugin)"
  unfolding bothAccepted_def firstAccepted_eq
  by (simp add: issue_def proceed_def generatePoster_start_def
        generatePoster_afterRead_def demo_defs step_defs)

lemma bothRunning_eq:
  "bothRunning =
     Some ([Prompting (TFile ''note.md'') ''Explain TCP handshake'' ''sk-openai'' diagram size_2K
              (Num 4) True,
            Prompting (TFile ''note.md'') ''Explain TCP handshake'' ''sk-openai'' diagram size_2K
              (Num 4) True],
           demoPlugin\<lparr>lastNoteFile := Some (TFile ''note.md''), isGenerating := True,
             trace := [(True, ModalOpen), (True, UpdateProgress generating_prompt 20),
                       (True, ModalOpen), (True, UpdateProgress generating_prompt 20)]\<rparr>)"
  unfolding bothRunning_def bothAccepted_eq
  by (simp add: proceed_def generatePoster_afterOptions_def answerQuickOptionsModal_def
        roundBegin_def demo_defs step_defs)

lemma secondEnded_eq:
  "secondEnded =
     Some ([Prompting (TFile ''note.md'') ''Explain TCP handshake'' ''sk-openai'' diagram size_2K
              (Num 4) True, Finished],
           demoPlugin\<lparr>lastPrompt := ''raw prompt'', lastNoteFile := Some (TFile ''note.md''),
             world := 2,
             trace := [(True, ModalOpen), (True, UpdateProgress generating_prompt 20),
                       (True, ModalOpen), (True, UpdateProgress generating_prompt 20),
                       (True, PromptCall ''Explain TCP handshake'' openai ''prompt-model''
                                ''sk-openai'' (Inr \<lparr>prompt = ''raw prompt''\<rparr>)),
                       (True, UpdateProgress generating_image 50),
                       (True, ImageCall ''raw prompt'' ''g-key'' ''image-model'' diagram ''en''
                                size_2K (Num 4)
                                (Inr \<lparr>imageData = ''bytes'', mimeType = ''image/png''\<rparr>)),
                       (True, UpdateProgress saving 80), (True, UpdateProgress embedding 95),
                       (True, UpdateProgress complete 100),
                       (True, ShowSuccess ''attachments/poster.png'')]\<rparr>)"
  unfolding secondEnded_def bothRunning_eq
  apply (simp add: proceed_def generatePoster_afterPrompt_def roundRest_def demo_defs step_defs)
  apply (subst retry_first_success)
    apply (simp add: step_defs)
   apply (simp add: step_defs)
  apply (simp add: step_defs imageSteps_def)
  apply (subst retry_first_success)
    apply (simp_all add: step_defs numeral_2_eq_2)
  done

lemma bothEnded_eq:
  "bothEnded =
     Some ([Finished, Finished],
           demoPlugin\<lparr>lastPrompt := ''raw prompt'', lastNoteFile := Some (TFile ''note.md''),
             world := 4,
             trace := [(True, ModalOpen), (True, UpdateProgress generating_prompt 20),
                       (True, ModalOpen), (True, UpdateProgress generating_prompt 20),
                       (True, PromptCall ''Explain TCP handshake'' openai ''prompt-model''
                                ''sk-openai'' (Inr \<lparr>prompt = ''raw prompt''\<rparr>)),
                       (True, UpdateProgress generating_image 50),
                       (True, ImageCall ''raw prompt'' ''g-key'' ''image-model'' diagram ''en''
                                size_2K (Num 4)
                                (Inr \<lparr>imageData = ''bytes'', mimeType = ''image/png''\<rparr>)),
                       (True, UpdateProgress saving 80), (True, UpdateProgress embedding 95),
                       (True, UpdateProgress complete 100),
                       (True, ShowSuccess ''attachments/poster.png''),
                       (False, PromptCall ''Explain TCP handshake'' openai ''prompt-model''
                                ''sk-openai'' (Inr \<lparr>prompt = ''raw prompt''\<rparr>)),
                       (False, UpdateProgress generating_image 50),
                       (False, ImageCall ''raw prompt'' ''g-key'' ''image-model'' diagram ''en''
                                size_2K (Num 4)
                                (Inr \<lparr>imageData = ''bytes'', mimeType = ''image/png''\<rparr>)),
                       (False, UpdateProgress saving 80), (False, UpdateProgress embedding 95),
                       (False, UpdateProgress complete 100),
                       (False, ShowSuccess ''attachments/poster.png'')]\<rparr>)"
  unfolding bothEnded_def secondEnded_eq
  apply (simp add: proceed_def generatePoster_afterPrompt_def roundRest_def demo_defs step_defs)
  apply (subst retry_first_success)
    apply (simp add: step_defs)
   apply (simp add: step_defs)
  apply (simp add: step_defs imageSteps_def)
  apply (subst retry_first_success)
    apply (simp_all add: step_defs eval_nat_numeral)
  done

text \<open>
  The piece that runs when the options modal is answered does not read the flag: when
  the user has confirmed, it sets the flag and goes on, whatever the flag was.
\<close>

lemma generatePoster_afterOptions_flag:
  "generatePoster_afterOptions h noteFile noteContent providerKey modal (p\<lparr>isGenerating := b\<rparr>) =
     (let (r, p') = generatePoster_afterOptions h noteFile noteContent providerKey modal p
      in (r, if r = Finished then p'\<lparr>isGenerating := b\<rparr> else p'))"
proof -
  obtain inputs button w where ou: "optionsUser h (world p) = ((inputs, button), w)"
    by (metis surj_pair)
  show ?thesis
    by (cases button)
       (simp_all add: generatePoster_afterOptions_def answerQuickOptionsModal_def roundBegin_def
          updateProgress_def emit_def Let_def ou onSubmit_def)
qed

text \<open>
  C3. \<^verbatim>\<open>generatePoster\<close> does not set \<open>isGenerating\<close> when it has accepted a request, but
  only when the options modal has been confirmed, two awaits later. On the plugin that
  has not generated anything, the command started twice in a row leaves two requests
  waiting for the note to be read. A first request passes the guards and waits at its
  options modal with the flag clear; a second request started then is not refused and
  opens its own modal. Both modals confirmed, both sessions run, each with its calls of the prompt
  client and of the image client. The session that ends first clears the flag, and what
  the other does after that, it does with the flag clear.
\<close>

theorem generatePoster_sets_flag_late:
  "\<not> isGenerating demoPlugin
   \<and> issue demoHost (issue demoHost (Some ([], demoPlugin))) =
       Some ([Reading (TFile ''note.md''), Reading (TFile ''note.md'')], demoPlugin)
   \<and> firstAccepted =
       Some ([Choosing (TFile ''note.md'') ''Explain TCP handshake'' ''sk-openai''
                \<lparr>selectedStyle = diagram, selectedSize = size_2K, selectedCartoonCuts = cuts_4,
                 selectedCustomCuts = Num 4\<rparr>], demoPlugin)
   \<and> issue demoHost firstAccepted =
       Some ([Choosing (TFile ''note.md'') ''Explain TCP handshake'' ''sk-openai''
                \<lparr>selectedStyle = diagram, selectedSize = size_2K, selectedCartoonCuts = cuts_4,
                 selectedCustomCuts = Num 4\<rparr>,
              Reading (TFile ''note.md'')], demoPlugin)
   \<and> bothRunning =
       Some ([Prompting (TFile ''note.md'') ''Explain TCP handshake'' ''sk-openai'' diagram size_2K
                (Num 4) True,
              Prompting (TFile ''note.md'') ''Explain TCP handshake'' ''sk-openai'' diagram size_2K
                (Num 4) True],
             demoPlugin\<lparr>lastNoteFile := Some (TFile ''note.md''), isGenerating := True,
               trace := [(True, ModalOpen), (True, UpdateProgress generating_prompt 20),
                         (True, ModalOpen), (True, UpdateProgress generating_prompt 20)]\<rparr>)
   \<and> fst (the secondEnded) =
         [Prompting (TFile ''note.md'') ''Explain TCP handshake'' ''sk-openai'' diagram size_2K
            (Num 4) True, Finished]
   \<and> \<not> isGenerating (snd (the secondEnded))
   \<and> fst (the bothEnded) = [Finished, Finished]
   \<and> providerCalls (trace (snd (the bothEnded))) =
        [PromptCall ''Explain TCP handshake'' openai ''prompt-model'' ''sk-openai''
           (Inr \<lparr>prompt = ''raw prompt''\<rparr>),
         ImageCall ''raw prompt'' ''g-key'' ''image-model'' diagram ''en'' size_2K (Num 4)
           (Inr \<lparr>imageData = ''bytes'', mimeType = ''image/png''\<rparr>),
         PromptCall ''Explain TCP handshake'' openai ''prompt-model'' ''sk-openai''
           (Inr \<lparr>prompt = ''raw prompt''\<rparr>),
         ImageCall ''raw prompt'' ''g-key'' ''image-model'' diagram ''en'' size_2K (Num 4)
           (Inr \<lparr>imageData = ''bytes'', mimeType = ''image/png''\<rparr>)]
   \<and> unflagged (trace (snd (the bothEnded))) =
        [PromptCall ''Explain TCP handshake'' openai ''prompt-model'' ''sk-openai''
           (Inr \<lparr>prompt = ''raw prompt''\<rparr>),
         UpdateProgress generating_image 50,
         ImageCall ''raw prompt'' ''g-key'' ''image-model'' diagram ''en'' size_2K (Num 4)
           (Inr \<lparr>imageData = ''bytes'', mimeType = ''image/png''\<rparr>),
         UpdateProgress saving 80, UpdateProgress embedding 95, UpdateProgress complete 100,
         ShowSuccess ''attachments/poster.png'']"
  unfolding bothRunning_eq secondEnded_eq bothEnded_eq firstAccepted_eq
  by (simp add: issue_def generatePoster_start_def demo_defs)

subsection \<open>Progress\<close>








text \<open>
  What is left open above. \<^verbatim>\<open>generatePoster\<close> updates the progress modal with the step
  \<^verbatim>\<open>complete\<close> at 100 before it shows the success; \<^verbatim>\<open>regenerateLastPoster\<close> goes from the
  update at 95 to showing the success.
\<close>

lemma regenerate_skips_complete:
  "successes (newEvents cachedPlugin (regenerateLastPoster demoHost cachedPlugin))
     = [ShowSuccess ''attachments/poster.png'']
   \<and> progressOf (newEvents cachedPlugin (regenerateLastPoster demoHost cachedPlugin)) = [40, 80, 95]"
  unfolding cached_regenerate by (simp add: newEvents_def demo_defs)

subsection \<open>Panel counts\<close>

lemma clampCustomCuts_range: "inPanelRange (clampCustomCuts v)"
proof -
  have "\<exists>k. or_else x (Num 4) = Num k" for x
    by (cases x) simp_all
  then obtain k where "or_else (parseInt v) (Num 4) = Num k" by blast
  then show ?thesis by (simp add: clampCustomCuts_def)
qed

lemma onChange_customCuts:
  "inPanelRange (selectedCustomCuts (onChange i m))
   \<or> selectedCustomCuts (onChange i m) = selectedCustomCuts m"
  by (cases i) (simp_all add: clampCustomCuts_range)

lemma foldl_onChange_customCuts:
  "inPanelRange (selectedCustomCuts (foldl (\<lambda>m i. onChange i m) m inputs))
   \<or> selectedCustomCuts (foldl (\<lambda>m i. onChange i m) m inputs) = selectedCustomCuts m"
proof (induction inputs arbitrary: m)
  case Nil
  then show ?case by simp
next
  case (Cons i inputs)
  show ?case
    using Cons.IH [of "onChange i m"] onChange_customCuts [of i m] by auto
qed

lemma optionsOutcome_customCuts:
  "clampedOrStored st (customCartoonCuts_r (optionsOutcome st inputs button))"
  using foldl_onChange_customCuts
          [of "newQuickOptionsModal (imageStyle st) (imageSize st) (cartoonCuts st)
                 (customCartoonCuts st)" inputs]
  by (simp add: optionsOutcome_def onSubmit_def newQuickOptionsModal_def clampedOrStored_def)

lemma getCartoonCutsNumber_range:
  "inPanelRange (getCartoonCutsNumber cuts customCuts) \<or> getCartoonCutsNumber cuts customCuts = customCuts"
proof -
  have "parseInt ''4'' = Num 4" "parseInt ''6'' = Num 6" "parseInt ''8'' = Num 8"
    by code_simp+
  then show ?thesis
    by (cases cuts) (simp_all add: getCartoonCutsNumber_def)
qed

lemma cartoonPanelCounts_all:
  assumes "list_all (\<lambda>x. list_all P (cartoonPanelCount x)) N"
  shows "list_all P (cartoonPanelCounts N)"
  using assms by (induction N) simp_all

lemma clampCustomCuts_value:
  "clampCustomCuts v =
     (case parseInt v of
        NaN \<Rightarrow> Num 4
      | Num k \<Rightarrow> if k = 0 then Num 4 else Num (max 2 (min 12 k)))"
  by (cases "parseInt v") (simp_all add: clampCustomCuts_def)

lemma parseInt_examples:
  "parseInt ''1'' = Num 1" "parseInt ''7'' = Num 7" "parseInt ''abc'' = NaN"
  "parseInt ''0'' = Num 0" "parseInt [] = NaN" "parseInt ''-3'' = Num (- 3)"
  "parseInt (CHR 0xA0 # ''12'') = Num 12" "parseInt '' 0x1F'' = Num 31"
  "parseInt ''9 panels'' = Num 9"
  by code_simp+

lemma regenerate_panel_count:
  fixes p :: "'w plugin"
  shows "list_all (\<lambda>c. c = getCartoonCutsNumber (cartoonCuts (settings p))
                             (customCartoonCuts (settings p)))
           (cartoonPanelCounts (newEvents p (regenerateLastPoster h p)))"
proof -
  define Q :: "bool \<times> event \<Rightarrow> bool" where
    "Q = (\<lambda>x. list_all (\<lambda>c. c = getCartoonCutsNumber (cartoonCuts (settings p))
                             (customCartoonCuts (settings p))) (cartoonPanelCount x))"
  have "list_all Q (newEvents p (regenerateLastPoster h p))"
    using regenerateLastPoster_summary [of Q p "regenerateLastPoster h p" h]
    by (simp add: Q_def)
  then show ?thesis
    unfolding Q_def by (rule cartoonPanelCounts_all)
qed

text \<open>
  The sentence of the spec on the panel count, C7, does not hold as it stands. With the
  style cartoon, the selector \<^verbatim>\<open>custom\<close> and 15 as the stored custom panel count,
  \<^verbatim>\<open>regenerateLastPoster\<close> hands 15 to the image client, and so does \<^verbatim>\<open>generatePoster\<close> when
  the user confirms the options modal without typing into the field.
\<close>

theorem stored_panel_count_counterexample:
  "imageStyle (settings cartoonPlugin) = cartoon
   \<and> customCartoonCuts (settings cartoonPlugin) = Num 15
   \<and> cartoonPanelCounts (newEvents cartoonPlugin (regenerateLastPoster demoHost cartoonPlugin))
       = [Num 15]
   \<and> generatePoster (Suc 0) demoHost cartoonPlugin \<noteq> None
   \<and> cartoonPanelCounts
         (newEvents cartoonPlugin (the (generatePoster (Suc 0) demoHost cartoonPlugin))) = [Num 15]
   \<and> \<not> inPanelRange (Num 15)"
  unfolding cartoon_regenerate cartoon_generate
  by (simp add: newEvents_def demo_defs)

text \<open>
  C7, amended. What is typed into the custom panel count field of the options modal is
  stored as follows: 4 when \<^verbatim>\<open>parseInt\<close> of the text is \<^verbatim>\<open>NaN\<close> or 0, and otherwise the
  integer that \<^verbatim>\<open>parseInt\<close> reads, raised to 2 when it is below and lowered to 12 when it is
  above; so what is stored by typing is within 2..12. The panel count of every call of
  the image client with the style cartoon is within 2..12 or is the stored setting
  \<^verbatim>\<open>customCartoonCuts\<close>, passed on as it is; from \<^verbatim>\<open>regenerateLastPoster\<close> it is what
  \<^verbatim>\<open>getCartoonCutsNumber\<close> gives for the stored selector and the stored custom count.
\<close>

theorem panel_count_bounds:
  fixes p :: "'w plugin"
  shows "clampCustomCuts v =
           (case parseInt v of
              NaN \<Rightarrow> Num 4
            | Num k \<Rightarrow> if k = 0 then Num 4 else Num (max 2 (min 12 k)))
       \<and> inPanelRange (clampCustomCuts v)
       \<and> (selectedStyle m = cartoon \<and> selectedCartoonCuts m = custom \<longrightarrow>
            onChange (CustomCutsText v) m = m\<lparr>selectedCustomCuts := clampCustomCuts v\<rparr>)
       \<and> (\<forall>p'. generatePoster fuel h p = Some p' \<longrightarrow>
             list_all (clampedOrStored (settings p)) (cartoonPanelCounts (newEvents p p')))
       \<and> list_all (clampedOrStored (settings p))
           (cartoonPanelCounts (newEvents p (regenerateLastPoster h p)))
       \<and> list_all (\<lambda>c. c = getCartoonCutsNumber (cartoonCuts (settings p))
                               (customCartoonCuts (settings p)))
           (cartoonPanelCounts (newEvents p (regenerateLastPoster h p)))"
proof -
  define Q :: "bool \<times> event \<Rightarrow> bool" where
    "Q = (\<lambda>x. list_all (clampedOrStored (settings p)) (cartoonPanelCount x))"
  have cs: "clampedOrStored (settings p) (getCartoonCutsNumber cuts c)"
    if "clampedOrStored (settings p) c" for cuts c
    using that getCartoonCutsNumber_range [of cuts c] by (auto simp: clampedOrStored_def)
  have G: "list_all (clampedOrStored (settings p)) (cartoonPanelCounts (newEvents p p'))"
    if run: "generatePoster fuel h p = Some p'" for p'
  proof -
    have "list_all Q (newEvents p p')"
      using generatePoster_summary [OF run, of Q] guardEvent_projections(6)
            cs [OF optionsOutcome_customCuts]
      by (simp add: Q_def allowsSession_def)
    then show ?thesis
      unfolding Q_def by (rule cartoonPanelCounts_all)
  qed
  have "clampedOrStored (settings p) (customCartoonCuts (settings p))"
    by (simp add: clampedOrStored_def)
  then have "list_all Q (newEvents p (regenerateLastPoster h p))"
    using regenerateLastPoster_summary [of Q p "regenerateLastPoster h p" h] cs
    by (simp add: Q_def)
  then have R: "list_all (clampedOrStored (settings p))
                  (cartoonPanelCounts (newEvents p (regenerateLastPoster h p)))"
    unfolding Q_def by (rule cartoonPanelCounts_all)
  have T: "selectedStyle m = cartoon \<and> selectedCartoonCuts m = custom \<longrightarrow>
            onChange (CustomCutsText v) m = m\<lparr>selectedCustomCuts := clampCustomCuts v\<rparr>"
    by simp
  show ?thesis
    using G R T clampCustomCuts_range [of v] clampCustomCuts_value [of v]
          regenerate_panel_count [of p h]
    by blast
qed

theorem panel_count_bounds_witness:
  "clampCustomCuts ''15'' = Num 12
   \<and> clampCustomCuts ''1'' = Num 2
   \<and> clampCustomCuts ''7'' = Num 7
   \<and> clampCustomCuts ''abc'' = Num 4
   \<and> clampCustomCuts ''0'' = Num 4
   \<and> clampCustomCuts [] = Num 4
   \<and> clampCustomCuts ''-3'' = Num 2
   \<and> clampCustomCuts (CHR 0xA0 # ''12'') = Num 12
   \<and> clampCustomCuts ''9 panels'' = Num 9
   \<and> onChange (CustomCutsText ''15'') (newQuickOptionsModal cartoon size_2K custom (Num 4))
       = newQuickOptionsModal cartoon size_2K custom (Num 12)
   \<and> generatePoster (Suc 0) scenarioBHost demoPlugin \<noteq> None
   \<and> cartoonPanelCounts
         (newEvents demoPlugin (the (generatePoster (Suc 0) scenarioBHost demoPlugin))) = [Num 12]
   \<and> clampedOrStored (settings demoPlugin) (Num 12)
   \<and> cartoonPanelCounts (newEvents cartoonPlugin (regenerateLastPoster demoHost cartoonPlugin))
       = [getCartoonCutsNumber custom (Num 15)]"
proof -
  note T = panel_count_bounds [of _ "newQuickOptionsModal cartoon size_2K custom (Num 4)"
             "Suc 0" scenarioBHost demoPlugin]
  note R = panel_count_bounds [of "''15''" "newQuickOptionsModal cartoon size_2K custom (Num 4)"
             "Suc 0" demoHost cartoonPlugin]
  have c: "clampCustomCuts v =
             (case parseInt v of
                NaN \<Rightarrow> Num 4
              | Num k \<Rightarrow> if k = 0 then Num 4 else Num (max 2 (min 12 k)))" for v
    using T [of v] by blast
  have typed: "onChange (CustomCutsText ''15'') (newQuickOptionsModal cartoon size_2K custom (Num 4))
                 = newQuickOptionsModal cartoon size_2K custom (Num 12)"
    using T [of "''15''"] by (simp add: newQuickOptionsModal_def c parseInt_15)
  have run: "cartoonPanelCounts
               (newEvents demoPlugin (the (generatePoster (Suc 0) scenarioBHost demoPlugin))) = [Num 12]"
            "clampedOrStored (settings demoPlugin) (Num 12)"
    using T [of "''15''"] unfolding scenarioB_generate
    by (simp_all add: newEvents_def demo_defs clampedOrStored_def)
  have regen: "cartoonPanelCounts (newEvents cartoonPlugin (regenerateLastPoster demoHost cartoonPlugin))
                 = [getCartoonCutsNumber custom (Num 15)]"
    using R unfolding cartoon_regenerate
    by (simp add: newEvents_def demo_defs getCartoonCutsNumber_def)
  show ?thesis
    using typed run regen
    by (simp add: c parseInt_examples parseInt_15 scenarioB_generate)
qed

subsection \<open>The cached prompt\<close>

lemma generatePromptOnly_cache:
  "trace (generatePromptOnly h p) = trace p @ newEvents p (generatePromptOnly h p)
   \<and> lastPrompt (generatePromptOnly h p)
       \<in> set (lastPrompt p # promptsReturned (newEvents p (generatePromptOnly h p)))"
  by (auto simp: generatePromptOnly_def newEvents_def await_def invoke_def emit_def Let_def
        promptOperation_def
        split: option.splits prod.splits sum.splits)

lemma rawCache_step:
  assumes "rawCache p" "trace p' = trace p @ N" "lastPrompt p' \<in> set (lastPrompt p # promptsReturned N)"
  shows "rawCache p'"
  using assms by (auto simp: rawCache_def)

lemma imagePrompts_all:
  assumes "list_all (\<lambda>x. list_all P (imagePrompt x)) N"
  shows "list_all P (imagePrompts N)"
  using assms by (induction N) simp_all

text \<open>
  C10. The cache \<open>lastPrompt\<close> only ever takes a prompt as the prompt client returned it.
  After \<^verbatim>\<open>generatePoster\<close> it is the last prompt that the client returned in that run, or
  what it was when the client returned none: not the prompt with the prefix, nor the text
  that came back from the preview. \<^verbatim>\<open>generatePromptOnly\<close> leaves it as it was or sets it to
  the prompt the client returned. \<^verbatim>\<open>regenerateLastPoster\<close> leaves it as it was, and the prompt
  of every call it makes of the image client is the cached one.
\<close>

theorem cached_prompt_is_raw:
  fixes p :: "'w plugin"
  shows "(\<forall>p'. generatePoster fuel h p = Some p' \<longrightarrow>
            lastPrompt p' = last (lastPrompt p # promptsReturned (newEvents p p'))
            \<and> (rawCache p \<longrightarrow> rawCache p'))
       \<and> lastPrompt (generatePromptOnly h p)
           \<in> set (lastPrompt p # promptsReturned (newEvents p (generatePromptOnly h p)))
       \<and> (rawCache p \<longrightarrow> rawCache (generatePromptOnly h p))
       \<and> lastPrompt (regenerateLastPoster h p) = lastPrompt p
       \<and> (rawCache p \<longrightarrow> rawCache (regenerateLastPoster h p))
       \<and> list_all (\<lambda>f. f = lastPrompt p) (imagePrompts (newEvents p (regenerateLastPoster h p)))"
proof -
  define Q :: "bool \<times> event \<Rightarrow> bool" where
    "Q = (\<lambda>x. list_all (\<lambda>f. f = lastPrompt p) (imagePrompt x))"
  have G: "lastPrompt p' = last (lastPrompt p # promptsReturned (newEvents p p'))
           \<and> (rawCache p \<longrightarrow> rawCache p')"
    if run: "generatePoster fuel h p = Some p'" for p'
  proof -
    have S: "trace p' = trace p @ newEvents p p'"
            "lastPrompt p' = last (lastPrompt p # promptsReturned (newEvents p p'))"
      using generatePoster_summary [OF run, of "\<lambda>x. True"] by (simp_all add: allowsSession_def)
    have "last (lastPrompt p # promptsReturned (newEvents p p'))
            \<in> set (lastPrompt p # promptsReturned (newEvents p p'))"
      by (rule last_in_set) simp
    then have "rawCache p'" if "rawCache p"
      using that S rawCache_step [of p p' "newEvents p p'"] by simp
    with S show ?thesis by simp
  qed
  have P: "rawCache (generatePromptOnly h p)" if "rawCache p"
    using that generatePromptOnly_cache [of h p] by (blast intro: rawCache_step)
  have R: "lastPrompt (regenerateLastPoster h p) = lastPrompt p"
          "trace (regenerateLastPoster h p) = trace p @ newEvents p (regenerateLastPoster h p)"
          "list_all Q (newEvents p (regenerateLastPoster h p))"
    using regenerateLastPoster_summary [of Q p "regenerateLastPoster h p" h]
    by (simp_all add: Q_def)
  have R1: "rawCache (regenerateLastPoster h p)" if "rawCache p"
    using that R(1,2) rawCache_step [of p "regenerateLastPoster h p"] by simp
  have R2: "list_all (\<lambda>f. f = lastPrompt p) (imagePrompts (newEvents p (regenerateLastPoster h p)))"
    using R(3) unfolding Q_def by (rule imagePrompts_all)
  show ?thesis
    using G P R(1) R1 R2 generatePromptOnly_cache [of h p] by blast
qed

theorem cached_prompt_is_raw_witness:
  "rawCache prefixPlugin
   \<and> customPromptPrefix (settings prefixPlugin) = ''Use flat colours''
   \<and> map_option (\<lambda>q. (imagePrompts (newEvents prefixPlugin q), lastPrompt q, rawCache q))
       (generatePoster (Suc 0) demoHost prefixPlugin)
       = Some ([''edited prompt''], ''raw prompt'', True)
   \<and> map_option (\<lambda>q. (imagePrompts (newEvents prefixPlugin q), lastPrompt q))
       (generatePoster (Suc (Suc 0)) indecisiveHost prefixPlugin)
       = Some ([''Use flat colours'' @ [CHR 0x0A, CHR 0x0A] @ ''raw prompt''], ''raw prompt'')
   \<and> map_option (\<lambda>q. (imagePrompts (newEvents q (regenerateLastPoster demoHost q)),
                       lastPrompt (regenerateLastPoster demoHost q)))
       (generatePoster (Suc 0) demoHost prefixPlugin)
       = Some ([''raw prompt''], ''raw prompt'')"
  using cached_prompt_is_raw [of "Suc 0" demoHost prefixPlugin]
  by (simp add: prefix_generate indecisive_generate prefix_regenerate newEvents_def rawCache_def)
     (simp add: demo_defs)

end
